theory Spec2Isabelle
  imports Main "HOL-Library.Sublist"
begin

section \<open>Output details: which widget is built for an output\<close>

text \<open>
  \<^verbatim>\<open>FHoudiniOutputDetails::CreateWidget\<close> (HoudiniOutputDetails.cpp) looks at the first
  output of the array only. The enum \<^verbatim>\<open>EHoudiniOutputType\<close> is declared outside the two
  source files; its members are the ones the switch names, plus \<^verbatim>\<open>Invalid\<close>, which falls
  in the \<^verbatim>\<open>default\<close> branch with \<^verbatim>\<open>Skeletal\<close>.
\<close>

datatype EHoudiniOutputType =
    EHoudiniOutputType_Invalid
  | EHoudiniOutputType_Mesh
  | EHoudiniOutputType_Instancer
  | EHoudiniOutputType_Landscape
  | EHoudiniOutputType_Curve
  | EHoudiniOutputType_Skeletal

record UHoudiniOutput =
  OutputType :: EHoudiniOutputType
  bIsEditableNode :: bool
  OutputIsPendingKill :: bool

text \<open>The five widget builders \<^verbatim>\<open>Create*OutputWidget\<close>; the result of the model is the
  builder that is called on the main output, or nothing.\<close>

datatype OutputWidget =
    CreateMeshOutputWidget
  | CreateLandscapeOutputWidget
  | CreateInstancerOutputWidget
  | CreateCurveOutputWidget
  | CreateDefaultOutputWidget

text \<open>A pointer is \<open>None\<close> when null; \<^verbatim>\<open>IsValid\<close> is "not null and not pending kill".\<close>

definition IsValidOutput :: "UHoudiniOutput option \<Rightarrow> bool" where
  "IsValidOutput p = (case p of None \<Rightarrow> False | Some out \<Rightarrow> \<not> OutputIsPendingKill out)"

fun CreateWidgetSwitch :: "EHoudiniOutputType \<Rightarrow> OutputWidget" where
  "CreateWidgetSwitch EHoudiniOutputType_Mesh = CreateMeshOutputWidget"
| "CreateWidgetSwitch EHoudiniOutputType_Landscape = CreateLandscapeOutputWidget"
| "CreateWidgetSwitch EHoudiniOutputType_Instancer = CreateInstancerOutputWidget"
| "CreateWidgetSwitch EHoudiniOutputType_Curve = CreateCurveOutputWidget"
| "CreateWidgetSwitch EHoudiniOutputType_Skeletal = CreateDefaultOutputWidget"
| "CreateWidgetSwitch EHoudiniOutputType_Invalid = CreateDefaultOutputWidget"

definition CreateWidget :: "UHoudiniOutput option list \<Rightarrow> OutputWidget option" where
  "CreateWidget InOutputs =
     (case InOutputs of
        [] \<Rightarrow> None
      | MainOutput # _ \<Rightarrow>
          (case MainOutput of
             None \<Rightarrow> None
           | Some out \<Rightarrow>
               if OutputIsPendingKill out then None
               else if bIsEditableNode out \<and> OutputType out = EHoudiniOutputType_Curve then None
               else Some (CreateWidgetSwitch (OutputType out))))"

section \<open>Input translator: the default input type of a label\<close>

datatype EHoudiniInputType =
    EHoudiniInputType_Invalid
  | EHoudiniInputType_Geometry
  | EHoudiniInputType_Curve
  | EHoudiniInputType_Asset
  | EHoudiniInputType_Landscape
  | EHoudiniInputType_World
  | EHoudiniInputType_Skeletal

text \<open>
  \<^verbatim>\<open>FString::Contains(SubStr, ESearchCase::IgnoreCase)\<close> belongs to the host engine. It is
  modelled as the engine implements it: a scan over the start positions that compares
  the pattern character by character after upper-casing both sides. Characters are the
  8-bit characters of \<^typ>\<open>string\<close>; only the letters a-z change under \<open>ToUpper\<close>.
\<close>

definition ToUpper :: "char \<Rightarrow> char" where
  "ToUpper c = (let n = (of_char c :: nat) in if 97 \<le> n \<and> n \<le> 122 then char_of (n - 32) else c)"

fun StartsWithIgnoreCase :: "string \<Rightarrow> string \<Rightarrow> bool" where
  "StartsWithIgnoreCase s [] = True"
| "StartsWithIgnoreCase [] (p # ps) = False"
| "StartsWithIgnoreCase (c # s) (p # ps) = (ToUpper c = ToUpper p \<and> StartsWithIgnoreCase s ps)"

fun ContainsIgnoreCase :: "string \<Rightarrow> string \<Rightarrow> bool" where
  "ContainsIgnoreCase [] SubStr = StartsWithIgnoreCase [] SubStr"
| "ContainsIgnoreCase (c # s) SubStr =
     (StartsWithIgnoreCase (c # s) SubStr \<or> ContainsIgnoreCase s SubStr)"

definition GetDefaultInputTypeFromLabel :: "string \<Rightarrow> EHoudiniInputType" where
  "GetDefaultInputTypeFromLabel InputName =
     (if ContainsIgnoreCase InputName ''curve'' then EHoudiniInputType_Curve
      else if ContainsIgnoreCase InputName ''landscape''
              \<or> ContainsIgnoreCase InputName ''terrain''
              \<or> ContainsIgnoreCase InputName ''heightfield'' then EHoudiniInputType_Landscape
      else if ContainsIgnoreCase InputName ''world''
              \<or> ContainsIgnoreCase InputName ''outliner'' then EHoudiniInputType_World
      else if ContainsIgnoreCase InputName ''asset''
              \<or> ContainsIgnoreCase InputName ''hda'' then EHoudiniInputType_Asset
      else EHoudiniInputType_Geometry)"

text \<open>
  The claim's wording, "the label contains the word, case-insensitive": the word occurs
  as a contiguous block of the label once both are brought to one case.
\<close>

definition label_contains :: "string \<Rightarrow> string \<Rightarrow> bool" where
  "label_contains label word = sublist (map ToUpper word) (map ToUpper label)"

definition default_type_of_label :: "string \<Rightarrow> EHoudiniInputType" where
  "default_type_of_label label =
     (if label_contains label ''curve'' then EHoudiniInputType_Curve
      else if label_contains label ''landscape'' \<or> label_contains label ''terrain''
              \<or> label_contains label ''heightfield'' then EHoudiniInputType_Landscape
      else if label_contains label ''world'' \<or> label_contains label ''outliner''
           then EHoudiniInputType_World
      else if label_contains label ''asset'' \<or> label_contains label ''hda''
           then EHoudiniInputType_Asset
      else EHoudiniInputType_Geometry)"

section \<open>Input translator: data model\<close>

text \<open>
  The classes \<^verbatim>\<open>UHoudiniInput\<close>, \<^verbatim>\<open>UHoudiniInputObject\<close> and their subclasses are declared
  outside the two source files; the model keeps the members and accessors that
  HoudiniInputTranslator.cpp reads and writes. Node ids are \<^verbatim>\<open>int32\<close> values, \<open>-1\<close> meaning
  "no node"; no arithmetic is done on them, so they are integers here. A transform is an
  opaque value with a distinguished identity.
\<close>

datatype EHoudiniInputObjectType =
    EHoudiniInputObjectType_Invalid
  | EHoudiniInputObjectType_Object
  | EHoudiniInputObjectType_StaticMesh
  | EHoudiniInputObjectType_SkeletalMesh
  | EHoudiniInputObjectType_SceneComponent
  | EHoudiniInputObjectType_StaticMeshComponent
  | EHoudiniInputObjectType_InstancedStaticMeshComponent
  | EHoudiniInputObjectType_SplineComponent
  | EHoudiniInputObjectType_HoudiniSplineComponent
  | EHoudiniInputObjectType_HoudiniAssetComponent
  | EHoudiniInputObjectType_Actor
  | EHoudiniInputObjectType_Landscape
  | EHoudiniInputObjectType_Brush
  | EHoudiniInputObjectType_CameraComponent
  | EHoudiniInputObjectType_DataTable
  | EHoudiniInputObjectType_HoudiniAssetActor
  | EHoudiniInputObjectType_FoliageType_InstancedStaticMesh

type_synonym FTransform = nat

datatype EngineObjectState = EngineObject_Null | EngineObject_PendingKill | EngineObject_Live

definition FTransform_Identity :: FTransform where
  "FTransform_Identity = 0"

text \<open>
  An input object. The members every \<^verbatim>\<open>UHoudiniInputObject\<close> has are the fields of the
  first record; it is also the type of the components an actor input object holds
  (\<^verbatim>\<open>TArray<UHoudiniInputSceneComponent*>\<close>). The objects of an input's arrays add the
  component list, which only objects of type Actor fill. A component has no components
  of its own. \<open>EngineObject\<close> is the state of the engine object behind the input object (the
  actor, the component, the landscape proxy): a null pointer, pending kill, or live;
  \<open>BlueprintStaticMeshes\<close> holds the \<^verbatim>\<open>InputObjectNodeId\<close> of each blueprint static-mesh
  object, the one member the translator reads of them; \<open>CurveNodeId\<close> is the node id of
  the Houdini spline component of a Houdini-spline input object, \<open>None\<close> when that
  component is null or pending kill.
\<close>

record UHoudiniInputSceneComponent =
  Type :: EHoudiniInputObjectType
  bPendingKill :: bool
  InputNodeId :: int
  InputObjectNodeId :: int
  bHasChanged :: bool
  bTransformChanged :: bool
  bNeedsToTriggerUpdate :: bool
  Transform :: FTransform
  EngineObject :: EngineObjectState
  bIsBlueprint :: bool
  BlueprintStaticMeshes :: "int list"
  CurveNodeId :: "int option"

record UHoudiniInputObject = UHoudiniInputSceneComponent +
  ActorComponents :: "UHoudiniInputSceneComponent option list"

text \<open>
  Modelled from the spec: the accessors of \<^verbatim>\<open>UHoudiniInputObject\<close> are not under src/.
  Each flag is a member, written by the accessor that bears its name.
\<close>

definition MarkChanged :: "bool \<Rightarrow> 'a UHoudiniInputSceneComponent_scheme \<Rightarrow> 'a UHoudiniInputSceneComponent_scheme" where
  "MarkChanged b obj = obj\<lparr>bHasChanged := b\<rparr>"

definition MarkTransformChanged :: "bool \<Rightarrow> 'a UHoudiniInputSceneComponent_scheme \<Rightarrow> 'a UHoudiniInputSceneComponent_scheme" where
  "MarkTransformChanged b obj = obj\<lparr>bTransformChanged := b\<rparr>"

definition SetNeedsToTriggerUpdate :: "bool \<Rightarrow> 'a UHoudiniInputSceneComponent_scheme \<Rightarrow> 'a UHoudiniInputSceneComponent_scheme" where
  "SetNeedsToTriggerUpdate b obj = obj\<lparr>bNeedsToTriggerUpdate := b\<rparr>"

text \<open>
  An input. The fields carry the names of the getters of the source
  (\<^verbatim>\<open>InInput->GetInputNodeId()\<close> is \<open>GetInputNodeId InInput\<close>); a setter is a record update.
  \<open>InputObjectArrays\<close> is \<^verbatim>\<open>GetHoudiniInputObjectArray\<close>: the array of input objects kept
  for an input type, \<open>None\<close> where the source gets a null pointer; a null entry of an
  array is \<open>None\<close>. \<open>OuterIsHAC\<close> says that the outer object of the input is a Houdini
  asset component, \<open>OuterAssetId\<close> is that component's asset id.
\<close>

record UHoudiniInput =
  IsPendingKill :: bool
  ObjectName :: string
  GetName :: string
  GetLabel :: string
  GetHelp :: string
  GetInputType :: EHoudiniInputType
  GetPreviousInputType :: EHoudiniInputType
  GetAssetNodeId :: int
  GetInputNodeId :: int
  GetInputIndex :: int
  GetParameterId :: int
  IsObjectPathParameter :: bool
  HasChanged :: bool
  NeedsToTriggerUpdate :: bool
  bDataUploadNeeded :: bool
  HasLandscapeExportTypeChanged :: bool
  CanDeleteHoudiniNodes :: bool
  GetKeepWorldTransform :: bool
  GetPackBeforeMerge :: bool
  GetNodeBaseName :: string
  GetCreatedDataNodeIds :: "int list"
  InputObjectArrays :: "EHoudiniInputType \<rightharpoonup> UHoudiniInputObject option list"
  OuterIsHAC :: bool
  OuterAssetId :: int

definition GetHoudiniInputObjectArray ::
  "UHoudiniInput \<Rightarrow> EHoudiniInputType \<Rightarrow> UHoudiniInputObject option list option" where
  "GetHoudiniInputObjectArray InInput InType = InputObjectArrays InInput InType"

definition SetHoudiniInputObjectArray ::
  "EHoudiniInputType \<Rightarrow> UHoudiniInputObject option list \<Rightarrow> UHoudiniInput \<Rightarrow> UHoudiniInput" where
  "SetHoudiniInputObjectArray InType Objects InInput =
     InInput\<lparr>InputObjectArrays := (InputObjectArrays InInput)(InType \<mapsto> Objects)\<rparr>"

definition IsValidInput :: "UHoudiniInput option \<Rightarrow> bool" where
  "IsValidInput p = (case p of None \<Rightarrow> False | Some InInput \<Rightarrow> \<not> IsPendingKill InInput)"

section \<open>Input translator: the procedural engine as an environment\<close>

text \<open>
  Every call into the procedural engine (\<^verbatim>\<open>FHoudiniApi::*\<close>, the helpers of
  \<^verbatim>\<open>FHoudiniEngineUtils\<close>) and every effect on the host engine outside the input is
  appended to a log, in program order. A call whose result the code reads is answered by
  the environment as a function of the calls made so far and of the call itself, so the
  engine may answer the same question differently after a node was deleted.
\<close>

datatype TranslatorKind =
    HapiCreateInputNodeForObject
  | HapiCreateInputNodeForStaticMesh
  | HapiCreateInputNodeForSkeletalMesh
  | HapiCreateInputNodeForSceneComponent
  | HapiCreateInputNodeForStaticMeshComponent
  | HapiCreateInputNodeForInstancedStaticMeshComponent
  | HapiCreateInputNodeForSplineComponent
  | HapiCreateInputNodeForHoudiniSplineComponent
  | HapiCreateInputNodeForHoudiniAssetComponent
  | HapiCreateInputNodeForLandscape
  | HapiCreateInputNodeForBrush
  | HapiCreateInputNodeForCamera
  | HapiCreateInputNodeForDataTable
  | HapiCreateInputNodeForFoliageType_InstancedStaticMesh

datatype HAPI_Call =
    DeleteNode int
  | DisconnectNodeInput int int
  | ConnectNodeInput int int int
  | QueryNodeInput int int
  | SetParmStringValue int string int int
  | SetParmNodeValue int string int
  | SetParmIntValue int string int int
  | SetObjectTransform int FTransform
  | GetObjectTransform int
  | CreateNode string string
  | GetAssetInfo int
  | GetNodeInputName int int
  | HapiGetParentNodeId int
  | IsHoudiniNodeValid int
  | ClearDownstreamHoudiniAsset
  | CreateInputNode TranslatorKind UHoudiniInputSceneComponent
  | UpdateActor UHoudiniInputSceneComponent
  | GetHostTransform UHoudiniInputSceneComponent
  | LoadDefaultAsset int int
  | UpdateHoudiniInputCurves int
  | BuildStaticMeshesOnHoudiniProxyMeshOutputs UHoudiniInputSceneComponent
  | MarkAsNeedCook UHoudiniInputSceneComponent
  | TryCollectGarbage

datatype HAPI_Result =
  HAPI_Result (Succeeded: bool) (ResultId: int) (ResultString: string) (ResultTransform: FTransform)

text \<open>
  The translators \<^verbatim>\<open>HapiCreateInputNodeFor*\<close> other than the one for actors marshal
  geometry into the engine; the model takes them as part of the environment. A translator
  answers with its return value, with the input object as it leaves it (its node ids
  among others) and with what it did to the input that owns the object, which only the
  translator for Houdini asset components touches: the input's node id, and whether the
  input was marked changed.
\<close>

record TranslatorResult =
  TranslatorReturn :: bool
  ObjectAfter :: UHoudiniInputSceneComponent
  InputNodeIdAfter :: int
  bInputMarkedChanged :: bool

text \<open>
  What \<^verbatim>\<open>SetDefaultAssetFromHDA\<close> finds when it resolves the default value of an
  object-path parameter: the arrays of the input after the objects it loaded and the
  actors it found were stored with \<^verbatim>\<open>SetInputObjectAt\<close>, and its four counters.
\<close>

record DefaultAssetResult =
  ArraysAfter :: "EHoudiniInputType \<rightharpoonup> UHoudiniInputObject option list"
  GeoIdx :: nat
  WorldIdx :: nat
  LandscapedIdx :: nat
  HDAIdx :: nat

text \<open>
  What the host engine knows of the actor behind an input object when
  \<^verbatim>\<open>HapiCreateInputNodeForActor\<close> looks at it: whether it is a Houdini asset actor, whether
  its Houdini asset component is there and not pending kill, and what that component
  answers to \<^verbatim>\<open>HasAnyCurrentProxyOutput\<close>, \<^verbatim>\<open>IsHoudiniCookedDataAvailable\<close> (with its two
  out-parameters) and \<^verbatim>\<open>HasAnyOutputComponent\<close>.
\<close>

record AHoudiniAssetActorState =
  IsA_AHoudiniAssetActor :: bool
  AssetComponentIsValid :: bool
  HasAnyCurrentProxyOutput :: bool
  IsHoudiniCookedDataAvailable :: bool
  bPendingDeleteOrRebuild :: bool
  bInvalidState :: bool
  HasAnyOutputComponent :: bool

text \<open>
  The environment. Besides the engine and the translators it answers what the host engine
  knows: whether a garbage collection is running, the state of an actor that may be a
  Houdini asset actor, the components an actor has after \<^verbatim>\<open>Update\<close>, the current transform of an engine object, how a landscape's
  movement is applied to a height field's transform, what \<^verbatim>\<open>NewObject\<close> returns, what the
  default value of an object-path parameter resolves to (\<open>None\<close> when any step of the
  lookup fails), and the curve objects of an input after they were read back. Four
  accessors of \<^verbatim>\<open>UHoudiniInput\<close> whose bodies are not under src/ compute their answer from
  the input and are taken as given.
\<close>

record Environment =
  Api :: "HAPI_Call list \<Rightarrow> HAPI_Call \<Rightarrow> HAPI_Result"
  Translator :: "HAPI_Call list \<Rightarrow> TranslatorKind \<Rightarrow> UHoudiniInput \<Rightarrow> UHoudiniInputSceneComponent \<Rightarrow> TranslatorResult"
  IsGarbageCollecting :: "HAPI_Call list \<Rightarrow> bool"
  AssetActorState :: "HAPI_Call list \<Rightarrow> UHoudiniInputSceneComponent \<Rightarrow> AHoudiniAssetActorState"
  UpdatedActorComponents :: "HAPI_Call list \<Rightarrow> UHoudiniInput \<Rightarrow> UHoudiniInputObject \<Rightarrow> UHoudiniInputSceneComponent option list"
  HostTransform :: "HAPI_Call list \<Rightarrow> UHoudiniInputSceneComponent \<Rightarrow> FTransform"
  LandscapeTransformDiff :: "FTransform \<Rightarrow> FTransform \<Rightarrow> FTransform \<Rightarrow> FTransform"
  NewObject :: "HAPI_Call list \<Rightarrow> string \<Rightarrow> UHoudiniInput option"
  DefaultAssetFromHDA :: "HAPI_Call list \<Rightarrow> UHoudiniInput \<Rightarrow> DefaultAssetResult option"
  UpdatedInputCurves :: "HAPI_Call list \<Rightarrow> UHoudiniInput \<Rightarrow> UHoudiniInputObject option list option"
  IsDataUploadNeeded :: "UHoudiniInput \<Rightarrow> bool"
  IsTransformUploadNeeded :: "UHoudiniInput \<Rightarrow> bool"
  HasInputTypeChanged :: "UHoudiniInput \<Rightarrow> bool"
  GetNumberOfInputMeshes :: "UHoudiniInput \<Rightarrow> EHoudiniInputType \<Rightarrow> nat"

definition CallApi :: "Environment \<Rightarrow> HAPI_Call list \<Rightarrow> HAPI_Call \<Rightarrow> HAPI_Result \<times> HAPI_Call list" where
  "CallApi E log c = (Api E log c, log @ [c])"

section \<open>Input translator: disconnecting and destroying the nodes of an input\<close>

definition DisconnectInput ::
  "HAPI_Call list \<Rightarrow> UHoudiniInput option \<Rightarrow> EHoudiniInputType \<Rightarrow> bool \<times> UHoudiniInput option \<times> HAPI_Call list" where
  "DisconnectInput log InputToDestroy InputType =
     (case InputToDestroy of
        None \<Rightarrow> (False, None, log)
      | Some I \<Rightarrow>
          if IsPendingKill I then (False, Some I, log)
          else
            let log1 =
                  (if IsObjectPathParameter I
                   then log @ [SetParmStringValue (GetAssetNodeId I) [] (GetParameterId I) 0]
                   else if GetAssetNodeId I \<ge> 0 \<and> GetInputNodeId I \<ge> 0
                   then log @ [DisconnectNodeInput (GetAssetNodeId I) (GetInputIndex I)]
                   else log)
            in if InputType = EHoudiniInputType_Asset
               then (True, Some (I\<lparr>GetInputNodeId := -1\<rparr>),
                     if OuterIsHAC I then log1 @ [ClearDownstreamHoudiniAsset] else log1)
               else (True, Some I, log1))"

text \<open>The body of the loop over the components of an actor input object.\<close>

definition DestroyActorComponentNode ::
  "UHoudiniInputSceneComponent option \<Rightarrow> UHoudiniInputSceneComponent option" where
  "DestroyActorComponentNode p =
     (case p of
        None \<Rightarrow> None
      | Some c \<Rightarrow> if bPendingKill c then Some c else Some (c\<lparr>InputNodeId := -1\<rparr>))"

text \<open>
  The body of the loop over the input objects. \<open>ids\<close> is the local copy
  \<^verbatim>\<open>CreatedInputDataAssetIds\<close>; \<^verbatim>\<open>TArray::Remove\<close> removes every entry equal to its argument.
  The parent of the object node is asked for after \<^verbatim>\<open>InputObjectNodeId\<close> was reset,
  as in the source.
\<close>

definition DestroyInputObjectNodes ::
  "Environment \<Rightarrow> UHoudiniInputObject option \<Rightarrow> int list \<Rightarrow> HAPI_Call list
     \<Rightarrow> UHoudiniInputObject option \<times> int list \<times> HAPI_Call list" where
  "DestroyInputObjectNodes E p ids log =
     (case p of
        None \<Rightarrow> (None, ids, log)
      | Some obj \<Rightarrow>
          if bPendingKill obj then (Some obj, ids, log)
          else if Type obj = EHoudiniInputObjectType_HoudiniAssetComponent
          then (Some (obj\<lparr>InputNodeId := -1, InputObjectNodeId := -1\<rparr>),
                removeAll (InputNodeId obj) ids, log)
          else
            let obj1 = (if Type obj = EHoudiniInputObjectType_Actor
                        then obj\<lparr>ActorComponents := map DestroyActorComponentNode (ActorComponents obj)\<rparr>
                        else obj);
                (obj2, log2) =
                  (if InputNodeId obj1 \<ge> 0
                   then (obj1\<lparr>InputNodeId := -1\<rparr>, log @ [DeleteNode (InputNodeId obj1)])
                   else (obj1, log));
                (obj3, log3) =
                  (if InputObjectNodeId obj2 \<ge> 0
                   then
                     let logA = log2 @ [DeleteNode (InputObjectNodeId obj2)];
                         objA = obj2\<lparr>InputObjectNodeId := -1\<rparr>;
                         (Parent, logB) = CallApi E logA (HapiGetParentNodeId (InputObjectNodeId objA));
                         (Valid, logC) = CallApi E logB (IsHoudiniNodeValid (ResultId Parent))
                     in (objA, if Succeeded Valid then logC @ [DeleteNode (ResultId Parent)] else logC)
                   else (obj2, log2));
                obj4 =
                  (if Type obj3 = EHoudiniInputObjectType_HoudiniSplineComponent
                      \<and> \<not> IsGarbageCollecting E log3
                   then (case CurveNodeId obj3 of
                           None \<Rightarrow> obj3
                         | Some _ \<Rightarrow> obj3\<lparr>CurveNodeId := Some (-1)\<rparr>)
                   else obj3)
            in (Some (MarkChanged True obj4), ids, log3))"

fun DestroyInputObjectsLoop ::
  "Environment \<Rightarrow> UHoudiniInputObject option list \<Rightarrow> int list \<Rightarrow> HAPI_Call list
     \<Rightarrow> UHoudiniInputObject option list \<times> int list \<times> HAPI_Call list" where
  "DestroyInputObjectsLoop E [] ids log = ([], ids, log)"
| "DestroyInputObjectsLoop E (p # ps) ids log =
     (let (p', ids1, log1) = DestroyInputObjectNodes E p ids log;
          (ps', ids2, log2) = DestroyInputObjectsLoop E ps ids1 log1
      in (p' # ps', ids2, log2))"

fun DestroyInputAssets :: "int list \<Rightarrow> HAPI_Call list \<Rightarrow> HAPI_Call list" where
  "DestroyInputAssets [] log = log"
| "DestroyInputAssets (AssetNodeId # ids) log =
     (if AssetNodeId < 0 then DestroyInputAssets ids log
      else DestroyInputAssets ids (log @ [DeleteNode AssetNodeId]))"

text \<open>
  \<^verbatim>\<open>CreatedInputDataAssetIds\<close> is a copy of the input's list
  (\<^verbatim>\<open>TArray<int32> CreatedInputDataAssetIds = InputToDestroy->GetCreatedDataNodeIds();\<close>,
  where UploadInputData binds the same getter to a reference), so the removals and the
  final \<^verbatim>\<open>Empty()\<close> act on the copy and the input keeps its list.
\<close>

definition DestroyInputNodes ::
  "Environment \<Rightarrow> HAPI_Call list \<Rightarrow> UHoudiniInput option \<Rightarrow> EHoudiniInputType
     \<Rightarrow> bool \<times> UHoudiniInput option \<times> HAPI_Call list" where
  "DestroyInputNodes E log InputToDestroy InputType =
     (case InputToDestroy of
        None \<Rightarrow> (False, None, log)
      | Some I \<Rightarrow>
          if IsPendingKill I then (False, Some I, log)
          else if \<not> CanDeleteHoudiniNodes I then (False, Some I, log)
          else if InputType = EHoudiniInputType_Asset then (True, Some I, log)
          else
            let CreatedInputDataAssetIds = GetCreatedDataNodeIds I;
                (I1, ids1, log1) =
                  (case GetHoudiniInputObjectArray I InputType of
                     None \<Rightarrow> (I, CreatedInputDataAssetIds, log)
                   | Some InputObjectNodes \<Rightarrow>
                       let (objs', ids', log') =
                             DestroyInputObjectsLoop E InputObjectNodes CreatedInputDataAssetIds log
                       in (SetHoudiniInputObjectArray InputType objs' I, ids', log'));
                log2 = DestroyInputAssets ids1 log1;
                (I3, log3) =
                  (if GetInputNodeId I1 \<ge> 0
                   then
                     let CreatedInputId = GetInputNodeId I1;
                         (Parent, logA) = CallApi E log2 (HapiGetParentNodeId CreatedInputId);
                         (I2, logB) =
                           (if CreatedInputId \<ge> 0
                            then (I1\<lparr>GetInputNodeId := -1\<rparr>, logA @ [DeleteNode CreatedInputId])
                            else (I1, logA));
                         (Valid, logC) = CallApi E logB (IsHoudiniNodeValid (ResultId Parent))
                     in (I2, if Succeeded Valid then logC @ [DeleteNode (ResultId Parent)] else logC)
                   else (I1, log2))
            in (True, Some I3, log3))"

definition DisconnectAndDestroyInput ::
  "Environment \<Rightarrow> HAPI_Call list \<Rightarrow> UHoudiniInput option \<Rightarrow> EHoudiniInputType
     \<Rightarrow> bool \<times> UHoudiniInput option \<times> HAPI_Call list" where
  "DisconnectAndDestroyInput E log InputToDestroy InputType =
     (let (bSuccess1, I1, log1) = DisconnectInput log InputToDestroy InputType;
          (bSuccess2, I2, log2) = DestroyInputNodes E log1 I1 InputType
      in (bSuccess1 \<and> bSuccess2, I2, log2))"

section \<open>Input translator: uploading the input objects\<close>

text \<open>
  The two views of an input object: an object of an input's array seen as the component
  record the translators work on, and a component record put back under the component
  list of the object.
\<close>

definition AsComponent :: "UHoudiniInputObject \<Rightarrow> UHoudiniInputSceneComponent" where
  "AsComponent obj =
     \<lparr>Type = Type obj, bPendingKill = bPendingKill obj, InputNodeId = InputNodeId obj,
      InputObjectNodeId = InputObjectNodeId obj, bHasChanged = bHasChanged obj,
      bTransformChanged = bTransformChanged obj, bNeedsToTriggerUpdate = bNeedsToTriggerUpdate obj,
      Transform = Transform obj, EngineObject = EngineObject obj, bIsBlueprint = bIsBlueprint obj,
      BlueprintStaticMeshes = BlueprintStaticMeshes obj, CurveNodeId = CurveNodeId obj\<rparr>"

definition WithComponents ::
  "UHoudiniInputSceneComponent \<Rightarrow> UHoudiniInputSceneComponent option list \<Rightarrow> UHoudiniInputObject" where
  "WithComponents c comps =
     \<lparr>Type = Type c, bPendingKill = bPendingKill c, InputNodeId = InputNodeId c,
      InputObjectNodeId = InputObjectNodeId c, bHasChanged = bHasChanged c,
      bTransformChanged = bTransformChanged c, bNeedsToTriggerUpdate = bNeedsToTriggerUpdate c,
      Transform = Transform c, EngineObject = EngineObject c, bIsBlueprint = bIsBlueprint c,
      BlueprintStaticMeshes = BlueprintStaticMeshes c, CurveNodeId = CurveNodeId c,
      ActorComponents = comps\<rparr>"

text \<open>
  One call of a translator of the environment: the call is logged, the object is
  replaced by the one the translator leaves, and the input takes the node id and the
  changed mark the translator gave it.
\<close>

definition CallTranslator ::
  "Environment \<Rightarrow> TranslatorKind \<Rightarrow> UHoudiniInput \<Rightarrow> UHoudiniInputSceneComponent \<Rightarrow> HAPI_Call list
     \<Rightarrow> bool \<times> UHoudiniInputSceneComponent \<times> UHoudiniInput \<times> HAPI_Call list" where
  "CallTranslator E kind InInput obj log =
     (let r = Translator E log kind InInput obj
      in (TranslatorReturn r, ObjectAfter r,
          InInput\<lparr>GetInputNodeId := InputNodeIdAfter r,
                  HasChanged := (HasChanged InInput \<or> bInputMarkedChanged r)\<rparr>,
          log @ [CreateInputNode kind obj]))"

text \<open>The common shape of a case of the switch: call the translator, and on success add
  the object's \<^verbatim>\<open>InputObjectNodeId\<close> to the created node ids.\<close>

definition CreateNodeAndAdd ::
  "Environment \<Rightarrow> TranslatorKind \<Rightarrow> UHoudiniInput \<Rightarrow> UHoudiniInputSceneComponent \<Rightarrow> int list
     \<Rightarrow> HAPI_Call list
     \<Rightarrow> bool \<times> UHoudiniInputSceneComponent \<times> int list \<times> UHoudiniInput \<times> HAPI_Call list" where
  "CreateNodeAndAdd E kind InInput obj OutCreatedNodeIds log =
     (let (bSuccess, obj', InInput', log') = CallTranslator E kind InInput obj log
      in (bSuccess, obj',
          if bSuccess then OutCreatedNodeIds @ [InputObjectNodeId obj'] else OutCreatedNodeIds,
          InInput', log'))"

text \<open>The switch of \<^verbatim>\<open>UploadHoudiniInputObject\<close> for every type but Actor.\<close>

definition UploadSwitch ::
  "Environment \<Rightarrow> UHoudiniInput \<Rightarrow> UHoudiniInputSceneComponent \<Rightarrow> int list \<Rightarrow> HAPI_Call list
     \<Rightarrow> bool \<times> UHoudiniInputSceneComponent \<times> int list \<times> UHoudiniInput \<times> HAPI_Call list" where
  "UploadSwitch E InInput obj OutCreatedNodeIds log =
     (case Type obj of
        EHoudiniInputObjectType_Object \<Rightarrow>
          CreateNodeAndAdd E HapiCreateInputNodeForObject InInput obj OutCreatedNodeIds log
      | EHoudiniInputObjectType_StaticMesh \<Rightarrow>
          (let (bSuccess, obj', InInput', log') =
                 CallTranslator E HapiCreateInputNodeForStaticMesh InInput obj log
           in (bSuccess, obj',
               if bSuccess
               then (if bIsBlueprint obj' then OutCreatedNodeIds @ BlueprintStaticMeshes obj'
                     else OutCreatedNodeIds @ [InputObjectNodeId obj'])
               else OutCreatedNodeIds,
               InInput', log'))
      | EHoudiniInputObjectType_SkeletalMesh \<Rightarrow>
          CreateNodeAndAdd E HapiCreateInputNodeForSkeletalMesh InInput obj OutCreatedNodeIds log
      | EHoudiniInputObjectType_SceneComponent \<Rightarrow>
          CreateNodeAndAdd E HapiCreateInputNodeForSceneComponent InInput obj OutCreatedNodeIds log
      | EHoudiniInputObjectType_StaticMeshComponent \<Rightarrow>
          CreateNodeAndAdd E HapiCreateInputNodeForStaticMeshComponent InInput obj OutCreatedNodeIds log
      | EHoudiniInputObjectType_InstancedStaticMeshComponent \<Rightarrow>
          CreateNodeAndAdd E HapiCreateInputNodeForInstancedStaticMeshComponent InInput obj
            OutCreatedNodeIds log
      | EHoudiniInputObjectType_SplineComponent \<Rightarrow>
          CreateNodeAndAdd E HapiCreateInputNodeForSplineComponent InInput obj OutCreatedNodeIds log
      | EHoudiniInputObjectType_HoudiniSplineComponent \<Rightarrow>
          CreateNodeAndAdd E HapiCreateInputNodeForHoudiniSplineComponent InInput obj
            OutCreatedNodeIds log
      | EHoudiniInputObjectType_HoudiniAssetActor \<Rightarrow>
          CreateNodeAndAdd E HapiCreateInputNodeForHoudiniAssetComponent InInput obj
            OutCreatedNodeIds log
      | EHoudiniInputObjectType_HoudiniAssetComponent \<Rightarrow>
          CreateNodeAndAdd E HapiCreateInputNodeForHoudiniAssetComponent InInput obj
            OutCreatedNodeIds log
      | EHoudiniInputObjectType_Actor \<Rightarrow> (True, obj, OutCreatedNodeIds, InInput, log)
      | EHoudiniInputObjectType_Landscape \<Rightarrow>
          CreateNodeAndAdd E HapiCreateInputNodeForLandscape InInput obj OutCreatedNodeIds log
      | EHoudiniInputObjectType_Brush \<Rightarrow>
          CreateNodeAndAdd E HapiCreateInputNodeForBrush InInput obj OutCreatedNodeIds log
      | EHoudiniInputObjectType_CameraComponent \<Rightarrow>
          CreateNodeAndAdd E HapiCreateInputNodeForCamera InInput obj OutCreatedNodeIds log
      | EHoudiniInputObjectType_DataTable \<Rightarrow>
          CreateNodeAndAdd E HapiCreateInputNodeForDataTable InInput obj OutCreatedNodeIds log
      | EHoudiniInputObjectType_FoliageType_InstancedStaticMesh \<Rightarrow>
          CreateNodeAndAdd E HapiCreateInputNodeForFoliageType_InstancedStaticMesh InInput obj
            OutCreatedNodeIds log
      | EHoudiniInputObjectType_Invalid \<Rightarrow> (True, obj, OutCreatedNodeIds, InInput, log))"

text \<open>The end of \<^verbatim>\<open>UploadHoudiniInputObject\<close>: the flags of the object.\<close>

definition MarkUploaded ::
  "bool \<Rightarrow> 'a UHoudiniInputSceneComponent_scheme \<Rightarrow> 'a UHoudiniInputSceneComponent_scheme" where
  "MarkUploaded bSuccess obj =
     (if bSuccess then SetNeedsToTriggerUpdate False (MarkChanged False obj)
      else SetNeedsToTriggerUpdate False obj)"

text \<open>\<^verbatim>\<open>UploadHoudiniInputObject\<close> on a component of an actor (a null pointer is \<open>None\<close>).
  The input is a checked pointer at every call in the source file. A component is a
  \<^verbatim>\<open>UHoudiniInputSceneComponent\<close>, so for one of type Actor the cast to \<^verbatim>\<open>UHoudiniInputActor\<close>
  gives a null pointer and \<^verbatim>\<open>HapiCreateInputNodeForActor\<close> returns false at its second guard.\<close>

definition UploadHoudiniInputComponent ::
  "Environment \<Rightarrow> UHoudiniInput \<Rightarrow> UHoudiniInputSceneComponent option \<Rightarrow> int list \<Rightarrow> HAPI_Call list
     \<Rightarrow> bool \<times> UHoudiniInputSceneComponent option \<times> int list \<times> UHoudiniInput \<times> HAPI_Call list" where
  "UploadHoudiniInputComponent E InInput InInputObject OutCreatedNodeIds log =
     (case InInputObject of
        None \<Rightarrow> (False, None, OutCreatedNodeIds, InInput, log)
      | Some obj \<Rightarrow>
          let (bSuccess, obj', ids', InInput', log') =
                (if Type obj = EHoudiniInputObjectType_Actor
                 then (False, obj, OutCreatedNodeIds, InInput, log)
                 else UploadSwitch E InInput obj OutCreatedNodeIds log)
          in (bSuccess, Some (MarkUploaded bSuccess obj'), ids', InInput', log'))"

text \<open>The loop of \<^verbatim>\<open>HapiCreateInputNodeForActor\<close> that commits the components.\<close>

fun CommitActorComponents ::
  "Environment \<Rightarrow> UHoudiniInput \<Rightarrow> UHoudiniInputSceneComponent option list \<Rightarrow> int list
     \<Rightarrow> HAPI_Call list
     \<Rightarrow> UHoudiniInputSceneComponent option list \<times> int list \<times> UHoudiniInput \<times> HAPI_Call list" where
  "CommitActorComponents E InInput [] ids log = ([], ids, InInput, log)"
| "CommitActorComponents E InInput (c # cs) ids log =
     (let (bSuccess, c', ids1, InInput1, log1) = UploadHoudiniInputComponent E InInput c ids log;
          (cs', ids2, InInput2, log2) = CommitActorComponents E InInput1 cs ids1 log1
      in (c' # cs', ids2, InInput2, log2))"

text \<open>
  \<^verbatim>\<open>InObject->Update(InputObject)\<close> followed by \<^verbatim>\<open>TryCollectGarbage\<close>, under the test that the
  object of the input object is there and not pending kill. \<^verbatim>\<open>GetObject\<close> and \<^verbatim>\<open>GetActor\<close>
  give the same engine object. \<^verbatim>\<open>Update\<close> may find other components: the environment gives
  the component list it leaves.
\<close>

definition UpdateInputActor ::
  "Environment \<Rightarrow> UHoudiniInput \<Rightarrow> UHoudiniInputObject \<Rightarrow> HAPI_Call list
     \<Rightarrow> UHoudiniInputObject \<times> HAPI_Call list" where
  "UpdateInputActor E InInput InObject log =
     (if EngineObject InObject = EngineObject_Live
      then (InObject\<lparr>ActorComponents := UpdatedActorComponents E log InInput InObject\<rparr>,
            log @ [UpdateActor (AsComponent InObject), TryCollectGarbage])
      else (InObject, log))"

text \<open>
  The block of \<^verbatim>\<open>HapiCreateInputNodeForActor\<close> for a Houdini asset actor in a world input:
  static meshes are built for its proxy meshes when cooked data is there, or a cook without
  proxies is asked for; an actor without proxies whose input object knows no component yet
  is looked at again when the asset component has output components.
\<close>

definition BuildProxyMeshesOfAssetActor ::
  "Environment \<Rightarrow> UHoudiniInput \<Rightarrow> UHoudiniInputObject \<Rightarrow> HAPI_Call list
     \<Rightarrow> UHoudiniInputObject \<times> HAPI_Call list" where
  "BuildProxyMeshesOfAssetActor E InInput InObject log =
     (let HAC = AssetActorState E log (AsComponent InObject)
      in if GetInputType InInput = EHoudiniInputType_World \<and> IsA_AHoudiniAssetActor HAC
            \<and> AssetComponentIsValid HAC
         then
           (if HasAnyCurrentProxyOutput HAC
            then
              (if IsHoudiniCookedDataAvailable HAC
               then UpdateInputActor E InInput InObject
                      (log @ [BuildStaticMeshesOnHoudiniProxyMeshOutputs (AsComponent InObject)])
               else if \<not> bPendingDeleteOrRebuild HAC \<and> \<not> bInvalidState HAC
               then (InObject, log @ [MarkAsNeedCook (AsComponent InObject)])
               else (InObject, log))
            else if ActorComponents InObject = [] \<and> HasAnyOutputComponent HAC
            then UpdateInputActor E InInput InObject log
            else (InObject, log))
         else (InObject, log))"

text \<open>
  \<^verbatim>\<open>HapiCreateInputNodeForActor\<close>: the guards, the block for Houdini asset actors, the loop
  that commits every component, and the cached transform. The node ids of the actor itself
  are left as they are.
\<close>

definition HapiCreateInputNodeForActor ::
  "Environment \<Rightarrow> UHoudiniInput \<Rightarrow> UHoudiniInputObject \<Rightarrow> int list \<Rightarrow> HAPI_Call list
     \<Rightarrow> bool \<times> UHoudiniInputObject \<times> int list \<times> UHoudiniInput \<times> HAPI_Call list" where
  "HapiCreateInputNodeForActor E InInput InObject OutCreatedNodeIds log =
     (if IsPendingKill InInput then (False, InObject, OutCreatedNodeIds, InInput, log)
      else if bPendingKill InObject then (False, InObject, OutCreatedNodeIds, InInput, log)
      else if EngineObject InObject \<noteq> EngineObject_Live
      then (True, InObject, OutCreatedNodeIds, InInput, log)
      else
        let (obj1, log1) = BuildProxyMeshesOfAssetActor E InInput InObject log;
            (comps', ids', InInput', log2) =
              CommitActorComponents E InInput (ActorComponents obj1) OutCreatedNodeIds log1;
            log3 = log2 @ [GetHostTransform (AsComponent obj1)]
        in (True,
            obj1\<lparr>ActorComponents := comps', Transform := HostTransform E log2 (AsComponent obj1)\<rparr>,
            ids', InInput', log3))"

text \<open>\<^verbatim>\<open>UploadHoudiniInputObject\<close> on an object of an input's array.\<close>

definition UploadHoudiniInputObject ::
  "Environment \<Rightarrow> UHoudiniInput \<Rightarrow> UHoudiniInputObject option \<Rightarrow> int list \<Rightarrow> HAPI_Call list
     \<Rightarrow> bool \<times> UHoudiniInputObject option \<times> int list \<times> UHoudiniInput \<times> HAPI_Call list" where
  "UploadHoudiniInputObject E InInput InInputObject OutCreatedNodeIds log =
     (case InInputObject of
        None \<Rightarrow> (False, None, OutCreatedNodeIds, InInput, log)
      | Some obj \<Rightarrow>
          let (bSuccess, obj', ids', InInput', log') =
                (if Type obj = EHoudiniInputObjectType_Actor
                 then HapiCreateInputNodeForActor E InInput obj OutCreatedNodeIds log
                 else
                   let (b, c', ids1, InInput1, log1) =
                         UploadSwitch E InInput (AsComponent obj) OutCreatedNodeIds log
                   in (b, WithComponents c' (ActorComponents obj), ids1, InInput1, log1))
          in (bSuccess, Some (MarkUploaded bSuccess obj'), ids', InInput', log'))"

section \<open>Input translator: UploadInputData\<close>

text \<open>The test of the source that lets an object keep its node:
  \<^verbatim>\<open>!CurrentInputObject->HasChanged() && CurrentInputObjectNodeId >= 0\<close>.\<close>

definition KeepsNode :: "'a UHoudiniInputSceneComponent_scheme \<Rightarrow> bool" where
  "KeepsNode obj = (\<not> bHasChanged obj \<and> 0 \<le> InputObjectNodeId obj)"

text \<open>The loop over the components of an actor that keeps its node.\<close>

fun UploadChangedActorComponents ::
  "Environment \<Rightarrow> UHoudiniInput \<Rightarrow> UHoudiniInputSceneComponent option list \<Rightarrow> bool \<Rightarrow> int list
     \<Rightarrow> HAPI_Call list
     \<Rightarrow> UHoudiniInputSceneComponent option list \<times> bool \<times> int list \<times> UHoudiniInput \<times> HAPI_Call list" where
  "UploadChangedActorComponents E InInput [] bSuccess ids log = ([], bSuccess, ids, InInput, log)"
| "UploadChangedActorComponents E InInput (c # cs) bSuccess ids log =
     (let (c', bSuccess1, ids1, InInput1, log1) =
            (case c of
               None \<Rightarrow> (None, bSuccess, ids, InInput, log)
             | Some CurrentComp \<Rightarrow>
                 if bPendingKill CurrentComp then (c, bSuccess, ids, InInput, log)
                 else if KeepsNode CurrentComp
                 then (c, bSuccess, ids @ [InputObjectNodeId CurrentComp], InInput, log)
                 else
                   let (ok, c1, ids', InInput', log') =
                         UploadHoudiniInputComponent E InInput c ids log
                   in (c1, bSuccess \<and> ok, ids', InInput', log'));
          (cs', bSuccess2, ids2, InInput2, log2) =
            UploadChangedActorComponents E InInput1 cs bSuccess1 ids1 log1
      in (c' # cs', bSuccess2, ids2, InInput2, log2))"

text \<open>The body of the loop over the input objects.\<close>

definition UploadInputObject ::
  "Environment \<Rightarrow> UHoudiniInput \<Rightarrow> UHoudiniInputObject option \<Rightarrow> bool \<Rightarrow> int list \<Rightarrow> HAPI_Call list
     \<Rightarrow> UHoudiniInputObject option \<times> bool \<times> int list \<times> UHoudiniInput \<times> HAPI_Call list" where
  "UploadInputObject E InInput p bSuccess CreatedNodeIds log =
     (case p of
        None \<Rightarrow> (None, bSuccess, CreatedNodeIds, InInput, log)
      | Some CurrentInputObject \<Rightarrow>
          if bPendingKill CurrentInputObject then (p, bSuccess, CreatedNodeIds, InInput, log)
          else if KeepsNode CurrentInputObject
          then
            (if Type CurrentInputObject = EHoudiniInputObjectType_Actor
             then
               let (comps', bSuccess', ids', InInput', log') =
                     UploadChangedActorComponents E InInput (ActorComponents CurrentInputObject)
                       bSuccess CreatedNodeIds log
               in (Some (CurrentInputObject\<lparr>ActorComponents := comps'\<rparr>), bSuccess', ids',
                   InInput', log')
             else (p, bSuccess, CreatedNodeIds @ [InputObjectNodeId CurrentInputObject], InInput, log))
          else
            let (ok, p', ids', InInput', log') =
                  UploadHoudiniInputObject E InInput p CreatedNodeIds log
            in (p', bSuccess \<and> ok, ids', InInput', log'))"

fun UploadInputObjectsLoop ::
  "Environment \<Rightarrow> UHoudiniInput \<Rightarrow> UHoudiniInputObject option list \<Rightarrow> bool \<Rightarrow> int list
     \<Rightarrow> HAPI_Call list
     \<Rightarrow> UHoudiniInputObject option list \<times> bool \<times> int list \<times> UHoudiniInput \<times> HAPI_Call list" where
  "UploadInputObjectsLoop E InInput [] bSuccess ids log = ([], bSuccess, ids, InInput, log)"
| "UploadInputObjectsLoop E InInput (p # ps) bSuccess ids log =
     (let (p', bSuccess1, ids1, InInput1, log1) = UploadInputObject E InInput p bSuccess ids log;
          (ps', bSuccess2, ids2, InInput2, log2) =
            UploadInputObjectsLoop E InInput1 ps bSuccess1 ids1 log1
      in (p' # ps', bSuccess2, ids2, InInput2, log2))"

text \<open>
  The two loops that take object merges off the merge node, over the indices \<open>Idxs\<close>. The
  node id of an object merge is what \<^verbatim>\<open>QueryNodeInput\<close> leaves in its out-parameter
  (\<open>ResultId\<close>); without the query it stays \<open>-1\<close>. \<^verbatim>\<open>HOUDINI_CHECK_ERROR\<close> only reports.
\<close>

fun DisconnectObjectMerges ::
  "Environment \<Rightarrow> int \<Rightarrow> bool \<Rightarrow> int list \<Rightarrow> HAPI_Call list \<Rightarrow> HAPI_Call list" where
  "DisconnectObjectMerges E NodeId bDestroy [] log = log"
| "DisconnectObjectMerges E NodeId bDestroy (Idx # Idxs) log =
     (let (InputObjectMergeId, log1) =
            (if bDestroy
             then (let (r, l) = CallApi E log (QueryNodeInput NodeId Idx) in (ResultId r, l))
             else (-1, log));
          log2 = log1 @ [DisconnectNodeInput NodeId Idx];
          log3 = (if bDestroy then log2 @ [DeleteNode InputObjectMergeId] else log2)
      in DisconnectObjectMerges E NodeId bDestroy Idxs log3)"

text \<open>The loop that connects the created nodes to the merge node.\<close>

fun ConnectCreatedNodes :: "int \<Rightarrow> int \<Rightarrow> int list \<Rightarrow> HAPI_Call list \<Rightarrow> HAPI_Call list" where
  "ConnectCreatedNodes NodeId InputIndex [] log = log"
| "ConnectCreatedNodes NodeId InputIndex (CurrentNodeId # ids) log =
     (if CurrentNodeId < 0 then ConnectCreatedNodes NodeId InputIndex ids log
      else if NodeId = CurrentNodeId then ConnectCreatedNodes NodeId InputIndex ids log
      else ConnectCreatedNodes NodeId (InputIndex + 1) ids
             (log @ [ConnectNodeInput NodeId InputIndex CurrentNodeId]))"

definition ConnectInputNode ::
  "Environment \<Rightarrow> HAPI_Call list \<Rightarrow> UHoudiniInput option \<Rightarrow> bool \<times> HAPI_Call list" where
  "ConnectInputNode E log InInput =
     (case InInput of
        None \<Rightarrow> (False, log)
      | Some I \<Rightarrow>
          if IsPendingKill I then (False, log)
          else if GetAssetNodeId I < 0 then (False, log)
          else if GetInputNodeId I < 0 then (False, log)
          else if IsObjectPathParameter I
          then (let (r, log') = CallApi E log (SetParmNodeValue (GetAssetNodeId I) (GetName I) (GetInputNodeId I))
                in (Succeeded r, log'))
          else (let (r, log') = CallApi E log (ConnectNodeInput (GetAssetNodeId I) (GetInputIndex I) (GetInputNodeId I))
                in (Succeeded r, log')))"

text \<open>The second half of \<^verbatim>\<open>UploadInputData\<close>, once the merge node \<open>NodeId\<close> (the local \<^verbatim>\<open>InputNodeId\<close>) is there.\<close>

definition ConnectInputObjects ::
  "Environment \<Rightarrow> UHoudiniInput \<Rightarrow> int \<Rightarrow> int list \<Rightarrow> HAPI_Call list
     \<Rightarrow> bool \<times> UHoudiniInput option \<times> HAPI_Call list" where
  "ConnectInputObjects E InInput NodeId CreatedNodeIds log =
     (let log1 = ConnectCreatedNodes NodeId 0 CreatedNodeIds log;
          log2 = (if \<not> HasInputTypeChanged E InInput
                  then DisconnectObjectMerges E NodeId
                         (GetInputType InInput \<noteq> EHoudiniInputType_Asset)
                         (map int [length CreatedNodeIds ..< length (GetCreatedDataNodeIds InInput)])
                         log1
                  else log1);
          InInput' = InInput\<lparr>GetCreatedDataNodeIds := CreatedNodeIds\<rparr>;
          (bSuccess, log3) = ConnectInputNode E log2 (Some InInput')
      in (bSuccess, Some InInput', log3))"

text \<open>
  The end of \<^verbatim>\<open>UploadInputData\<close> when no node was created: unless the input type changed,
  an asset input is disconnected, a world input is left alone and any other input has the
  object merges of its previous nodes destroyed; then the input forgets its nodes. The
  outer component of an asset input is dereferenced unchecked in the source and gives
  \<open>OuterAssetId\<close>.
\<close>

definition InvalidateInputNode ::
  "Environment \<Rightarrow> UHoudiniInput \<Rightarrow> bool \<Rightarrow> HAPI_Call list
     \<Rightarrow> bool \<times> UHoudiniInput option \<times> HAPI_Call list" where
  "InvalidateInputNode E InInput bSuccess log =
     (let log' =
            (if \<not> HasInputTypeChanged E InInput
             then
               (if GetInputType InInput = EHoudiniInputType_Asset
                then (if 0 \<le> GetInputNodeId InInput \<and> 0 \<le> GetInputIndex InInput
                      then log @ [DisconnectNodeInput (OuterAssetId InInput) (GetInputIndex InInput)]
                      else log)
                else if GetInputType InInput = EHoudiniInputType_World then log
                else if 0 \<le> GetInputNodeId InInput
                then DisconnectObjectMerges E (GetInputNodeId InInput) True
                       (map int [0 ..< length (GetCreatedDataNodeIds InInput)]) log
                else log)
             else log)
      in (bSuccess, Some (InInput\<lparr>GetCreatedDataNodeIds := [], GetInputNodeId := -1\<rparr>), log'))"

text \<open>
  The end of \<^verbatim>\<open>UploadInputData\<close> when nodes were created: the merge node is created if
  the input has none that is valid (a refused \<^verbatim>\<open>CreateNode\<close> returns false at once), then
  the created nodes are connected.
\<close>

definition ConnectToMergeNode ::
  "Environment \<Rightarrow> UHoudiniInput \<Rightarrow> int list \<Rightarrow> HAPI_Call list
     \<Rightarrow> bool \<times> UHoudiniInput option \<times> HAPI_Call list" where
  "ConnectToMergeNode E InInput CreatedNodeIds log =
     (let (bValid, log1) =
            (if GetInputNodeId InInput < 0 then (False, log)
             else (let (r, l) = CallApi E log (IsHoudiniNodeValid (GetInputNodeId InInput))
                   in (Succeeded r, l)))
      in
        if bValid then ConnectInputObjects E InInput (GetInputNodeId InInput) CreatedNodeIds log1
        else
          let (r, log2) =
                CallApi E log1 (CreateNode ''SOP/merge'' (GetNodeBaseName InInput @ ''_Merge''))
          in if \<not> Succeeded r then (False, Some InInput, log2)
             else ConnectInputObjects E (InInput\<lparr>GetInputNodeId := ResultId r\<rparr>)
                    (ResultId r) CreatedNodeIds log2)"

text \<open>
  \<^verbatim>\<open>UploadInputData\<close>. The objects are written back to the array of the input after the
  loop; \<^verbatim>\<open>ensure\<close> on a null array returns false.
\<close>

definition UploadInputData ::
  "Environment \<Rightarrow> HAPI_Call list \<Rightarrow> UHoudiniInput option \<Rightarrow> bool \<times> UHoudiniInput option \<times> HAPI_Call list" where
  "UploadInputData E log InInput =
     (case InInput of
        None \<Rightarrow> (False, None, log)
      | Some I0 \<Rightarrow>
          if IsPendingKill I0 then (False, Some I0, log)
          else
            (case GetHoudiniInputObjectArray I0 (GetInputType I0) of
               None \<Rightarrow> (False, Some I0, log)
             | Some InputObjectsArray \<Rightarrow>
                 let (objs', bSuccess, CreatedNodeIds, I1, log1) =
                       UploadInputObjectsLoop E I0 InputObjectsArray True [] log;
                     I2 = SetHoudiniInputObjectArray (GetInputType I0) objs' I1
                 in
                   if CreatedNodeIds = [] then InvalidateInputNode E I2 bSuccess log1
                   else ConnectToMergeNode E I2 CreatedNodeIds log1))"

section \<open>Input translator: uploading transforms\<close>

text \<open>The lambda \<^verbatim>\<open>UpdateTransform\<close>: the transform is set on the object node.\<close>

definition UpdateTransform ::
  "Environment \<Rightarrow> FTransform \<Rightarrow> int \<Rightarrow> HAPI_Call list \<Rightarrow> bool \<times> HAPI_Call list" where
  "UpdateTransform E InTransform InNodeId log =
     (let (r, log') = CallApi E log (SetObjectTransform InNodeId InTransform)
      in (Succeeded r, log'))"

text \<open>
  The switch of \<^verbatim>\<open>UploadHoudiniInputTransform\<close> for every type but Actor. A cast to the
  class of the type cannot fail, the class of an input object being the one of its type
  (but for a component of type Actor, see below), so the checks
  \<^verbatim>\<open>!X || X->IsPendingKill()\<close> are the pending-kill test. The landscape case has no \<^verbatim>\<open>break\<close>
  and runs into the brush case, which does nothing. The types the switch does not name
  (camera, data table) take the \<^verbatim>\<open>default\<close> branch.
\<close>

definition TransformSwitch ::
  "Environment \<Rightarrow> UHoudiniInputSceneComponent \<Rightarrow> HAPI_Call list
     \<Rightarrow> bool \<times> UHoudiniInputSceneComponent \<times> HAPI_Call list" where
  "TransformSwitch E obj log =
     (case Type obj of
        EHoudiniInputObjectType_StaticMesh \<Rightarrow>
          (let (ok, log') = UpdateTransform E (Transform obj) (InputObjectNodeId obj) log
           in (ok, obj, log'))
      | EHoudiniInputObjectType_StaticMeshComponent \<Rightarrow>
          if bPendingKill obj then (False, obj, log)
          else
            (let (NewTransform, log1) =
                   (if EngineObject obj \<noteq> EngineObject_Null
                    then (HostTransform E log obj, log @ [GetHostTransform obj])
                    else (Transform obj, log));
                 (ok, log2) = UpdateTransform E NewTransform (InputObjectNodeId obj) log1
             in (ok, obj\<lparr>Transform := NewTransform\<rparr>, log2))
      | EHoudiniInputObjectType_SceneComponent \<Rightarrow>
          if bPendingKill obj then (False, obj, log)
          else if EngineObject obj \<noteq> EngineObject_Null
          then (True, obj\<lparr>Transform := HostTransform E log obj\<rparr>, log @ [GetHostTransform obj])
          else (True, obj, log)
      | EHoudiniInputObjectType_Landscape \<Rightarrow>
          if bPendingKill obj then (False, obj, log)
          else if EngineObject obj \<noteq> EngineObject_Live then (False, obj, log)
          else
            (let NewTransform = HostTransform E log obj;
                 log1 = log @ [GetHostTransform obj];
                 (r, log2) = CallApi E log1 (GetObjectTransform (InputObjectNodeId obj))
             in if \<not> Succeeded r then (False, obj, log2)
                else
                  let HFTransform =
                        LandscapeTransformDiff E (Transform obj) NewTransform (ResultTransform r);
                      (r', log3) = CallApi E log2 (SetObjectTransform (InputObjectNodeId obj) HFTransform)
                  in if \<not> Succeeded r' then (False, obj, log3)
                     else (True, obj\<lparr>Transform := NewTransform\<rparr>, log3))
      | EHoudiniInputObjectType_FoliageType_InstancedStaticMesh \<Rightarrow>
          (let (ok, log') = UpdateTransform E (Transform obj) (InputObjectNodeId obj) log
           in (ok, obj, log'))
      | _ \<Rightarrow> (True, obj, log))"

text \<open>The end of \<^verbatim>\<open>UploadHoudiniInputTransform\<close>: the flags of the object.\<close>

definition MarkTransformUploaded ::
  "bool \<Rightarrow> 'a UHoudiniInputSceneComponent_scheme \<Rightarrow> 'a UHoudiniInputSceneComponent_scheme" where
  "MarkTransformUploaded bSuccess obj =
     (if bSuccess then SetNeedsToTriggerUpdate False (MarkTransformChanged False obj)
      else SetNeedsToTriggerUpdate False obj)"

text \<open>\<^verbatim>\<open>UploadHoudiniInputTransform\<close> on a component of an actor. For a component of type
  Actor the cast to \<^verbatim>\<open>UHoudiniInputActor\<close> gives a null pointer and the case fails.\<close>

definition UploadHoudiniInputComponentTransform ::
  "Environment \<Rightarrow> UHoudiniInputSceneComponent option \<Rightarrow> HAPI_Call list
     \<Rightarrow> bool \<times> UHoudiniInputSceneComponent option \<times> HAPI_Call list" where
  "UploadHoudiniInputComponentTransform E InInputObject log =
     (case InInputObject of
        None \<Rightarrow> (False, None, log)
      | Some obj \<Rightarrow>
          let (bSuccess, obj', log') =
                (if Type obj = EHoudiniInputObjectType_Actor then (False, obj, log)
                 else TransformSwitch E obj log)
          in (bSuccess, Some (MarkTransformUploaded bSuccess obj'), log'))"

text \<open>The loop over the components of an actor whose transform is uploaded.\<close>

fun UploadActorComponentTransforms ::
  "Environment \<Rightarrow> UHoudiniInputSceneComponent option list \<Rightarrow> bool \<Rightarrow> HAPI_Call list
     \<Rightarrow> UHoudiniInputSceneComponent option list \<times> bool \<times> HAPI_Call list" where
  "UploadActorComponentTransforms E [] bSuccess log = ([], bSuccess, log)"
| "UploadActorComponentTransforms E (c # cs) bSuccess log =
     (let (c', bSuccess1, log1) =
            (case c of
               None \<Rightarrow> (None, bSuccess, log)
             | Some CurrentComponent \<Rightarrow>
                 if bPendingKill CurrentComponent then (c, bSuccess, log)
                 else if \<not> bTransformChanged CurrentComponent then (c, bSuccess, log)
                 else
                   let (ok, c1, log') = UploadHoudiniInputComponentTransform E c log
                   in (c1, bSuccess \<and> ok, log'));
          (cs', bSuccess2, log2) = UploadActorComponentTransforms E cs bSuccess1 log1
      in (c' # cs', bSuccess2, log2))"

text \<open>\<^verbatim>\<open>UploadHoudiniInputTransform\<close> on an object of an input's array. The input is a
  checked pointer at the call in \<^verbatim>\<open>UploadInputTransform\<close> and is not used otherwise.\<close>

definition UploadHoudiniInputTransform ::
  "Environment \<Rightarrow> UHoudiniInputObject option \<Rightarrow> HAPI_Call list
     \<Rightarrow> bool \<times> UHoudiniInputObject option \<times> HAPI_Call list" where
  "UploadHoudiniInputTransform E InInputObject log =
     (case InInputObject of
        None \<Rightarrow> (False, None, log)
      | Some obj \<Rightarrow>
          let (bSuccess, obj', log') =
                (if Type obj = EHoudiniInputObjectType_Actor
                 then
                   (if bPendingKill obj then (False, obj, log)
                    else
                      let (obj1, log1) =
                            (if EngineObject obj \<noteq> EngineObject_Null
                             then (obj\<lparr>Transform := HostTransform E log (AsComponent obj)\<rparr>,
                                   log @ [GetHostTransform (AsComponent obj)])
                             else (obj, log));
                          (comps', ok, log2) =
                            UploadActorComponentTransforms E (ActorComponents obj1) True log1
                      in (ok, obj1\<lparr>ActorComponents := comps'\<rparr>, log2))
                 else
                   let (ok, c', log1) = TransformSwitch E (AsComponent obj) log
                   in (ok, WithComponents c' (ActorComponents obj), log1))
          in (bSuccess, Some (MarkTransformUploaded bSuccess obj'), log'))"

fun UploadInputTransformLoop ::
  "Environment \<Rightarrow> UHoudiniInputObject option list \<Rightarrow> bool \<Rightarrow> HAPI_Call list
     \<Rightarrow> UHoudiniInputObject option list \<times> bool \<times> HAPI_Call list" where
  "UploadInputTransformLoop E [] bSuccess log = ([], bSuccess, log)"
| "UploadInputTransformLoop E (p # ps) bSuccess log =
     (let (p', bSuccess1, log1) =
            (case p of
               None \<Rightarrow> (None, bSuccess, log)
             | Some CurrentInputObject \<Rightarrow>
                 if bPendingKill CurrentInputObject then (p, bSuccess, log)
                 else if \<not> bTransformChanged CurrentInputObject then (p, bSuccess, log)
                 else
                   let (ok, p1, log') = UploadHoudiniInputTransform E p log
                   in (p1, bSuccess \<and> ok, log'));
          (ps', bSuccess2, log2) = UploadInputTransformLoop E ps bSuccess1 log1
      in (p' # ps', bSuccess2, log2))"

definition UploadInputTransform ::
  "Environment \<Rightarrow> HAPI_Call list \<Rightarrow> UHoudiniInput option \<Rightarrow> bool \<times> UHoudiniInput option \<times> HAPI_Call list" where
  "UploadInputTransform E log InInput =
     (case InInput of
        None \<Rightarrow> (False, None, log)
      | Some I \<Rightarrow>
          if IsPendingKill I then (False, Some I, log)
          else
            (case GetHoudiniInputObjectArray I (GetInputType I) of
               None \<Rightarrow> (False, Some I, log)
             | Some InputObjectsArray \<Rightarrow>
                 let (objs', bSuccess, log') = UploadInputTransformLoop E InputObjectsArray True log
                 in (bSuccess, Some (SetHoudiniInputObjectArray (GetInputType I) objs' I), log')))"

section \<open>Input translator: UploadChangedInputs\<close>

text \<open>
  Modelled from the spec: \<^verbatim>\<open>UHoudiniInput::MarkChanged\<close> and \<^verbatim>\<open>MarkAllInputObjectsChanged\<close>
  are not under src/. The first writes the changed flag of the input, the second the
  changed flag of all its input objects.
\<close>

definition MarkInputChanged :: "bool \<Rightarrow> UHoudiniInput \<Rightarrow> UHoudiniInput" where
  "MarkInputChanged b InInput = InInput\<lparr>HasChanged := b\<rparr>"

definition MarkAllInputObjectsChanged :: "bool \<Rightarrow> UHoudiniInput \<Rightarrow> UHoudiniInput" where
  "MarkAllInputObjectsChanged b InInput =
     InInput\<lparr>InputObjectArrays :=
       (\<lambda>InType. map_option (map (map_option (MarkChanged b))) (InputObjectArrays InInput InType))\<rparr>"

definition ChangeInputType ::
  "Environment \<Rightarrow> HAPI_Call list \<Rightarrow> UHoudiniInput option \<Rightarrow> bool
     \<Rightarrow> bool \<times> UHoudiniInput option \<times> HAPI_Call list" where
  "ChangeInputType E log InInput bForce =
     (case InInput of
        None \<Rightarrow> (False, None, log)
      | Some I \<Rightarrow>
          if IsPendingKill I then (False, Some I, log)
          else if \<not> HasInputTypeChanged E I \<and> \<not> bForce then (True, Some I, log)
          else
            let (b, I1, log1) = DisconnectAndDestroyInput E log (Some I) (GetPreviousInputType I)
            in (True, map_option (MarkAllInputObjectsChanged True) I1, log1))"

text \<open>The loops of \<^verbatim>\<open>UpdateTransformType\<close> and \<^verbatim>\<open>UpdatePackBeforeMerge\<close> over the object
  merges plugged into the merge node: a parameter is set on each one that can be found.\<close>

fun SetParmOnObjectMerges ::
  "Environment \<Rightarrow> int \<Rightarrow> string \<Rightarrow> int \<Rightarrow> int list \<Rightarrow> bool \<Rightarrow> HAPI_Call list
     \<Rightarrow> bool \<times> HAPI_Call list" where
  "SetParmOnObjectMerges E ParentNodeId parmName parmValue [] bSuccess log = (bSuccess, log)"
| "SetParmOnObjectMerges E ParentNodeId parmName parmValue (n # ns) bSuccess log =
     (let (q, log1) = CallApi E log (QueryNodeInput ParentNodeId n)
      in if \<not> Succeeded q then SetParmOnObjectMerges E ParentNodeId parmName parmValue ns bSuccess log1
         else if ResultId q = -1
         then SetParmOnObjectMerges E ParentNodeId parmName parmValue ns bSuccess log1
         else
           let (r, log2) = CallApi E log1 (SetParmIntValue (ResultId q) parmName 0 parmValue)
           in SetParmOnObjectMerges E ParentNodeId parmName parmValue ns
                (bSuccess \<and> Succeeded r) log2)"

definition UpdateTransformType ::
  "Environment \<Rightarrow> HAPI_Call list \<Rightarrow> UHoudiniInput option \<Rightarrow> bool \<times> HAPI_Call list" where
  "UpdateTransformType E log InInput =
     (case InInput of
        None \<Rightarrow> (False, log)
      | Some I \<Rightarrow>
          if IsPendingKill I then (False, log)
          else
            let nTransformType =
                  (if GetInputType I = EHoudiniInputType_Geometry then 0
                   else if GetKeepWorldTransform I then 1 else 0);
                (bSuccess, log1) =
                  (if IsObjectPathParameter I
                   then (let (r, l) = CallApi E log (SetParmIntValue (GetAssetNodeId I) ''xformtype'' 0 nTransformType)
                         in (Succeeded r, l))
                   else
                     (let (q, l) = CallApi E log (QueryNodeInput (GetAssetNodeId I) (GetInputIndex I))
                      in if Succeeded q
                         then (let (r, l') = CallApi E l (SetParmIntValue (ResultId q) ''xformtype'' 0 nTransformType)
                               in (Succeeded r, l'))
                         else (True, l)))
            in if 0 \<le> GetInputNodeId I \<and> GetInputType I \<noteq> EHoudiniInputType_Geometry
                  \<and> GetInputType I \<noteq> EHoudiniInputType_Asset
               then SetParmOnObjectMerges E (GetInputNodeId I) ''xformtype'' nTransformType
                      (map int [0 ..< GetNumberOfInputMeshes E I (GetInputType I)]) bSuccess log1
               else (bSuccess, log1))"

definition UpdatePackBeforeMerge ::
  "Environment \<Rightarrow> HAPI_Call list \<Rightarrow> UHoudiniInput option \<Rightarrow> bool \<times> HAPI_Call list" where
  "UpdatePackBeforeMerge E log InInput =
     (case InInput of
        None \<Rightarrow> (False, log)
      | Some I \<Rightarrow>
          if IsPendingKill I then (False, log)
          else if GetInputType I \<noteq> EHoudiniInputType_World
                  \<and> GetInputType I \<noteq> EHoudiniInputType_Geometry
          then (True, log)
          else if 0 \<le> GetInputNodeId I
          then SetParmOnObjectMerges E (GetInputNodeId I) ''pack''
                 (if GetPackBeforeMerge I then 1 else 0)
                 (map int [0 ..< GetNumberOfInputMeshes E I (GetInputType I)]) True log
          else (True, log))"

text \<open>The loop of \<^verbatim>\<open>UpdateTransformOffset\<close>; a refused call returns false at once.\<close>

fun SetTransformOffsets ::
  "Environment \<Rightarrow> UHoudiniInputObject option list \<Rightarrow> HAPI_Call list \<Rightarrow> bool \<times> HAPI_Call list" where
  "SetTransformOffsets E [] log = (True, log)"
| "SetTransformOffsets E (p # ps) log =
     (case p of
        None \<Rightarrow> SetTransformOffsets E ps log
      | Some CurrentInputObject \<Rightarrow>
          if bPendingKill CurrentInputObject then SetTransformOffsets E ps log
          else if Transform CurrentInputObject \<noteq> FTransform_Identity
          then
            (let (r, log1) =
                   CallApi E log (SetObjectTransform (InputObjectNodeId CurrentInputObject)
                                    (Transform CurrentInputObject))
             in if \<not> Succeeded r then (False, log1) else SetTransformOffsets E ps log1)
          else SetTransformOffsets E ps log)"

definition UpdateTransformOffset ::
  "Environment \<Rightarrow> HAPI_Call list \<Rightarrow> UHoudiniInput option \<Rightarrow> bool \<times> HAPI_Call list" where
  "UpdateTransformOffset E log InInput =
     (case InInput of
        None \<Rightarrow> (False, log)
      | Some I \<Rightarrow>
          if IsPendingKill I then (False, log)
          else if GetInputType I \<noteq> EHoudiniInputType_Geometry then (True, log)
          else
            (case GetHoudiniInputObjectArray I (GetInputType I) of
               None \<Rightarrow> (False, log)
             | Some InputObjectsArray \<Rightarrow> SetTransformOffsets E InputObjectsArray log))"

text \<open>\<^verbatim>\<open>bSucess &= ...\<close> evaluates its right-hand side whatever the left one is.\<close>

definition UpdateInputProperties ::
  "Environment \<Rightarrow> HAPI_Call list \<Rightarrow> UHoudiniInput option \<Rightarrow> bool \<times> HAPI_Call list" where
  "UpdateInputProperties E log InInput =
     (let (b1, log1) = UpdateTransformType E log InInput;
          (b2, log2) = UpdatePackBeforeMerge E log1 InInput;
          (b3, log3) = UpdateTransformOffset E log2 InInput
      in (b1 \<and> b2 \<and> b3, log3))"

text \<open>
  The body of the loop of \<^verbatim>\<open>UploadChangedInputs\<close> on one entry of the array. The functions
  called give the input back as a pointer; it is the non-null pointer they were given.
  \<open>bSuccess\<close> is first accumulated over the two uploads and then assigned the result of
  \<^verbatim>\<open>UpdateInputProperties\<close>, as in the source.
\<close>

definition UploadChangedInput ::
  "Environment \<Rightarrow> HAPI_Call list \<Rightarrow> UHoudiniInput option \<Rightarrow> UHoudiniInput option \<times> HAPI_Call list" where
  "UploadChangedInput E log CurrentInput =
     (case CurrentInput of
        None \<Rightarrow> (None, log)
      | Some I \<Rightarrow>
          if IsPendingKill I \<or> \<not> HasChanged I then (Some I, log)
          else
            let (I1, log1) =
                  (if HasInputTypeChanged E I
                   then (let (b, p, l) = ChangeInputType E log (Some I) False
                         in (case p of None \<Rightarrow> I | Some J \<Rightarrow> J, l))
                   else (I, log));
                (I2, log2) =
                  (if GetInputType I1 = EHoudiniInputType_Landscape \<and> HasLandscapeExportTypeChanged I1
                   then (let (b, p, l) = DisconnectAndDestroyInput E log1 (Some I1) (GetInputType I1);
                             J = (case p of None \<Rightarrow> I1 | Some K \<Rightarrow> K)
                         in ((MarkAllInputObjectsChanged True J)\<lparr>HasLandscapeExportTypeChanged := False\<rparr>, l))
                   else (I1, log1));
                (bSuccess3, I3, log3) =
                  (if IsDataUploadNeeded E I2
                   then (let (b, p, l) = UploadInputData E log2 (Some I2);
                             J = (case p of None \<Rightarrow> I2 | Some K \<Rightarrow> K)
                         in (b, J\<lparr>bDataUploadNeeded := \<not> b\<rparr>, l))
                   else (True, I2, log2));
                (bSuccess4, I4, log4) =
                  (if IsTransformUploadNeeded E I3
                   then (let (b, p, l) = UploadInputTransform E log3 (Some I3)
                         in (bSuccess3 \<and> b, case p of None \<Rightarrow> I3 | Some K \<Rightarrow> K, l))
                   else (bSuccess3, I3, log3));
                (bSuccess, log5) = UpdateInputProperties E log4 (Some I4);
                I5 = (if bSuccess then MarkAllInputObjectsChanged False (MarkInputChanged False I4)
                      else I4);
                I6 = (if HasInputTypeChanged E I5
                      then I5\<lparr>GetPreviousInputType := EHoudiniInputType_Invalid\<rparr> else I5)
            in (Some (I6\<lparr>NeedsToTriggerUpdate := False\<rparr>), log5))"

fun UploadChangedInputsLoop ::
  "Environment \<Rightarrow> UHoudiniInput option list \<Rightarrow> HAPI_Call list
     \<Rightarrow> UHoudiniInput option list \<times> HAPI_Call list" where
  "UploadChangedInputsLoop E [] log = ([], log)"
| "UploadChangedInputsLoop E (CurrentInput # rest) log =
     (let (p, log1) = UploadChangedInput E log CurrentInput;
          (rest', log2) = UploadChangedInputsLoop E rest log1
      in (p # rest', log2))"

text \<open>
  A Houdini asset component, as far as the input translator reads it: its asset id, its
  inputs, its parameters, and the actor that owns it (\<open>None\<close> for a null pointer), of which
  only the type of its world is read (\<open>None\<close> when \<^verbatim>\<open>GetWorld()\<close> is null). A parameter of the
  array is never null in the source.
\<close>

datatype EWorldType =
    EWorldType_None
  | EWorldType_Game
  | EWorldType_Editor
  | EWorldType_PIE
  | EWorldType_EditorPreview
  | EWorldType_GamePreview
  | EWorldType_GameRPC
  | EWorldType_Inactive

record AActor =
  GetWorld :: "EWorldType option"

datatype EHoudiniParameterType = EHoudiniParameterType_Input | EHoudiniParameterType_Other

record UHoudiniParameter =
  GetParameterType :: EHoudiniParameterType
  ParameterIsValid :: bool
  ParameterIsPendingKill :: bool
  IsOperatorPath :: bool
  GetParmId :: int
  GetParameterName :: string
  GetParameterLabel :: string
  GetParameterHelp :: string
  HoudiniInput :: "nat option"

record UHoudiniAssetComponent =
  ComponentIsPendingKill :: bool
  GetAssetId :: int
  Inputs :: "UHoudiniInput option list"
  Parameters :: "UHoudiniParameter list"
  GetOwner :: "AActor option"

definition UploadChangedInputs ::
  "Environment \<Rightarrow> HAPI_Call list \<Rightarrow> UHoudiniAssetComponent option
     \<Rightarrow> bool \<times> UHoudiniAssetComponent option \<times> HAPI_Call list" where
  "UploadChangedInputs E log HAC =
     (case HAC of
        None \<Rightarrow> (False, None, log)
      | Some H \<Rightarrow>
          if ComponentIsPendingKill H then (False, Some H, log)
          else
            let (inputs', log') = UploadChangedInputsLoop E (Inputs H) log
            in (True, Some (H\<lparr>Inputs := inputs'\<rparr>), log'))"

section \<open>Input translator: BuildAllInputs\<close>

text \<open>\<^verbatim>\<open>FString::FromInt\<close>: the decimal digits of an integer.\<close>

fun DecimalDigits :: "nat \<Rightarrow> string" where
  "DecimalDigits n =
     (if n < 10 then [''0123456789'' ! n]
      else DecimalDigits (n div 10) @ [''0123456789'' ! (n mod 10)])"

declare DecimalDigits.simps [simp del]

definition FromInt :: "int \<Rightarrow> string" where
  "FromInt i = (if i < 0 then CHR ''-'' # DecimalDigits (nat (- i)) else DecimalDigits (nat i))"

text \<open>
  Modelled from the spec: \<^verbatim>\<open>UHoudiniInput::SetSOPInput\<close>, \<^verbatim>\<open>SetObjectPathParameter\<close> and
  \<^verbatim>\<open>SetInputType\<close> are not under src/. The first two record how the input is plugged into
  the asset: by the index of a geometry input of the node, or by the id of an object-path
  parameter. The third gives the input a new type and, when the type differs, remembers the
  previous one and marks the input changed.
\<close>

definition SetSOPInput :: "int \<Rightarrow> UHoudiniInput \<Rightarrow> UHoudiniInput" where
  "SetSOPInput InInputIndex InInput =
     InInput\<lparr>GetParameterId := -1, GetInputIndex := InInputIndex, IsObjectPathParameter := False\<rparr>"

definition SetObjectPathParameter :: "int \<Rightarrow> UHoudiniInput \<Rightarrow> UHoudiniInput" where
  "SetObjectPathParameter InParmId InInput =
     InInput\<lparr>GetParameterId := InParmId, GetInputIndex := 0, IsObjectPathParameter := True\<rparr>"

definition SetInputType :: "EHoudiniInputType \<Rightarrow> UHoudiniInput \<Rightarrow> UHoudiniInput" where
  "SetInputType InInputType InInput =
     (if GetInputType InInput = InInputType then InInput
      else InInput\<lparr>GetPreviousInputType := GetInputType InInput, GetInputType := InInputType,
                   HasChanged := True\<rparr>)"

text \<open>
  \<^verbatim>\<open>SetDefaultAssetFromHDA\<close>. Reading the default value of the parameter, loading the
  objects it names and finding the actors it names is one call \<open>LoadDefaultAsset\<close> to the
  environment; every early return of the source after the two guards comes before the first
  \<^verbatim>\<open>SetInputObjectAt\<close> and is the answer \<open>None\<close>.
\<close>

definition SetDefaultAssetFromHDA ::
  "Environment \<Rightarrow> HAPI_Call list \<Rightarrow> UHoudiniInput option
     \<Rightarrow> bool \<times> UHoudiniInput option \<times> HAPI_Call list" where
  "SetDefaultAssetFromHDA E log InInput =
     (case InInput of
        None \<Rightarrow> (False, None, log)
      | Some I \<Rightarrow>
          if IsPendingKill I then (False, Some I, log)
          else if GetParameterId I < 0 then (False, Some I, log)
          else
            let log1 = log @ [LoadDefaultAsset (GetAssetNodeId I) (GetParameterId I)]
            in (case DefaultAssetFromHDA E log I of
                  None \<Rightarrow> (False, Some I, log1)
                | Some d \<Rightarrow>
                    let I1 = I\<lparr>InputObjectArrays := ArraysAfter d\<rparr>;
                        I2 = (if GetInputType I1 = EHoudiniInputType_Geometry
                                 \<and> WorldIdx d > 0 \<and> GeoIdx d = 0
                              then (if LandscapedIdx d = WorldIdx d
                                    then SetInputType EHoudiniInputType_Landscape I1
                                    else if HDAIdx d = WorldIdx d
                                    then SetInputType EHoudiniInputType_Asset I1
                                    else SetInputType EHoudiniInputType_World I1)
                              else I1)
                    in (True, Some I2, log1)))"

text \<open>
  The first loop of \<^verbatim>\<open>BuildAllInputs\<close>: \<^verbatim>\<open>InputParameters\<close> holds the parameters of type
  Input, here by their position in \<^verbatim>\<open>Parameters\<close>.
\<close>

definition InputParametersOf :: "UHoudiniParameter list \<Rightarrow> nat list" where
  "InputParametersOf InParameters =
     filter (\<lambda>i. GetParameterType (InParameters ! i) = EHoudiniParameterType_Input)
       [0 ..< length InParameters]"

text \<open>
  Appending the missing inputs: \<open>InputIdx\<close> runs from \<^verbatim>\<open>Inputs.Num()\<close> up to
  \<^verbatim>\<open>InputCount\<close>, \<open>k\<close> counts the rounds left. An object that could not be created is
  skipped and its index is not tried again.
\<close>

fun AppendNewInputs ::
  "Environment \<Rightarrow> HAPI_Call list \<Rightarrow> nat \<Rightarrow> nat \<Rightarrow> UHoudiniInput option list
     \<Rightarrow> UHoudiniInput option list" where
  "AppendNewInputs E log InputIdx 0 InInputs = InInputs"
| "AppendNewInputs E log InputIdx (Suc k) InInputs =
     (let InputObjectName = ''Input'' @ FromInt (int InputIdx + 1);
          NewInput = NewObject E log InputObjectName
      in if \<not> IsValidInput NewInput then AppendNewInputs E log (Suc InputIdx) k InInputs
         else AppendNewInputs E log (Suc InputIdx) k (InInputs @ [NewInput]))"

text \<open>
  Destroying the surplus inputs, given from the last one down to the one at
  \<^verbatim>\<open>InputCount\<close>. The inputs themselves leave the array with \<^verbatim>\<open>SetNum\<close> afterwards, so only
  the calls are kept.
\<close>

fun DestroySurplusInputs ::
  "Environment \<Rightarrow> UHoudiniInput option list \<Rightarrow> HAPI_Call list \<Rightarrow> HAPI_Call list" where
  "DestroySurplusInputs E [] log = log"
| "DestroySurplusInputs E (CurrentInput # Rest) log =
     (case CurrentInput of
        None \<Rightarrow> DestroySurplusInputs E Rest log
      | Some I \<Rightarrow>
          if IsPendingKill I then DestroySurplusInputs E Rest log
          else
            let (b, I', log') = DisconnectAndDestroyInput E log (Some I) (GetInputType I)
            in DestroySurplusInputs E Rest log')"

text \<open>
  The body of the second loop for a live input, in its three parts. \<open>geoInputCount\<close> is
  the count read from the asset info, \<open>InputParameters\<close> the positions found by the first
  loop. The first part plugs the input as a geometry input of the node or as the input of an
  object-path parameter, and finds its name, label and help.
\<close>

definition PlugInput ::
  "Environment \<Rightarrow> int \<Rightarrow> int \<Rightarrow> nat list \<Rightarrow> nat \<Rightarrow> UHoudiniInput \<Rightarrow> UHoudiniParameter list
     \<Rightarrow> HAPI_Call list
     \<Rightarrow> UHoudiniInput \<times> string \<times> string \<times> string \<times> UHoudiniParameter list \<times> HAPI_Call list" where
  "PlugInput E AssetId geoInputCount InputParameters InputIdx CurrentInput InParameters log =
     (let DefaultName = ''Input'' @ FromInt (int InputIdx + 1);
          I1 = CurrentInput\<lparr>GetAssetNodeId := AssetId\<rparr>;
          bIsObjectPath = (int InputIdx \<ge> geoInputCount)
      in if \<not> bIsObjectPath
         then
           let (r, logA) = CallApi E log (GetNodeInputName AssetId (int InputIdx))
           in (SetSOPInput (int InputIdx) I1, DefaultName,
               if Succeeded r then ResultString r else DefaultName, [], InParameters, logA)
         else
           let CurrentParmIdx = int InputIdx - geoInputCount;
               CurrentParm =
                 (if 0 \<le> CurrentParmIdx \<and> CurrentParmIdx < int (length InputParameters)
                     \<and> ParameterIsValid (InParameters ! (InputParameters ! nat CurrentParmIdx))
                  then Some (InputParameters ! nat CurrentParmIdx) else None);
               (ParmId, Name, Label, Help) =
                 (case CurrentParm of
                    None \<Rightarrow> (-1, DefaultName, DefaultName, [])
                  | Some pi \<Rightarrow>
                      if ParameterIsPendingKill (InParameters ! pi)
                      then (-1, DefaultName, DefaultName, [])
                      else (GetParmId (InParameters ! pi), GetParameterName (InParameters ! pi),
                            GetParameterLabel (InParameters ! pi),
                            GetParameterHelp (InParameters ! pi)));
               ParametersA =
                 (case CurrentParm of
                    None \<Rightarrow> InParameters
                  | Some pi \<Rightarrow>
                      if IsOperatorPath (InParameters ! pi)
                         \<and> \<not> ParameterIsPendingKill (InParameters ! pi)
                      then InParameters[pi := (InParameters ! pi)\<lparr>HoudiniInput := Some InputIdx\<rparr>]
                      else InParameters)
           in (SetObjectPathParameter ParmId I1, Name, Label, Help, ParametersA, log))"

text \<open>The second part gives an input of invalid type its default type and default asset.\<close>

definition InitializeInputType ::
  "Environment \<Rightarrow> string \<Rightarrow> UHoudiniInput \<Rightarrow> HAPI_Call list \<Rightarrow> UHoudiniInput \<times> HAPI_Call list" where
  "InitializeInputType E CurrentInputLabel CurrentInput log =
     (if GetInputType CurrentInput = EHoudiniInputType_Invalid
      then
        let IA = SetInputType (GetDefaultInputTypeFromLabel CurrentInputLabel) CurrentInput;
            (b, IB, logB) = SetDefaultAssetFromHDA E log (Some IA)
        in (case IB of None \<Rightarrow> (IA, logB) | Some IC \<Rightarrow> (IC, logB))
      else (CurrentInput, log))"

text \<open>The third part is the switch over the input type: only curves are read back.\<close>

definition UpdateInputObjects ::
  "Environment \<Rightarrow> UHoudiniInput \<Rightarrow> HAPI_Call list \<Rightarrow> UHoudiniInput \<times> HAPI_Call list" where
  "UpdateInputObjects E CurrentInput log =
     (if GetInputType CurrentInput = EHoudiniInputType_Curve
      then
        let log1 = log @ [UpdateHoudiniInputCurves (GetInputNodeId CurrentInput)]
        in (case UpdatedInputCurves E log CurrentInput of
              None \<Rightarrow> (CurrentInput, log1)
            | Some Curves \<Rightarrow>
                (SetHoudiniInputObjectArray EHoudiniInputType_Curve Curves CurrentInput, log1))
      else (CurrentInput, log))"

definition BuildInput ::
  "Environment \<Rightarrow> int \<Rightarrow> int \<Rightarrow> nat list \<Rightarrow> nat \<Rightarrow> UHoudiniInput \<Rightarrow> UHoudiniParameter list
     \<Rightarrow> HAPI_Call list \<Rightarrow> UHoudiniInput \<times> UHoudiniParameter list \<times> HAPI_Call list" where
  "BuildInput E AssetId geoInputCount InputParameters InputIdx CurrentInput InParameters log =
     (let (I2, CurrentInputName, CurrentInputLabel, CurrentInputHelp, Parameters1, log1) =
            PlugInput E AssetId geoInputCount InputParameters InputIdx CurrentInput InParameters log;
          I3 = I2\<lparr>GetName := CurrentInputName, GetLabel := CurrentInputLabel\<rparr>;
          I4 = I3\<lparr>GetHelp :=
                     (if CurrentInputHelp = []
                      then CurrentInputLabel @ ''('' @ CurrentInputName @ '')''
                      else CurrentInputHelp)\<rparr>;
          (I5, log2) = InitializeInputType E CurrentInputLabel I4 log1;
          (I6, log3) = UpdateInputObjects E I5 log2
      in (I6, Parameters1, log3))"

fun BuildInputsLoop ::
  "Environment \<Rightarrow> int \<Rightarrow> int \<Rightarrow> nat list \<Rightarrow> nat \<Rightarrow> UHoudiniInput option list
     \<Rightarrow> UHoudiniParameter list \<Rightarrow> HAPI_Call list
     \<Rightarrow> UHoudiniInput option list \<times> UHoudiniParameter list \<times> HAPI_Call list" where
  "BuildInputsLoop E AssetId geoInputCount InputParameters InputIdx [] InParameters log =
     ([], InParameters, log)"
| "BuildInputsLoop E AssetId geoInputCount InputParameters InputIdx (CurrentInput # Rest) InParameters log =
     (case CurrentInput of
        None \<Rightarrow>
          (let (Rest', Parameters', log') =
                 BuildInputsLoop E AssetId geoInputCount InputParameters (Suc InputIdx) Rest InParameters log
           in (None # Rest', Parameters', log'))
      | Some I \<Rightarrow>
          if IsPendingKill I
          then (let (Rest', Parameters', log') =
                      BuildInputsLoop E AssetId geoInputCount InputParameters (Suc InputIdx) Rest InParameters log
                in (Some I # Rest', Parameters', log'))
          else
            let (I', Parameters1, log1) =
                  BuildInput E AssetId geoInputCount InputParameters InputIdx I InParameters log;
                (Rest', Parameters', log') =
                  BuildInputsLoop E AssetId geoInputCount InputParameters (Suc InputIdx) Rest Parameters1 log1
            in (Some I' # Rest', Parameters', log'))"

text \<open>
  \<^verbatim>\<open>BuildAllInputs\<close>. The result is \<open>None\<close> where the source leaves the array: with a
  negative \<^verbatim>\<open>InputCount\<close> the loop over the surplus inputs runs down to \<^verbatim>\<open>Inputs[-1]\<close>.
\<close>

definition BuildAllInputs ::
  "Environment \<Rightarrow> HAPI_Call list \<Rightarrow> int \<Rightarrow> UHoudiniInput option list \<Rightarrow> UHoudiniParameter list
     \<Rightarrow> (bool \<times> UHoudiniInput option list \<times> UHoudiniParameter list \<times> HAPI_Call list) option" where
  "BuildAllInputs E log AssetId InInputs InParameters =
     (if AssetId < 0 then Some (False, InInputs, InParameters, log)
      else
        let (AssetInfo, log1) = CallApi E log (GetAssetInfo AssetId)
        in if \<not> Succeeded AssetInfo then Some (False, InInputs, InParameters, log1)
           else
             let geoInputCount = ResultId AssetInfo;
                 InputParameters = InputParametersOf InParameters;
                 InputCount = geoInputCount + int (length InputParameters)
             in if InputCount < 0 then None
                else
                  let (Inputs1, log2) =
                        (if InputCount > int (length InInputs)
                         then (AppendNewInputs E log1 (length InInputs)
                                 (nat InputCount - length InInputs) InInputs, log1)
                         else if InputCount < int (length InInputs)
                         then (take (nat InputCount) InInputs,
                               DestroySurplusInputs E (rev (drop (nat InputCount) InInputs)) log1)
                         else (InInputs, log1));
                      (Inputs2, Parameters2, log3) =
                        BuildInputsLoop E AssetId geoInputCount InputParameters 0 Inputs1 InParameters log2
                  in Some (True, Inputs2, Parameters2, log3))"

section \<open>Input translator: UpdateWorldInputs\<close>








section \<open>Predicates and sample data used in the statements\<close>

definition IsDeleteNode :: "HAPI_Call \<Rightarrow> bool" where
  "IsDeleteNode c = (case c of DeleteNode _ \<Rightarrow> True | _ \<Rightarrow> False)"

definition ObjectsOf :: "UHoudiniInput \<Rightarrow> EHoudiniInputType \<Rightarrow> UHoudiniInputObject option list" where
  "ObjectsOf InInput InType =
     (case GetHoudiniInputObjectArray InInput InType of None \<Rightarrow> [] | Some objs \<Rightarrow> objs)"

text \<open>The node ids that the loop of \<^verbatim>\<open>DestroyInputNodes\<close> takes out of its list: the
  \<^verbatim>\<open>InputNodeId\<close> of every live input object of type HoudiniAssetComponent.\<close>

definition HoudiniAssetComponentNodeIds :: "UHoudiniInputObject option list \<Rightarrow> int list" where
  "HoudiniAssetComponentNodeIds objs =
     concat (map (\<lambda>p. case p of
                         None \<Rightarrow> []
                       | Some obj \<Rightarrow>
                           if \<not> bPendingKill obj \<and> Type obj = EHoudiniInputObjectType_HoudiniAssetComponent
                           then [InputNodeId obj] else []) objs)"

text \<open>Node ids are \<open>-1\<close> or the id of a node, in the input and in the objects of the array.\<close>

definition NodeIdsWellFormed :: "UHoudiniInput \<Rightarrow> EHoudiniInputType \<Rightarrow> bool" where
  "NodeIdsWellFormed InInput InType =
     (-1 \<le> GetInputNodeId InInput
      \<and> list_all (\<lambda>p. case p of None \<Rightarrow> True
                         | Some obj \<Rightarrow> -1 \<le> InputNodeId obj \<and> -1 \<le> InputObjectNodeId obj)
          (ObjectsOf InInput InType))"

definition ComponentNodesReset :: "UHoudiniInputSceneComponent option list \<Rightarrow> bool" where
  "ComponentNodesReset comps =
     list_all (\<lambda>c. case c of None \<Rightarrow> True | Some cmpt \<Rightarrow> bPendingKill cmpt \<or> InputNodeId cmpt = -1) comps"

definition NoDanglingNodeIds :: "UHoudiniInput \<Rightarrow> EHoudiniInputType \<Rightarrow> bool" where
  "NoDanglingNodeIds InInput InType =
     (GetInputNodeId InInput = -1
      \<and> list_all (\<lambda>p. case p of None \<Rightarrow> True
                         | Some obj \<Rightarrow> bPendingKill obj
                             \<or> (InputNodeId obj = -1 \<and> InputObjectNodeId obj = -1
                                 \<and> (Type obj = EHoudiniInputObjectType_Actor
                                      \<longrightarrow> ComponentNodesReset (ActorComponents obj))))
          (ObjectsOf InInput InType))"

text \<open>
  Modelled from the spec: the constructors of \<^verbatim>\<open>UHoudiniInput\<close> and of the input objects are
  not under src/. A new input has no type, no node and no objects; a new input object has
  no node and no flag set.
\<close>

definition NewHoudiniInput :: "string \<Rightarrow> UHoudiniInput" where
  "NewHoudiniInput InputObjectName =
     \<lparr>IsPendingKill = False, ObjectName = InputObjectName, GetName = [], GetLabel = [], GetHelp = [],
      GetInputType = EHoudiniInputType_Invalid, GetPreviousInputType = EHoudiniInputType_Invalid,
      GetAssetNodeId = -1, GetInputNodeId = -1, GetInputIndex = 0, GetParameterId = -1,
      IsObjectPathParameter = False, HasChanged = False, NeedsToTriggerUpdate = False,
      bDataUploadNeeded = False, HasLandscapeExportTypeChanged = False,
      CanDeleteHoudiniNodes = True, GetKeepWorldTransform = False, GetPackBeforeMerge = False,
      GetNodeBaseName = InputObjectName,
      GetCreatedDataNodeIds = [], InputObjectArrays = Map.empty, OuterIsHAC = True, OuterAssetId = -1\<rparr>"

definition NewInputObject :: "EHoudiniInputObjectType \<Rightarrow> UHoudiniInputObject" where
  "NewInputObject InType =
     \<lparr>Type = InType, bPendingKill = False, InputNodeId = -1, InputObjectNodeId = -1,
      bHasChanged = False, bTransformChanged = False, bNeedsToTriggerUpdate = False,
      Transform = FTransform_Identity, EngineObject = EngineObject_Live, bIsBlueprint = False,
      BlueprintStaticMeshes = [], CurveNodeId = None, ActorComponents = []\<rparr>"

text \<open>An engine that refuses every call and whose translators fail without touching
  anything.\<close>

definition RefusingEngine :: Environment where
  "RefusingEngine =
     \<lparr>Api = (\<lambda>log c. HAPI_Result False (-1) [] FTransform_Identity),
      Translator = (\<lambda>log kind InInput obj.
         \<lparr>TranslatorReturn = False, ObjectAfter = obj, InputNodeIdAfter = GetInputNodeId InInput,
          bInputMarkedChanged = False\<rparr>),
      IsGarbageCollecting = (\<lambda>log. False),
      AssetActorState = (\<lambda>log obj.
         \<lparr>IsA_AHoudiniAssetActor = False, AssetComponentIsValid = False,
          HasAnyCurrentProxyOutput = False, IsHoudiniCookedDataAvailable = False,
          bPendingDeleteOrRebuild = False, bInvalidState = False,
          HasAnyOutputComponent = False\<rparr>),
      UpdatedActorComponents = (\<lambda>log InInput obj. ActorComponents obj),
      HostTransform = (\<lambda>log obj. Transform obj),
      LandscapeTransformDiff = (\<lambda>Cached New HF. HF),
      NewObject = (\<lambda>log InputObjectName. Some (NewHoudiniInput InputObjectName)),
      DefaultAssetFromHDA = (\<lambda>log InInput. None),
      UpdatedInputCurves = (\<lambda>log InInput. None),
      IsDataUploadNeeded = (\<lambda>InInput. bDataUploadNeeded InInput \<or> HasChanged InInput),
      IsTransformUploadNeeded = (\<lambda>InInput. False),
      HasInputTypeChanged = (\<lambda>InInput. False),
      GetNumberOfInputMeshes = (\<lambda>InInput InType. 0)\<rparr>"

text \<open>A world input holding a Houdini asset actor whose asset node \<open>7\<close> is recorded among
  the created nodes; a geometry input with a null entry and one uploaded static mesh; two
  asset inputs.\<close>

definition WorldInputWithAssetActor :: UHoudiniInput where
  "WorldInputWithAssetActor =
     (NewHoudiniInput ''Input1'')
       \<lparr>GetInputType := EHoudiniInputType_World, GetInputNodeId := 12,
        GetCreatedDataNodeIds := [7],
        InputObjectArrays :=
          [EHoudiniInputType_World \<mapsto>
             [Some ((NewInputObject EHoudiniInputObjectType_HoudiniAssetComponent)
                      \<lparr>InputNodeId := 7, InputObjectNodeId := 7\<rparr>)]]\<rparr>"

definition GeometryInputWithMesh :: UHoudiniInput where
  "GeometryInputWithMesh =
     (NewHoudiniInput ''Input1'')
       \<lparr>GetInputType := EHoudiniInputType_Geometry, GetInputNodeId := 9,
        GetCreatedDataNodeIds := [4],
        InputObjectArrays :=
          [EHoudiniInputType_Geometry \<mapsto>
             [None, Some ((NewInputObject EHoudiniInputObjectType_StaticMesh)
                      \<lparr>InputNodeId := 3, InputObjectNodeId := 4\<rparr>)]]\<rparr>"

definition ConnectedAssetInput :: UHoudiniInput where
  "ConnectedAssetInput =
     (NewHoudiniInput ''Input2'')
       \<lparr>GetInputType := EHoudiniInputType_Asset, GetAssetNodeId := 2, GetInputNodeId := 5,
        GetInputIndex := 1, GetCreatedDataNodeIds := [5]\<rparr>"

definition AssetInputKeepingNodes :: UHoudiniInput where
  "AssetInputKeepingNodes = ConnectedAssetInput\<lparr>CanDeleteHoudiniNodes := False\<rparr>"

text \<open>The table of the claim on the switch of \<^verbatim>\<open>UploadHoudiniInputObject\<close>: the
  translator dedicated to each type of input object. Actor objects go to
  \<^verbatim>\<open>HapiCreateInputNodeForActor\<close>, which the model spells out; Invalid has no translator.\<close>

fun DedicatedTranslator :: "EHoudiniInputObjectType \<Rightarrow> TranslatorKind option" where
  "DedicatedTranslator EHoudiniInputObjectType_Object = Some HapiCreateInputNodeForObject"
| "DedicatedTranslator EHoudiniInputObjectType_StaticMesh = Some HapiCreateInputNodeForStaticMesh"
| "DedicatedTranslator EHoudiniInputObjectType_SkeletalMesh = Some HapiCreateInputNodeForSkeletalMesh"
| "DedicatedTranslator EHoudiniInputObjectType_SceneComponent = Some HapiCreateInputNodeForSceneComponent"
| "DedicatedTranslator EHoudiniInputObjectType_StaticMeshComponent =
     Some HapiCreateInputNodeForStaticMeshComponent"
| "DedicatedTranslator EHoudiniInputObjectType_InstancedStaticMeshComponent =
     Some HapiCreateInputNodeForInstancedStaticMeshComponent"
| "DedicatedTranslator EHoudiniInputObjectType_SplineComponent = Some HapiCreateInputNodeForSplineComponent"
| "DedicatedTranslator EHoudiniInputObjectType_HoudiniSplineComponent =
     Some HapiCreateInputNodeForHoudiniSplineComponent"
| "DedicatedTranslator EHoudiniInputObjectType_HoudiniAssetComponent =
     Some HapiCreateInputNodeForHoudiniAssetComponent"
| "DedicatedTranslator EHoudiniInputObjectType_HoudiniAssetActor =
     Some HapiCreateInputNodeForHoudiniAssetComponent"
| "DedicatedTranslator EHoudiniInputObjectType_Landscape = Some HapiCreateInputNodeForLandscape"
| "DedicatedTranslator EHoudiniInputObjectType_Brush = Some HapiCreateInputNodeForBrush"
| "DedicatedTranslator EHoudiniInputObjectType_CameraComponent = Some HapiCreateInputNodeForCamera"
| "DedicatedTranslator EHoudiniInputObjectType_DataTable = Some HapiCreateInputNodeForDataTable"
| "DedicatedTranslator EHoudiniInputObjectType_FoliageType_InstancedStaticMesh =
     Some HapiCreateInputNodeForFoliageType_InstancedStaticMesh"
| "DedicatedTranslator EHoudiniInputObjectType_Actor = None"
| "DedicatedTranslator EHoudiniInputObjectType_Invalid = None"

text \<open>The node ids a successful translator call adds to the created node ids.\<close>

definition NodeIdsCreated :: "EHoudiniInputObjectType \<Rightarrow> UHoudiniInputSceneComponent \<Rightarrow> int list" where
  "NodeIdsCreated InType obj' =
     (if InType = EHoudiniInputObjectType_StaticMesh \<and> bIsBlueprint obj'
      then BlueprintStaticMeshes obj' else [InputObjectNodeId obj'])"

text \<open>An engine that accepts every call; a translator gives the object two fresh node ids,
  numbered by the calls made so far.\<close>

definition AcceptingEngine :: Environment where
  "AcceptingEngine =
     RefusingEngine
       \<lparr>Api := (\<lambda>log c. HAPI_Result True (int (length log)) [] FTransform_Identity),
        Translator := (\<lambda>log kind InInput obj.
          \<lparr>TranslatorReturn = True,
           ObjectAfter = obj\<lparr>InputNodeId := 100 + 2 * int (length log),
                             InputObjectNodeId := 101 + 2 * int (length log)\<rparr>,
           InputNodeIdAfter = GetInputNodeId InInput, bInputMarkedChanged = False\<rparr>)\<rparr>"

text \<open>A changed static mesh that was never uploaded, a changed static-mesh component, and
  an actor holding that component.\<close>

definition ChangedStaticMesh :: UHoudiniInputObject where
  "ChangedStaticMesh = (NewInputObject EHoudiniInputObjectType_StaticMesh)\<lparr>bHasChanged := True\<rparr>"

definition ChangedMeshComponent :: UHoudiniInputSceneComponent where
  "ChangedMeshComponent =
     AsComponent ((NewInputObject EHoudiniInputObjectType_StaticMeshComponent)\<lparr>bHasChanged := True\<rparr>)"

definition ActorWithChangedComponent :: UHoudiniInputObject where
  "ActorWithChangedComponent =
     (NewInputObject EHoudiniInputObjectType_Actor)
       \<lparr>bHasChanged := True, ActorComponents := [Some ChangedMeshComponent]\<rparr>"

text \<open>
  The input objects that \<^verbatim>\<open>UploadInputData\<close> does more with than keep their node: the live
  objects that changed or have no valid node, and the live actors (whose components are
  looked at one by one). Likewise for the components of an actor that keeps its node.
\<close>

definition NeedsUpload :: "UHoudiniInputObject option \<Rightarrow> bool" where
  "NeedsUpload p =
     (case p of
        None \<Rightarrow> False
      | Some obj \<Rightarrow> \<not> bPendingKill obj
                    \<and> \<not> (KeepsNode obj \<and> Type obj \<noteq> EHoudiniInputObjectType_Actor))"

definition ComponentNeedsUpload :: "UHoudiniInputSceneComponent option \<Rightarrow> bool" where
  "ComponentNeedsUpload c =
     (case c of None \<Rightarrow> False | Some cmpt \<Rightarrow> \<not> bPendingKill cmpt \<and> \<not> KeepsNode cmpt)"

text \<open>What a loop over input objects leaves outside the objects and the list of created
  node ids: its success flag, the input, and the calls made.\<close>

definition UploadOutcome ::
  "'a \<times> bool \<times> int list \<times> UHoudiniInput \<times> HAPI_Call list \<Rightarrow> bool \<times> UHoudiniInput \<times> HAPI_Call list" where
  "UploadOutcome r = (case r of (objs, b, ids, InInput, log) \<Rightarrow> (b, InInput, log))"

text \<open>\<^verbatim>\<open>UploadInputData\<close> gave up because the merge node of the input could not be created:
  the last call is the refused \<^verbatim>\<open>CreateNode\<close>.\<close>

definition MergeNodeMissing :: "Environment \<Rightarrow> HAPI_Call list \<Rightarrow> bool" where
  "MergeNodeMissing E log =
     (\<exists>l nodeLabel. log = l @ [CreateNode ''SOP/merge'' nodeLabel]
        \<and> \<not> Succeeded (Api E l (CreateNode ''SOP/merge'' nodeLabel)))"

definition IsTranslatorCall :: "HAPI_Call \<Rightarrow> bool" where
  "IsTranslatorCall c = (case c of CreateInputNode _ _ \<Rightarrow> True | _ \<Rightarrow> False)"

text \<open>
  A world input that was uploaded before: a static mesh and an actor that keep their
  nodes; the actor holds a component that keeps its node and one that changed. The same
  input after the actor itself was marked changed.
\<close>

definition KeptMeshComponent :: UHoudiniInputSceneComponent where
  "KeptMeshComponent =
     AsComponent ((NewInputObject EHoudiniInputObjectType_StaticMeshComponent)
                    \<lparr>InputNodeId := 30, InputObjectNodeId := 31\<rparr>)"

definition KeptStaticMesh :: UHoudiniInputObject where
  "KeptStaticMesh =
     (NewInputObject EHoudiniInputObjectType_StaticMesh)\<lparr>InputNodeId := 3, InputObjectNodeId := 4\<rparr>"

definition KeptActor :: UHoudiniInputObject where
  "KeptActor =
     (NewInputObject EHoudiniInputObjectType_Actor)
       \<lparr>InputObjectNodeId := 40,
        ActorComponents := [Some KeptMeshComponent, Some ChangedMeshComponent]\<rparr>"

definition UploadedWorldInput :: UHoudiniInput where
  "UploadedWorldInput =
     (NewHoudiniInput ''Input1'')
       \<lparr>GetInputType := EHoudiniInputType_World, GetAssetNodeId := 1, GetInputNodeId := 9,
        GetCreatedDataNodeIds := [4, 31],
        InputObjectArrays := [EHoudiniInputType_World \<mapsto> [Some KeptStaticMesh, Some KeptActor]]\<rparr>"

definition WorldInputWithChangedActor :: UHoudiniInput where
  "WorldInputWithChangedActor =
     UploadedWorldInput
       \<lparr>InputObjectArrays :=
          [EHoudiniInputType_World \<mapsto>
             [Some (KeptActor\<lparr>bHasChanged := True, ActorComponents := [Some KeptMeshComponent]\<rparr>)]]\<rparr>"

text \<open>The input objects whose transform \<^verbatim>\<open>UploadInputTransform\<close> uploads: the live ones
  with the transform-changed flag set.\<close>

definition TransformNeedsUpload :: "'a UHoudiniInputSceneComponent_scheme option \<Rightarrow> bool" where
  "TransformNeedsUpload p =
     (case p of None \<Rightarrow> False | Some obj \<Rightarrow> \<not> bPendingKill obj \<and> bTransformChanged obj)"

text \<open>A geometry input with a static mesh that did not move and one that did.\<close>

definition MovedStaticMesh :: UHoudiniInputObject where
  "MovedStaticMesh =
     (NewInputObject EHoudiniInputObjectType_StaticMesh)
       \<lparr>InputNodeId := 5, InputObjectNodeId := 6, bTransformChanged := True,
        bNeedsToTriggerUpdate := True, Transform := 7\<rparr>"

definition GeometryInputWithMovedMesh :: UHoudiniInput where
  "GeometryInputWithMovedMesh =
     GeometryInputWithMesh
       \<lparr>InputObjectArrays :=
          [EHoudiniInputType_Geometry \<mapsto> [Some KeptStaticMesh, Some MovedStaticMesh]]\<rparr>"

text \<open>A component whose only input is a changed geometry input holding one changed static
  mesh that was never uploaded.\<close>

definition ChangedGeometryInput :: UHoudiniInput where
  "ChangedGeometryInput =
     (NewHoudiniInput ''Input1'')
       \<lparr>GetInputType := EHoudiniInputType_Geometry, GetAssetNodeId := 1, HasChanged := True,
        NeedsToTriggerUpdate := True, bDataUploadNeeded := True,
        InputObjectArrays := [EHoudiniInputType_Geometry \<mapsto> [Some ChangedStaticMesh]]\<rparr>"

definition ComponentWithChangedInput :: UHoudiniAssetComponent where
  "ComponentWithChangedInput =
     \<lparr>ComponentIsPendingKill = False, GetAssetId = 1,
      Inputs = [Some ChangedGeometryInput], Parameters = [],
      GetOwner = Some \<lparr>GetWorld = Some EWorldType_Editor\<rparr>\<rparr>"

text \<open>
  What \<^verbatim>\<open>BuildAllInputs\<close> is stated against: an engine whose \<^verbatim>\<open>NewObject\<close> always creates a
  live input under the name it is given; the number of parameters of type Input; how the
  input at position \<open>i\<close> is plugged into the asset, as a geometry input of the node below
  \<open>geoInputCount\<close> and as an object-path parameter input from there on; and the calls made for
  the surplus inputs, \<^verbatim>\<open>DisconnectAndDestroyInput\<close> run on each live one in turn.
\<close>

definition NewObjectCreates :: "Environment \<Rightarrow> bool" where
  "NewObjectCreates E =
     (\<forall>log InputObjectName.
        case NewObject E log InputObjectName of
          None \<Rightarrow> False
        | Some I \<Rightarrow> \<not> IsPendingKill I \<and> ObjectName I = InputObjectName)"

definition NumInputParameters :: "UHoudiniParameter list \<Rightarrow> nat" where
  "NumInputParameters Ps =
     length (filter (\<lambda>p. GetParameterType p = EHoudiniParameterType_Input) Ps)"

definition PluggedAs :: "int \<Rightarrow> int \<Rightarrow> nat \<Rightarrow> UHoudiniInput \<Rightarrow> bool" where
  "PluggedAs AssetId geoInputCount i I =
     (\<not> IsPendingKill I \<and> GetAssetNodeId I = AssetId
      \<and> IsObjectPathParameter I = (geoInputCount \<le> int i)
      \<and> (if int i < geoInputCount then GetInputIndex I = int i else GetInputIndex I = 0))"

definition DisconnectAndDestroyCalls ::
  "Environment \<Rightarrow> UHoudiniInput option \<Rightarrow> HAPI_Call list \<Rightarrow> HAPI_Call list" where
  "DisconnectAndDestroyCalls E p log =
     snd (snd (DisconnectAndDestroyInput E log p (GetInputType (the p))))"

text \<open>An asset node with \<open>n\<close> geometry inputs in an engine that accepts every call; an
  object-path parameter; an engine whose \<^verbatim>\<open>NewObject\<close> fails.\<close>

definition AssetWithGeoInputs :: "int \<Rightarrow> Environment" where
  "AssetWithGeoInputs n =
     AcceptingEngine
       \<lparr>Api := (\<lambda>log c. case c of
                   GetAssetInfo _ \<Rightarrow> HAPI_Result True n [] FTransform_Identity
                 | GetNodeInputName _ _ \<Rightarrow> HAPI_Result True 0 ''Mesh'' FTransform_Identity
                 | _ \<Rightarrow> Api AcceptingEngine log c)\<rparr>"

definition ObjectPathParameter :: UHoudiniParameter where
  "ObjectPathParameter =
     \<lparr>GetParameterType = EHoudiniParameterType_Input, ParameterIsValid = True,
      ParameterIsPendingKill = False, IsOperatorPath = True, GetParmId = 5,
      GetParameterName = ''objpath1'', GetParameterLabel = ''Path'',
      GetParameterHelp = [], HoudiniInput = None\<rparr>"

definition FloatParameter :: UHoudiniParameter where
  "FloatParameter =
     ObjectPathParameter
       \<lparr>GetParameterType := EHoudiniParameterType_Other, IsOperatorPath := False, GetParmId := 2,
        GetParameterName := ''scale'', GetParameterLabel := ''Scale''\<rparr>"

definition EngineOutOfObjects :: Environment where
  "EngineOutOfObjects = (AssetWithGeoInputs 1)\<lparr>NewObject := (\<lambda>log InputObjectName. None)\<rparr>"

text \<open>An input that is pending kill and still plugged as the input of an object-path
  parameter.\<close>

definition PendingKillInput :: UHoudiniInput where
  "PendingKillInput =
     (NewHoudiniInput ''Input1'')\<lparr>IsPendingKill := True, IsObjectPathParameter := True\<rparr>"

text \<open>Two inputs agree on how they are plugged; the inputs that the second loop of
  \<^verbatim>\<open>BuildAllInputs\<close> runs over.\<close>

definition SamePlug :: "UHoudiniInput \<Rightarrow> UHoudiniInput \<Rightarrow> bool" where
  "SamePlug I I' =
     (IsPendingKill I' = IsPendingKill I \<and> ObjectName I' = ObjectName I
      \<and> GetAssetNodeId I' = GetAssetNodeId I \<and> IsObjectPathParameter I' = IsObjectPathParameter I
      \<and> GetInputIndex I' = GetInputIndex I)"

definition InputsBeforeSecondLoop ::
  "Environment \<Rightarrow> HAPI_Call list \<Rightarrow> int \<Rightarrow> UHoudiniInput option list \<Rightarrow> UHoudiniInput option list" where
  "InputsBeforeSecondLoop E log1 n Ins =
     (if int (length Ins) < n then AppendNewInputs E log1 (length Ins) (nat n - length Ins) Ins
      else take (nat n) Ins)"

text \<open>Three inputs held by a component whose asset now has a single geometry input: the last
  one, a connected geometry input with an uploaded mesh, is surplus.\<close>

definition InputsWithSurplus :: "UHoudiniInput option list" where
  "InputsWithSurplus =
     [Some (NewHoudiniInput ''Input1''), None, Some (GeometryInputWithMesh\<lparr>GetAssetNodeId := 1\<rparr>)]"

text \<open>
  A component that is there and not pending kill. An actor input object whose engine actor
  is gone, one that keeps its node and holds no live component, and a changed Houdini asset
  actor whose input object knows no component yet, with an engine in which its asset
  component has output components and \<^verbatim>\<open>Update\<close> finds one static-mesh component.
\<close>

definition IsLiveComponent :: "UHoudiniInputSceneComponent option \<Rightarrow> bool" where
  "IsLiveComponent c = (case c of None \<Rightarrow> False | Some cmpt \<Rightarrow> \<not> bPendingKill cmpt)"

definition ActorWithoutEngineActor :: UHoudiniInputObject where
  "ActorWithoutEngineActor = KeptActor\<lparr>bHasChanged := True, EngineObject := EngineObject_Null\<rparr>"

definition ActorWithoutLiveComponent :: UHoudiniInputObject where
  "ActorWithoutLiveComponent =
     KeptActor\<lparr>ActorComponents := [None, Some (KeptMeshComponent\<lparr>bPendingKill := True\<rparr>)]\<rparr>"

definition AssetActorWithoutComponents :: UHoudiniInputObject where
  "AssetActorWithoutComponents = (NewInputObject EHoudiniInputObjectType_Actor)\<lparr>bHasChanged := True\<rparr>"

definition EngineWithAssetActor :: Environment where
  "EngineWithAssetActor =
     AcceptingEngine
       \<lparr>AssetActorState := (\<lambda>log obj.
          \<lparr>IsA_AHoudiniAssetActor = True, AssetComponentIsValid = True,
           HasAnyCurrentProxyOutput = False, IsHoudiniCookedDataAvailable = False,
           bPendingDeleteOrRebuild = False, bInvalidState = False,
           HasAnyOutputComponent = True\<rparr>),
        UpdatedActorComponents := (\<lambda>log InInput obj. [Some ChangedMeshComponent])\<rparr>"



section \<open>Theorems\<close>

lemma StartsWithIgnoreCase_prefix:
  "StartsWithIgnoreCase s p = prefix (map ToUpper p) (map ToUpper s)"
  by (induction s p rule: StartsWithIgnoreCase.induct) (auto simp: eq_commute)

lemma ContainsIgnoreCase_sublist:
  "ContainsIgnoreCase s p = sublist (map ToUpper p) (map ToUpper s)"
proof (induction s)
  case Nil
  show ?case by (cases p) simp_all
next
  case (Cons c s)
  show ?case
    by (simp add: Cons.IH StartsWithIgnoreCase_prefix sublist_Cons_right del: StartsWithIgnoreCase.simps)
qed

text \<open>
  C7. For a non-empty outputs array whose first output is valid, CreateWidget builds the
  widget chosen by that output's type: mesh, landscape, instancer and curve outputs get
  their own widget, every other type (Skeletal included) the default widget; an editable
  curve output gets no widget, and neither does an empty array or an invalid first output.
\<close>

theorem CreateWidget_dispatch:
  "CreateWidget [] = None
   \<and> (\<not> IsValidOutput MainOutput \<longrightarrow> CreateWidget (MainOutput # Rest) = None)
   \<and> (IsValidOutput (Some out) \<longrightarrow>
        CreateWidget (Some out # Others) =
          (if bIsEditableNode out \<and> OutputType out = EHoudiniOutputType_Curve then None
           else Some (case OutputType out of
                        EHoudiniOutputType_Mesh \<Rightarrow> CreateMeshOutputWidget
                      | EHoudiniOutputType_Landscape \<Rightarrow> CreateLandscapeOutputWidget
                      | EHoudiniOutputType_Instancer \<Rightarrow> CreateInstancerOutputWidget
                      | EHoudiniOutputType_Curve \<Rightarrow> CreateCurveOutputWidget
                      | _ \<Rightarrow> CreateDefaultOutputWidget)))"
  by (auto simp: CreateWidget_def IsValidOutput_def split: option.splits EHoudiniOutputType.splits)

theorem CreateWidget_dispatch_witness:
  "\<not> IsValidOutput None
   \<and> CreateWidget [None, Some \<lparr>OutputType = EHoudiniOutputType_Mesh, bIsEditableNode = False,
                                OutputIsPendingKill = False\<rparr>] = None
   \<and> IsValidOutput (Some \<lparr>OutputType = EHoudiniOutputType_Skeletal, bIsEditableNode = True,
                           OutputIsPendingKill = False\<rparr>)
   \<and> CreateWidget [Some \<lparr>OutputType = EHoudiniOutputType_Skeletal, bIsEditableNode = True,
                          OutputIsPendingKill = False\<rparr>] = Some CreateDefaultOutputWidget"
  using CreateWidget_dispatch
    [of None "[Some \<lparr>OutputType = EHoudiniOutputType_Mesh, bIsEditableNode = False,
                        OutputIsPendingKill = False\<rparr>]"
        "\<lparr>OutputType = EHoudiniOutputType_Skeletal, bIsEditableNode = True,
          OutputIsPendingKill = False\<rparr>" "[]"]
  by (simp add: IsValidOutput_def)

text \<open>
  C8. The default input type is a function of the label alone, with the precedence
  curve, then landscape / terrain / heightfield, then world / outliner, then asset / hda,
  and Geometry when no word occurs; the search of the code agrees with "contains,
  case-insensitive" on every label.
\<close>

theorem GetDefaultInputTypeFromLabel_precedence:
  "GetDefaultInputTypeFromLabel label = default_type_of_label label"
  unfolding GetDefaultInputTypeFromLabel_def default_type_of_label_def label_contains_def
    ContainsIgnoreCase_sublist ..

section \<open>Destroying the nodes of an input\<close>

lemma DestroyInputAssets_eq:
  "DestroyInputAssets ids log = log @ map DeleteNode (filter (\<lambda>i. 0 \<le> i) ids)"
  by (induction ids arbitrary: log) auto

lemma DestroyInputObjectNodes_None [simp]:
  "DestroyInputObjectNodes E None ids log = (None, ids, log)"
  by (simp add: DestroyInputObjectNodes_def)

lemma DestroyInputObjectNodes_object:
  assumes "DestroyInputObjectNodes E (Some obj) ids log = (p', ids', log')"
  shows "\<exists>obj'. p' = Some obj' \<and> bPendingKill obj' = bPendingKill obj
           \<and> (\<not> bPendingKill obj \<longrightarrow> -1 \<le> InputNodeId obj \<longrightarrow> InputNodeId obj' = -1)
           \<and> (\<not> bPendingKill obj \<longrightarrow> -1 \<le> InputObjectNodeId obj \<longrightarrow> InputObjectNodeId obj' = -1)
           \<and> (\<not> bPendingKill obj \<longrightarrow> Type obj = EHoudiniInputObjectType_Actor
                \<longrightarrow> ActorComponents obj' = map DestroyActorComponentNode (ActorComponents obj))
           \<and> Type obj' = Type obj"
  using assms
  by (auto simp: DestroyInputObjectNodes_def Let_def CallApi_def MarkChanged_def
           split: if_splits option.splits prod.splits)

lemma ComponentNodesReset_Destroy: "ComponentNodesReset (map DestroyActorComponentNode comps)"
  by (induction comps)
     (auto simp: ComponentNodesReset_def DestroyActorComponentNode_def split: option.splits)

lemma DestroyInputObjectNodes_ids:
  assumes "DestroyInputObjectNodes E p ids log = (p', ids', log')"
  shows "ids' = filter (\<lambda>i. i \<notin> set (HoudiniAssetComponentNodeIds [p])) ids"
  using assms
  by (auto simp: DestroyInputObjectNodes_def Let_def CallApi_def HoudiniAssetComponentNodeIds_def removeAll_filter_not_eq
           split: if_splits option.splits prod.splits intro: filter_cong)

lemma DestroyInputObjectNodes_log:
  assumes "DestroyInputObjectNodes E p ids log = (p', ids', log')"
  shows "\<exists>ext. log' = log @ ext"
  using assms
  by (auto simp: DestroyInputObjectNodes_def Let_def CallApi_def
           split: if_splits option.splits prod.splits)

lemma HoudiniAssetComponentNodeIds_Cons:
  "HoudiniAssetComponentNodeIds (p # ps) =
     HoudiniAssetComponentNodeIds [p] @ HoudiniAssetComponentNodeIds ps"
  by (simp add: HoudiniAssetComponentNodeIds_def)

lemma DestroyInputObjectsLoop_ids:
  "DestroyInputObjectsLoop E objs ids log = (objs', ids', log')
     \<Longrightarrow> ids' = filter (\<lambda>i. i \<notin> set (HoudiniAssetComponentNodeIds objs)) ids"
proof (induction objs arbitrary: ids log objs' ids' log')
  case Nil
  then show ?case by (simp add: HoudiniAssetComponentNodeIds_def)
next
  case (Cons p ps)
  obtain p1 ids1 log1 where step: "DestroyInputObjectNodes E p ids log = (p1, ids1, log1)"
    by (cases "DestroyInputObjectNodes E p ids log") auto
  obtain ps2 ids2 log2 where rest: "DestroyInputObjectsLoop E ps ids1 log1 = (ps2, ids2, log2)"
    by (cases "DestroyInputObjectsLoop E ps ids1 log1") auto
  from Cons.prems step rest have "ids' = ids2" by simp
  moreover have "ids2 = filter (\<lambda>i. i \<notin> set (HoudiniAssetComponentNodeIds ps)) ids1"
    using Cons.IH [OF rest] .
  moreover have "ids1 = filter (\<lambda>i. i \<notin> set (HoudiniAssetComponentNodeIds [p])) ids"
    using DestroyInputObjectNodes_ids [OF step] .
  ultimately show ?case
    by (simp add: HoudiniAssetComponentNodeIds_Cons [of p ps] conj_commute)
qed

lemma DestroyInputObjectsLoop_log:
  "DestroyInputObjectsLoop E objs ids log = (objs', ids', log') \<Longrightarrow> \<exists>ext. log' = log @ ext"
proof (induction objs arbitrary: ids log objs' ids' log')
  case Nil
  then show ?case by simp
next
  case (Cons p ps)
  obtain p1 ids1 log1 where step: "DestroyInputObjectNodes E p ids log = (p1, ids1, log1)"
    by (cases "DestroyInputObjectNodes E p ids log") auto
  obtain ps2 ids2 log2 where rest: "DestroyInputObjectsLoop E ps ids1 log1 = (ps2, ids2, log2)"
    by (cases "DestroyInputObjectsLoop E ps ids1 log1") auto
  from Cons.prems step rest have "log' = log2" by simp
  with DestroyInputObjectNodes_log [OF step] Cons.IH [OF rest] show ?case by auto
qed

lemma DestroyInputObjectsLoop_objects:
  "DestroyInputObjectsLoop E objs ids log = (objs', ids', log')
     \<Longrightarrow> \<forall>p \<in> set objs. \<forall>obj. p = Some obj \<longrightarrow> -1 \<le> InputNodeId obj \<and> -1 \<le> InputObjectNodeId obj
     \<Longrightarrow> \<forall>p' \<in> set objs'. \<forall>obj'. p' = Some obj' \<longrightarrow> \<not> bPendingKill obj'
           \<longrightarrow> InputNodeId obj' = -1 \<and> InputObjectNodeId obj' = -1
                 \<and> (Type obj' = EHoudiniInputObjectType_Actor \<longrightarrow> ComponentNodesReset (ActorComponents obj'))"
proof (induction objs arbitrary: ids log objs' ids' log')
  case Nil
  then show ?case by simp
next
  case (Cons p ps)
  obtain p1 ids1 log1 where step: "DestroyInputObjectNodes E p ids log = (p1, ids1, log1)"
    by (cases "DestroyInputObjectNodes E p ids log") auto
  obtain ps2 ids2 log2 where rest: "DestroyInputObjectsLoop E ps ids1 log1 = (ps2, ids2, log2)"
    by (cases "DestroyInputObjectsLoop E ps ids1 log1") auto
  from Cons.prems(1) step rest have objs': "objs' = p1 # ps2" by simp
  have tail: "\<forall>p' \<in> set ps2. \<forall>obj'. p' = Some obj' \<longrightarrow> \<not> bPendingKill obj'
           \<longrightarrow> InputNodeId obj' = -1 \<and> InputObjectNodeId obj' = -1
                 \<and> (Type obj' = EHoudiniInputObjectType_Actor \<longrightarrow> ComponentNodesReset (ActorComponents obj'))"
    using Cons.IH [OF rest] Cons.prems(2) by simp
  have head: "\<forall>obj'. p1 = Some obj' \<longrightarrow> \<not> bPendingKill obj'
           \<longrightarrow> InputNodeId obj' = -1 \<and> InputObjectNodeId obj' = -1
                 \<and> (Type obj' = EHoudiniInputObjectType_Actor \<longrightarrow> ComponentNodesReset (ActorComponents obj'))"
  proof (cases p)
    case None
    with step show ?thesis by simp
  next
    case (Some obj)
    with Cons.prems(2) have "-1 \<le> InputNodeId obj" "-1 \<le> InputObjectNodeId obj" by auto
    with DestroyInputObjectNodes_object [OF step [unfolded Some]] show ?thesis
      by (auto simp: ComponentNodesReset_Destroy)
  qed
  from head tail objs' show ?case by simp
qed

lemma DestroyInputNodes_refused:
  "\<not> IsValidInput p \<or> (\<exists>I. p = Some I \<and> \<not> CanDeleteHoudiniNodes I)
     \<Longrightarrow> fst (DestroyInputNodes E log p InputType) = False"
  by (auto simp: DestroyInputNodes_def IsValidInput_def split: option.splits)

lemma DestroyInputNodes_destroys:
  assumes valid: "\<not> IsPendingKill I" "CanDeleteHoudiniNodes I" "InputType \<noteq> EHoudiniInputType_Asset"
    and wf: "NodeIdsWellFormed I InputType"
  shows "\<exists>J log'. DestroyInputNodes E log (Some I) InputType = (True, Some J, log')
           \<and> NoDanglingNodeIds J InputType
           \<and> (\<forall>i \<in> set (GetCreatedDataNodeIds I).
                 0 \<le> i \<and> i \<notin> set (HoudiniAssetComponentNodeIds (ObjectsOf I InputType))
                   \<longrightarrow> DeleteNode i \<in> set log')"
proof -
  define objs where "objs = ObjectsOf I InputType"
  obtain objs' ids1 log1 where loop:
    "DestroyInputObjectsLoop E objs (GetCreatedDataNodeIds I) log = (objs', ids1, log1)"
    by (cases "DestroyInputObjectsLoop E objs (GetCreatedDataNodeIds I) log") auto
  have ids1: "ids1 = filter (\<lambda>i. i \<notin> set (HoudiniAssetComponentNodeIds objs)) (GetCreatedDataNodeIds I)"
    using DestroyInputObjectsLoop_ids [OF loop] .
  have objs_wf: "\<forall>p \<in> set objs. \<forall>obj. p = Some obj \<longrightarrow> -1 \<le> InputNodeId obj \<and> -1 \<le> InputObjectNodeId obj"
    using wf by (auto simp: NodeIdsWellFormed_def objs_def list_all_iff)
  have objs'_ok: "\<forall>p' \<in> set objs'. \<forall>obj'. p' = Some obj' \<longrightarrow> \<not> bPendingKill obj'
           \<longrightarrow> InputNodeId obj' = -1 \<and> InputObjectNodeId obj' = -1
                 \<and> (Type obj' = EHoudiniInputObjectType_Actor \<longrightarrow> ComponentNodesReset (ActorComponents obj'))"
    using DestroyInputObjectsLoop_objects [OF loop objs_wf] .
  define I1 where "I1 = (case GetHoudiniInputObjectArray I InputType of
                           None \<Rightarrow> I | Some _ \<Rightarrow> SetHoudiniInputObjectArray InputType objs' I)"
  have I1_id: "GetInputNodeId I1 = GetInputNodeId I"
    by (simp add: I1_def SetHoudiniInputObjectArray_def split: option.splits)
  have I1_objs: "list_all (\<lambda>p. case p of None \<Rightarrow> True
                         | Some obj \<Rightarrow> bPendingKill obj
                             \<or> (InputNodeId obj = -1 \<and> InputObjectNodeId obj = -1
                                 \<and> (Type obj = EHoudiniInputObjectType_Actor
                                      \<longrightarrow> ComponentNodesReset (ActorComponents obj))))
          (ObjectsOf I1 InputType)"
    using objs'_ok
    by (auto simp: I1_def ObjectsOf_def GetHoudiniInputObjectArray_def SetHoudiniInputObjectArray_def
          list_all_iff split: option.splits)
  have first: "(case GetHoudiniInputObjectArray I InputType of
                     None \<Rightarrow> (I, GetCreatedDataNodeIds I, log)
                   | Some InputObjectNodes \<Rightarrow>
                       let (objs', ids', log') =
                             DestroyInputObjectsLoop E InputObjectNodes (GetCreatedDataNodeIds I) log
                       in (SetHoudiniInputObjectArray InputType objs' I, ids', log')) = (I1, ids1, log1)"
    using loop by (auto simp: I1_def objs_def ObjectsOf_def split: option.splits)
  define log2 where "log2 = DestroyInputAssets ids1 log1"
  have log1_ext: "\<exists>ext. log1 = log @ ext" using DestroyInputObjectsLoop_log [OF loop] .
  have deleted: "\<forall>i \<in> set (GetCreatedDataNodeIds I).
                 0 \<le> i \<and> i \<notin> set (HoudiniAssetComponentNodeIds objs) \<longrightarrow> DeleteNode i \<in> set log2"
    by (auto simp: log2_def DestroyInputAssets_eq ids1)
  have objs_upd: "ObjectsOf (I1\<lparr>GetInputNodeId := -1\<rparr>) InputType = ObjectsOf I1 InputType"
    by (simp add: ObjectsOf_def GetHoudiniInputObjectArray_def)
  have log2_ext: "\<And>ext. set log2 \<subseteq> set (log2 @ ext)" by simp
  show ?thesis
  proof (cases "0 \<le> GetInputNodeId I")
    case True
    then show ?thesis
      using valid deleted I1_id I1_objs objs_upd
      by (simp add: DestroyInputNodes_def first Let_def CallApi_def log2_def [symmetric]
            NoDanglingNodeIds_def objs_def [symmetric])
  next
    case False
    with wf have "GetInputNodeId I = -1" by (simp add: NodeIdsWellFormed_def)
    then show ?thesis
      using valid deleted I1_id I1_objs
      by (simp add: DestroyInputNodes_def first Let_def CallApi_def log2_def [symmetric]
            NoDanglingNodeIds_def objs_def [symmetric])
  qed
qed

lemma DestroyInputNodes_keeps_created_list:
  "DestroyInputNodes E log (Some I) InputType = (b, Some J, log')
     \<Longrightarrow> GetCreatedDataNodeIds J = GetCreatedDataNodeIds I"
  by (auto simp: DestroyInputNodes_def Let_def CallApi_def SetHoudiniInputObjectArray_def
        split: if_splits option.splits prod.splits)

text \<open>
  C2 (as amended). DestroyInputNodes returns false for an input that is null, pending kill
  or not allowed to delete nodes. For any other input and a type other than Asset, with
  node ids that are \<open>-1\<close> or valid, it returns true and afterwards the input's node id is
  \<open>-1\<close>, every surviving object of the array has \<open>InputNodeId = InputObjectNodeId = -1\<close>
  (and the components of an actor object have \<open>InputNodeId = -1\<close>), and a delete call was
  issued for every recorded created-data node id that is not negative and is not the node
  of a Houdini-asset-component input object.
\<close>

theorem DestroyInputNodes_no_dangling_node_ids:
  "(\<not> IsValidInput p \<or> (\<exists>I. p = Some I \<and> \<not> CanDeleteHoudiniNodes I)
      \<longrightarrow> fst (DestroyInputNodes E log p InputType) = False)
   \<and> (\<not> IsPendingKill I \<and> CanDeleteHoudiniNodes I \<and> InputType \<noteq> EHoudiniInputType_Asset
        \<and> NodeIdsWellFormed I InputType
      \<longrightarrow> (\<exists>J log'. DestroyInputNodes E log (Some I) InputType = (True, Some J, log')
             \<and> NoDanglingNodeIds J InputType
             \<and> (\<forall>i \<in> set (GetCreatedDataNodeIds I).
                   0 \<le> i \<and> i \<notin> set (HoudiniAssetComponentNodeIds (ObjectsOf I InputType))
                     \<longrightarrow> DeleteNode i \<in> set log')))"
  using DestroyInputNodes_refused [of p E log InputType]
    DestroyInputNodes_destroys [of I InputType E log]
  by blast

theorem DestroyInputNodes_no_dangling_node_ids_witness:
  "\<not> IsValidInput None
   \<and> fst (DestroyInputNodes RefusingEngine [] None EHoudiniInputType_Geometry) = False
   \<and> \<not> IsPendingKill GeometryInputWithMesh \<and> CanDeleteHoudiniNodes GeometryInputWithMesh
   \<and> NodeIdsWellFormed GeometryInputWithMesh EHoudiniInputType_Geometry
   \<and> (\<exists>J log'. DestroyInputNodes RefusingEngine [] (Some GeometryInputWithMesh) EHoudiniInputType_Geometry
                  = (True, Some J, log')
         \<and> NoDanglingNodeIds J EHoudiniInputType_Geometry \<and> DeleteNode 4 \<in> set log')"
proof -
  have pre: "\<not> IsValidInput None" "\<not> IsPendingKill GeometryInputWithMesh"
    "CanDeleteHoudiniNodes GeometryInputWithMesh"
    "NodeIdsWellFormed GeometryInputWithMesh EHoudiniInputType_Geometry"
    by (simp_all add: IsValidInput_def GeometryInputWithMesh_def NewHoudiniInput_def
          NodeIdsWellFormed_def ObjectsOf_def GetHoudiniInputObjectArray_def NewInputObject_def)
  have ids: "GetCreatedDataNodeIds GeometryInputWithMesh = [4]"
    "HoudiniAssetComponentNodeIds (ObjectsOf GeometryInputWithMesh EHoudiniInputType_Geometry) = []"
    by (simp_all add: GeometryInputWithMesh_def NewHoudiniInput_def HoudiniAssetComponentNodeIds_def
          ObjectsOf_def GetHoudiniInputObjectArray_def NewInputObject_def)
  show ?thesis
    using pre ids
      DestroyInputNodes_no_dangling_node_ids
        [of None RefusingEngine "[]" EHoudiniInputType_Geometry GeometryInputWithMesh]
    by auto
qed

text \<open>
  The claim as first stated asks for every recorded created-data node id to be deleted:
  the asset node \<open>7\<close> of a Houdini asset actor in a world input is recorded and is kept.
\<close>

theorem DestroyInputNodes_counterexample:
  "fst (DestroyInputNodes RefusingEngine [] (Some WorldInputWithAssetActor) EHoudiniInputType_World)
   \<and> 7 \<in> set (GetCreatedDataNodeIds WorldInputWithAssetActor)
   \<and> DeleteNode 7 \<notin> set (snd (snd (DestroyInputNodes RefusingEngine [] (Some WorldInputWithAssetActor)
                                        EHoudiniInputType_World)))"
  by (simp add: DestroyInputNodes_def WorldInputWithAssetActor_def NewHoudiniInput_def
     NewInputObject_def RefusingEngine_def GetHoudiniInputObjectArray_def
     SetHoudiniInputObjectArray_def DestroyInputObjectNodes_def CallApi_def MarkChanged_def Let_def)

section \<open>Asset inputs are disconnected, never destroyed\<close>

lemma DisconnectAndDestroyInput_Asset_log:
  "filter IsDeleteNode (snd (snd (DisconnectAndDestroyInput E log p EHoudiniInputType_Asset)))
     = filter IsDeleteNode log"
  by (auto simp: DisconnectAndDestroyInput_def DisconnectInput_def DestroyInputNodes_def Let_def
        IsDeleteNode_def split: option.splits)

text \<open>
  C9 (as amended). For the input type Asset, DestroyInputNodes changes nothing and issues
  no call: it returns true for an input that is valid and allowed to delete nodes, false
  otherwise. DisconnectInput on a live input only nulls the object-path parameter or
  disconnects the node input (when both node ids are valid), tells the outer component to
  clear its downstream asset, and resets the input's node id to \<open>-1\<close>. No call of
  DisconnectAndDestroyInput deletes a node.
\<close>

theorem Asset_input_disconnected_not_destroyed:
  "DestroyInputNodes E log p EHoudiniInputType_Asset
     = (IsValidInput p \<and> (\<exists>I. p = Some I \<and> CanDeleteHoudiniNodes I), p, log)
   \<and> (\<not> IsPendingKill I \<longrightarrow>
        DisconnectInput log (Some I) EHoudiniInputType_Asset
          = (True, Some (I\<lparr>GetInputNodeId := -1\<rparr>),
             log @ (if IsObjectPathParameter I
                    then [SetParmStringValue (GetAssetNodeId I) [] (GetParameterId I) 0]
                    else if 0 \<le> GetAssetNodeId I \<and> 0 \<le> GetInputNodeId I
                    then [DisconnectNodeInput (GetAssetNodeId I) (GetInputIndex I)]
                    else [])
                 @ (if OuterIsHAC I then [ClearDownstreamHoudiniAsset] else [])))
   \<and> filter IsDeleteNode (snd (snd (DisconnectAndDestroyInput E log p EHoudiniInputType_Asset)))
       = filter IsDeleteNode log"
  using DisconnectAndDestroyInput_Asset_log [of E log p]
  by (auto simp: DestroyInputNodes_def DisconnectInput_def IsValidInput_def Let_def
        split: option.splits)

theorem Asset_input_disconnected_not_destroyed_witness:
  "\<not> IsPendingKill ConnectedAssetInput
   \<and> DestroyInputNodes RefusingEngine [] (Some ConnectedAssetInput) EHoudiniInputType_Asset
       = (True, Some ConnectedAssetInput, [])
   \<and> DisconnectInput [] (Some ConnectedAssetInput) EHoudiniInputType_Asset
       = (True, Some (ConnectedAssetInput\<lparr>GetInputNodeId := -1\<rparr>),
          [DisconnectNodeInput 2 1, ClearDownstreamHoudiniAsset])
   \<and> filter IsDeleteNode
        (snd (snd (DisconnectAndDestroyInput RefusingEngine [] (Some ConnectedAssetInput)
                     EHoudiniInputType_Asset))) = []"
  using Asset_input_disconnected_not_destroyed
          [of RefusingEngine "[]" "Some ConnectedAssetInput" ConnectedAssetInput]
  by (simp add: ConnectedAssetInput_def NewHoudiniInput_def IsValidInput_def)

text \<open>
  The claim as first stated has DestroyInputNodes return true for every asset input: it
  returns false for an asset input that may not delete Houdini nodes.
\<close>

theorem Asset_input_counterexample:
  "\<not> fst (DestroyInputNodes RefusingEngine [] (Some AssetInputKeepingNodes) EHoudiniInputType_Asset)"
  by (simp add: DestroyInputNodes_def AssetInputKeepingNodes_def ConnectedAssetInput_def
        NewHoudiniInput_def)

section \<open>The switch of UploadHoudiniInputObject\<close>

lemma UploadSwitch_leaf:
  "DedicatedTranslator (Type c) = Some kind \<Longrightarrow>
   UploadSwitch E InInput c ids log =
     (TranslatorReturn (Translator E log kind InInput c),
      ObjectAfter (Translator E log kind InInput c),
      (if TranslatorReturn (Translator E log kind InInput c)
       then ids @ NodeIdsCreated (Type c) (ObjectAfter (Translator E log kind InInput c))
       else ids),
      InInput\<lparr>GetInputNodeId := InputNodeIdAfter (Translator E log kind InInput c),
              HasChanged := (HasChanged InInput \<or> bInputMarkedChanged (Translator E log kind InInput c))\<rparr>,
      log @ [CreateInputNode kind c])"
  by (cases "Type c")
     (auto simp: UploadSwitch_def CreateNodeAndAdd_def CallTranslator_def Let_def NodeIdsCreated_def)

lemma DedicatedTranslator_not_Actor:
  "DedicatedTranslator t = Some kind \<Longrightarrow> t \<noteq> EHoudiniInputObjectType_Actor"
  by (cases t) simp_all

lemma AsComponent_fields [simp]:
  "Type (AsComponent obj) = Type obj"
  "bPendingKill (AsComponent obj) = bPendingKill obj"
  "InputNodeId (AsComponent obj) = InputNodeId obj"
  "InputObjectNodeId (AsComponent obj) = InputObjectNodeId obj"
  "bHasChanged (AsComponent obj) = bHasChanged obj"
  "bTransformChanged (AsComponent obj) = bTransformChanged obj"
  "bNeedsToTriggerUpdate (AsComponent obj) = bNeedsToTriggerUpdate obj"
  "Transform (AsComponent obj) = Transform obj"
  "EngineObject (AsComponent obj) = EngineObject obj"
  by (simp_all add: AsComponent_def)

lemma WithComponents_fields [simp]:
  "Type (WithComponents c cs) = Type c"
  "bPendingKill (WithComponents c cs) = bPendingKill c"
  "InputNodeId (WithComponents c cs) = InputNodeId c"
  "InputObjectNodeId (WithComponents c cs) = InputObjectNodeId c"
  "bHasChanged (WithComponents c cs) = bHasChanged c"
  "bTransformChanged (WithComponents c cs) = bTransformChanged c"
  "bNeedsToTriggerUpdate (WithComponents c cs) = bNeedsToTriggerUpdate c"
  "Transform (WithComponents c cs) = Transform c"
  "EngineObject (WithComponents c cs) = EngineObject c"
  "ActorComponents (WithComponents c cs) = cs"
  by (simp_all add: WithComponents_def)

lemma MarkUploaded_fields [simp]:
  "bHasChanged (MarkUploaded b obj) = (if b then False else bHasChanged obj)"
  "bNeedsToTriggerUpdate (MarkUploaded b obj) = False"
  "Type (MarkUploaded b obj) = Type obj"
  "bPendingKill (MarkUploaded b obj) = bPendingKill obj"
  "InputNodeId (MarkUploaded b obj) = InputNodeId obj"
  "InputObjectNodeId (MarkUploaded b obj) = InputObjectNodeId obj"
  "bTransformChanged (MarkUploaded b obj) = bTransformChanged obj"
  by (simp_all add: MarkUploaded_def MarkChanged_def SetNeedsToTriggerUpdate_def)

lemma UploadHoudiniInputComponent_ids:
  "UploadHoudiniInputComponent E InInput c ids log = (b, c', ids', InInput', log')
     \<Longrightarrow> \<exists>ext. ids' = ids @ ext"
  by (cases c; cases "Type (the c)")
     (auto simp: UploadHoudiniInputComponent_def UploadSwitch_def CreateNodeAndAdd_def
        CallTranslator_def Let_def
        split: if_splits prod.splits)

lemma CommitActorComponents_ids:
  "CommitActorComponents E InInput cs ids log = (cs', ids', InInput', log')
     \<Longrightarrow> \<exists>ext. ids' = ids @ ext"
proof (induction cs arbitrary: InInput ids log cs' ids' InInput' log')
  case Nil
  then show ?case by simp
next
  case (Cons c cs)
  obtain b c1 ids1 I1 log1 where step:
    "UploadHoudiniInputComponent E InInput c ids log = (b, c1, ids1, I1, log1)"
    by (cases "UploadHoudiniInputComponent E InInput c ids log") auto
  obtain cs2 ids2 I2 log2 where rest:
    "CommitActorComponents E I1 cs ids1 log1 = (cs2, ids2, I2, log2)"
    by (cases "CommitActorComponents E I1 cs ids1 log1") auto
  from Cons.prems step rest have "ids' = ids2" by simp
  with UploadHoudiniInputComponent_ids [OF step] Cons.IH [OF rest] show ?case by auto
qed

lemma HapiCreateInputNodeForActor_result:
  "HapiCreateInputNodeForActor E InInput obj ids log = (b, obj', ids', InInput', log')
     \<Longrightarrow> (\<exists>ext. ids' = ids @ ext) \<and> (\<not> b \<longrightarrow> ids' = ids \<and> obj' = obj \<and> log' = log)"
  by (auto simp: HapiCreateInputNodeForActor_def Let_def split: if_splits prod.splits
        dest: CommitActorComponents_ids)

text \<open>
  C4. For a non-null input and input object, UploadHoudiniInputObject calls the translator
  dedicated to the type of the object (for an object of an input's array and for a
  component of an actor alike), returns what the translator returns, appends the created
  node ids to the caller's list exactly when the translator succeeded (the object's
  \<^verbatim>\<open>InputObjectNodeId\<close>, or the node ids of the blueprint's static meshes), and clears the
  changed flag if and only if the translator succeeded; the needs-to-trigger-update flag
  is cleared in both cases. An actor goes to HapiCreateInputNodeForActor, which appends
  the node ids of its components itself and appends nothing when it fails.
\<close>

theorem UploadHoudiniInputObject_dispatch:
  "(DedicatedTranslator (Type obj) = Some kind \<longrightarrow>
      (\<exists>obj'. UploadHoudiniInputObject E InInput (Some obj) ids log
                = (TranslatorReturn (Translator E log kind InInput (AsComponent obj)),
                   Some obj',
                   (if TranslatorReturn (Translator E log kind InInput (AsComponent obj))
                    then ids @ NodeIdsCreated (Type obj)
                                 (ObjectAfter (Translator E log kind InInput (AsComponent obj)))
                    else ids),
                   InInput\<lparr>GetInputNodeId :=
                              InputNodeIdAfter (Translator E log kind InInput (AsComponent obj)),
                           HasChanged :=
                              (HasChanged InInput
                               \<or> bInputMarkedChanged (Translator E log kind InInput (AsComponent obj)))\<rparr>,
                   log @ [CreateInputNode kind (AsComponent obj)])
            \<and> bHasChanged obj'
                = (if TranslatorReturn (Translator E log kind InInput (AsComponent obj)) then False
                   else bHasChanged (ObjectAfter (Translator E log kind InInput (AsComponent obj))))
            \<and> \<not> bNeedsToTriggerUpdate obj'))
   \<and> (Type actor = EHoudiniInputObjectType_Actor \<longrightarrow>
        (\<exists>b actor' ext InInput' log'.
            HapiCreateInputNodeForActor E InInput actor ids log = (b, actor', ids @ ext, InInput', log')
          \<and> UploadHoudiniInputObject E InInput (Some actor) ids log
              = (b, Some (MarkUploaded b actor'), ids @ ext, InInput', log')
          \<and> (\<not> b \<longrightarrow> ext = [])
          \<and> bHasChanged (MarkUploaded b actor') = (if b then False else bHasChanged actor)
          \<and> \<not> bNeedsToTriggerUpdate (MarkUploaded b actor')))
   \<and> (DedicatedTranslator (Type c) = Some ckind \<longrightarrow>
      (\<exists>c'. UploadHoudiniInputComponent E InInput (Some c) ids log
                = (TranslatorReturn (Translator E log ckind InInput c),
                   Some c',
                   (if TranslatorReturn (Translator E log ckind InInput c)
                    then ids @ NodeIdsCreated (Type c) (ObjectAfter (Translator E log ckind InInput c))
                    else ids),
                   InInput\<lparr>GetInputNodeId := InputNodeIdAfter (Translator E log ckind InInput c),
                           HasChanged :=
                              (HasChanged InInput
                               \<or> bInputMarkedChanged (Translator E log ckind InInput c))\<rparr>,
                   log @ [CreateInputNode ckind c])
            \<and> bHasChanged c'
                = (if TranslatorReturn (Translator E log ckind InInput c) then False
                   else bHasChanged (ObjectAfter (Translator E log ckind InInput c)))
            \<and> \<not> bNeedsToTriggerUpdate c'))"
proof (intro conjI impI)
  assume k: "DedicatedTranslator (Type obj) = Some kind"
  then have k': "DedicatedTranslator (Type (AsComponent obj)) = Some kind" by simp
  from k have na: "Type obj \<noteq> EHoudiniInputObjectType_Actor"
    by (rule DedicatedTranslator_not_Actor)
  show "\<exists>obj'. UploadHoudiniInputObject E InInput (Some obj) ids log
                = (TranslatorReturn (Translator E log kind InInput (AsComponent obj)),
                   Some obj',
                   (if TranslatorReturn (Translator E log kind InInput (AsComponent obj))
                    then ids @ NodeIdsCreated (Type obj)
                                 (ObjectAfter (Translator E log kind InInput (AsComponent obj)))
                    else ids),
                   InInput\<lparr>GetInputNodeId :=
                              InputNodeIdAfter (Translator E log kind InInput (AsComponent obj)),
                           HasChanged :=
                              (HasChanged InInput
                               \<or> bInputMarkedChanged (Translator E log kind InInput (AsComponent obj)))\<rparr>,
                   log @ [CreateInputNode kind (AsComponent obj)])
            \<and> bHasChanged obj'
                = (if TranslatorReturn (Translator E log kind InInput (AsComponent obj)) then False
                   else bHasChanged (ObjectAfter (Translator E log kind InInput (AsComponent obj))))
            \<and> \<not> bNeedsToTriggerUpdate obj'"
    using na by (simp add: UploadHoudiniInputObject_def UploadSwitch_leaf [OF k'])
next
  assume a: "Type actor = EHoudiniInputObjectType_Actor"
  obtain b actor' ids' I' log' where r:
    "HapiCreateInputNodeForActor E InInput actor ids log = (b, actor', ids', I', log')"
    by (cases "HapiCreateInputNodeForActor E InInput actor ids log") auto
  from HapiCreateInputNodeForActor_result [OF r]
  obtain ext where ext: "ids' = ids @ ext" and fail: "\<not> b \<longrightarrow> ids' = ids \<and> actor' = actor"
    by auto
  show "\<exists>b actor' ext InInput' log'.
            HapiCreateInputNodeForActor E InInput actor ids log = (b, actor', ids @ ext, InInput', log')
          \<and> UploadHoudiniInputObject E InInput (Some actor) ids log
              = (b, Some (MarkUploaded b actor'), ids @ ext, InInput', log')
          \<and> (\<not> b \<longrightarrow> ext = [])
          \<and> bHasChanged (MarkUploaded b actor') = (if b then False else bHasChanged actor)
          \<and> \<not> bNeedsToTriggerUpdate (MarkUploaded b actor')"
    using a r ext fail
    by (intro exI [of _ b] exI [of _ actor'] exI [of _ ext] exI [of _ I'] exI [of _ log'])
       (auto simp: UploadHoudiniInputObject_def)
next
  assume k: "DedicatedTranslator (Type c) = Some ckind"
  from k have na: "Type c \<noteq> EHoudiniInputObjectType_Actor"
    by (rule DedicatedTranslator_not_Actor)
  show "\<exists>c'. UploadHoudiniInputComponent E InInput (Some c) ids log
                = (TranslatorReturn (Translator E log ckind InInput c),
                   Some c',
                   (if TranslatorReturn (Translator E log ckind InInput c)
                    then ids @ NodeIdsCreated (Type c) (ObjectAfter (Translator E log ckind InInput c))
                    else ids),
                   InInput\<lparr>GetInputNodeId := InputNodeIdAfter (Translator E log ckind InInput c),
                           HasChanged :=
                              (HasChanged InInput
                               \<or> bInputMarkedChanged (Translator E log ckind InInput c))\<rparr>,
                   log @ [CreateInputNode ckind c])
            \<and> bHasChanged c'
                = (if TranslatorReturn (Translator E log ckind InInput c) then False
                   else bHasChanged (ObjectAfter (Translator E log ckind InInput c)))
            \<and> \<not> bNeedsToTriggerUpdate c'"
    using na by (simp add: UploadHoudiniInputComponent_def UploadSwitch_leaf [OF k])
qed

lemmas fixture_defs =
  NewHoudiniInput_def NewInputObject_def RefusingEngine_def AcceptingEngine_def
  GeometryInputWithMesh_def ChangedStaticMesh_def ChangedMeshComponent_def
  ActorWithChangedComponent_def AsComponent_def WithComponents_def

theorem UploadHoudiniInputObject_dispatch_witness:
  "DedicatedTranslator (Type ChangedStaticMesh) = Some HapiCreateInputNodeForStaticMesh
   \<and> Type ActorWithChangedComponent = EHoudiniInputObjectType_Actor
   \<and> DedicatedTranslator (Type ChangedMeshComponent) = Some HapiCreateInputNodeForStaticMeshComponent
   \<and> fst (UploadHoudiniInputObject AcceptingEngine GeometryInputWithMesh (Some ChangedStaticMesh) [4] [])
   \<and> fst (snd (snd (UploadHoudiniInputObject AcceptingEngine GeometryInputWithMesh
                       (Some ChangedStaticMesh) [4] []))) = [4, 101]
   \<and> snd (snd (snd (snd (UploadHoudiniInputObject AcceptingEngine GeometryInputWithMesh
                            (Some ChangedStaticMesh) [4] []))))
        = [CreateInputNode HapiCreateInputNodeForStaticMesh (AsComponent ChangedStaticMesh)]
   \<and> fst (snd (snd (UploadHoudiniInputObject AcceptingEngine GeometryInputWithMesh
                       (Some ActorWithChangedComponent) [4] []))) = [4, 101]
   \<and> fst (snd (snd (UploadHoudiniInputComponent AcceptingEngine GeometryInputWithMesh
                       (Some ChangedMeshComponent) [4] []))) = [4, 101]"
  using UploadHoudiniInputObject_dispatch
          [where obj = ChangedStaticMesh and kind = HapiCreateInputNodeForStaticMesh
             and E = AcceptingEngine and InInput = GeometryInputWithMesh and ids = "[4]"
             and log = "[]" and c = ChangedMeshComponent and actor = ActorWithChangedComponent
             and ckind = HapiCreateInputNodeForStaticMeshComponent]
  by (simp add: fixture_defs UploadHoudiniInputObject_def UploadSwitch_def CreateNodeAndAdd_def
        CallTranslator_def MarkUploaded_def MarkChanged_def SetNeedsToTriggerUpdate_def Let_def
        HapiCreateInputNodeForActor_def BuildProxyMeshesOfAssetActor_def UpdateInputActor_def
        UploadHoudiniInputComponent_def NodeIdsCreated_def)

section \<open>Incremental upload in UploadInputData\<close>

text \<open>Every upload function only appends to the created node ids, and nothing else of
  its result depends on them.\<close>

lemma UploadSwitch_appends:
  "UploadSwitch E InInput c ids log =
     (case UploadSwitch E InInput c [] log of
        (b, c', ext, I', log') \<Rightarrow> (b, c', ids @ ext, I', log'))"
  by (cases "Type c")
     (simp_all add: UploadSwitch_def CreateNodeAndAdd_def CallTranslator_def Let_def)

lemma UploadHoudiniInputComponent_appends:
  "UploadHoudiniInputComponent E InInput c ids log =
     (case UploadHoudiniInputComponent E InInput c [] log of
        (b, c', ext, I', log') \<Rightarrow> (b, c', ids @ ext, I', log'))"
proof (cases c)
  case None
  then show ?thesis by (simp add: UploadHoudiniInputComponent_def)
next
  case (Some obj)
  show ?thesis
    unfolding Some UploadHoudiniInputComponent_def option.case
    by (subst UploadSwitch_appends) (simp add: Let_def split: prod.splits)
qed

lemma CommitActorComponents_appends:
  "CommitActorComponents E InInput cs ids log =
     (case CommitActorComponents E InInput cs [] log of
        (cs', ext, I', log') \<Rightarrow> (cs', ids @ ext, I', log'))"
proof (induction cs arbitrary: InInput ids log)
  case Nil
  show ?case by simp
next
  case (Cons c cs)
  obtain b c1 ext1 I1 log1 where step0:
    "UploadHoudiniInputComponent E InInput c [] log = (b, c1, ext1, I1, log1)"
    by (cases "UploadHoudiniInputComponent E InInput c [] log") auto
  then have step: "UploadHoudiniInputComponent E InInput c ids log = (b, c1, ids @ ext1, I1, log1)"
    by (subst UploadHoudiniInputComponent_appends) simp
  obtain cs2 ext2 I2 log2 where rest0:
    "CommitActorComponents E I1 cs [] log1 = (cs2, ext2, I2, log2)"
    by (cases "CommitActorComponents E I1 cs [] log1") auto
  have rest: "\<And>ids. CommitActorComponents E I1 cs ids log1 = (cs2, ids @ ext2, I2, log2)"
    using rest0 by (subst Cons.IH) simp
  show ?case
    by (simp add: step step0 rest)
qed

lemma HapiCreateInputNodeForActor_appends:
  "HapiCreateInputNodeForActor E InInput obj ids log =
     (case HapiCreateInputNodeForActor E InInput obj [] log of
        (b, obj', ext, I', log') \<Rightarrow> (b, obj', ids @ ext, I', log'))"
  unfolding HapiCreateInputNodeForActor_def
  by (subst CommitActorComponents_appends) (simp add: Let_def split: prod.splits)

lemma UploadHoudiniInputObject_appends:
  "UploadHoudiniInputObject E InInput p ids log =
     (case UploadHoudiniInputObject E InInput p [] log of
        (b, p', ext, I', log') \<Rightarrow> (b, p', ids @ ext, I', log'))"
proof (cases p)
  case None
  then show ?thesis by (simp add: UploadHoudiniInputObject_def)
next
  case (Some obj)
  show ?thesis
    unfolding Some UploadHoudiniInputObject_def option.case
    by (subst UploadSwitch_appends, subst HapiCreateInputNodeForActor_appends)
       (simp add: Let_def split: prod.splits)
qed

lemma UploadChangedActorComponents_appends:
  "UploadChangedActorComponents E InInput cs b ids log =
     (case UploadChangedActorComponents E InInput cs b [] log of
        (cs', b', ext, I', log') \<Rightarrow> (cs', b', ids @ ext, I', log'))"
proof (induction cs arbitrary: InInput b ids log)
  case Nil
  show ?case by simp
next
  case (Cons c cs)
  define step where "step = (\<lambda>ids.
     (case c of
               None \<Rightarrow> (None, b, ids, InInput, log)
             | Some CurrentComp \<Rightarrow>
                 if bPendingKill CurrentComp then (c, b, ids, InInput, log)
                 else if KeepsNode CurrentComp
                 then (c, b, ids @ [InputObjectNodeId CurrentComp], InInput, log)
                 else
                   let (ok, c1, ids', InInput', log') =
                         UploadHoudiniInputComponent E InInput c ids log
                   in (c1, b \<and> ok, ids', InInput', log')))"
  obtain c1 b1 ext1 I1 log1 where step0: "step [] = (c1, b1, ext1, I1, log1)"
    by (cases "step []") auto
  have step: "step ids = (c1, b1, ids @ ext1, I1, log1)" for ids
    using step0 unfolding step_def
    by (subst UploadHoudiniInputComponent_appends, subst (asm) UploadHoudiniInputComponent_appends)
       (auto simp: Let_def split: option.splits if_splits prod.splits)
  obtain cs2 b2 ext2 I2 log2 where rest0:
    "UploadChangedActorComponents E I1 cs b1 [] log1 = (cs2, b2, ext2, I2, log2)"
    by (cases "UploadChangedActorComponents E I1 cs b1 [] log1") auto
  have rest: "\<And>ids. UploadChangedActorComponents E I1 cs b1 ids log1 = (cs2, b2, ids @ ext2, I2, log2)"
    using rest0 by (subst Cons.IH) simp
  have unfold: "UploadChangedActorComponents E InInput (c # cs) b ids log =
     (let (c', bSuccess1, ids1, InInput1, log1) = step ids;
          (cs', bSuccess2, ids2, InInput2, log2) =
            UploadChangedActorComponents E InInput1 cs bSuccess1 ids1 log1
      in (c' # cs', bSuccess2, ids2, InInput2, log2))" for ids
    by (simp add: step_def)
  show ?case
    unfolding unfold by (simp add: step rest)
qed

lemma UploadInputObject_appends:
  "UploadInputObject E InInput p b ids log =
     (case UploadInputObject E InInput p b [] log of
        (p', b', ext, I', log') \<Rightarrow> (p', b', ids @ ext, I', log'))"
  unfolding UploadInputObject_def
  by (subst UploadHoudiniInputObject_appends, subst UploadChangedActorComponents_appends)
     (simp add: Let_def split: option.splits prod.splits)

lemma UploadInputObjectsLoop_appends:
  "UploadInputObjectsLoop E InInput ps b ids log =
     (case UploadInputObjectsLoop E InInput ps b [] log of
        (ps', b', ext, I', log') \<Rightarrow> (ps', b', ids @ ext, I', log'))"
proof (induction ps arbitrary: InInput b ids log)
  case Nil
  show ?case by simp
next
  case (Cons p ps)
  obtain p1 b1 ext1 I1 log1 where step0:
    "UploadInputObject E InInput p b [] log = (p1, b1, ext1, I1, log1)"
    by (cases "UploadInputObject E InInput p b [] log") auto
  then have step: "UploadInputObject E InInput p b ids log = (p1, b1, ids @ ext1, I1, log1)" for ids
    by (subst UploadInputObject_appends) simp
  obtain ps2 b2 ext2 I2 log2 where rest0:
    "UploadInputObjectsLoop E I1 ps b1 [] log1 = (ps2, b2, ext2, I2, log2)"
    by (cases "UploadInputObjectsLoop E I1 ps b1 [] log1") auto
  have rest: "\<And>ids. UploadInputObjectsLoop E I1 ps b1 ids log1 = (ps2, b2, ids @ ext2, I2, log2)"
    using rest0 by (subst Cons.IH) simp
  show ?case by (simp add: step rest)
qed

lemma UploadInputObjectsLoop_ids_irrelevant:
  "UploadOutcome (UploadInputObjectsLoop E InInput ps b ids log)
     = UploadOutcome (UploadInputObjectsLoop E InInput ps b ids' log)"
  by (subst UploadInputObjectsLoop_appends, subst (2) UploadInputObjectsLoop_appends)
     (simp add: UploadOutcome_def split: prod.splits)

lemma UploadChangedActorComponents_ids_irrelevant:
  "UploadOutcome (UploadChangedActorComponents E InInput cs b ids log)
     = UploadOutcome (UploadChangedActorComponents E InInput cs b ids' log)"
  by (subst UploadChangedActorComponents_appends, subst (2) UploadChangedActorComponents_appends)
     (simp add: UploadOutcome_def split: prod.splits)

lemma UploadOutcome_rebuild:
  "UploadOutcome (case r of (xs, b, ids, I, log) \<Rightarrow> (f xs, b, ids, I, log)) = UploadOutcome r"
  "UploadOutcome (case r of (xs, rest) \<Rightarrow> (f xs, rest)) = UploadOutcome r"
  by (simp_all add: UploadOutcome_def split: prod.splits)

lemma UploadHoudiniInputComponent_other_ids:
  assumes "UploadHoudiniInputComponent E InInput c ids log = (ok, c1, ids1, I1, log1)"
  shows "\<exists>ids1'. UploadHoudiniInputComponent E InInput c ids' log = (ok, c1, ids1', I1, log1)"
proof -
  obtain b0 c0 ext I0 log0 where z:
    "UploadHoudiniInputComponent E InInput c [] log = (b0, c0, ext, I0, log0)"
    by (cases "UploadHoudiniInputComponent E InInput c [] log") auto
  have "UploadHoudiniInputComponent E InInput c ids log = (b0, c0, ids @ ext, I0, log0)"
    by (subst UploadHoudiniInputComponent_appends) (simp add: z)
  with assms have "b0 = ok" "c0 = c1" "I0 = I1" "log0 = log1" by simp_all
  moreover have "UploadHoudiniInputComponent E InInput c ids' log = (b0, c0, ids' @ ext, I0, log0)"
    by (subst UploadHoudiniInputComponent_appends) (simp add: z)
  ultimately show ?thesis by simp
qed

lemma UploadInputObject_other_ids:
  assumes "UploadInputObject E InInput p b ids log = (p1, b1, ids1, I1, log1)"
  shows "\<exists>ids1'. UploadInputObject E InInput p b ids' log = (p1, b1, ids1', I1, log1)"
proof -
  obtain p0 b0 ext I0 log0 where z:
    "UploadInputObject E InInput p b [] log = (p0, b0, ext, I0, log0)"
    by (cases "UploadInputObject E InInput p b [] log") auto
  have "UploadInputObject E InInput p b ids log = (p0, b0, ids @ ext, I0, log0)"
    by (subst UploadInputObject_appends) (simp add: z)
  with assms have "p0 = p1" "b0 = b1" "I0 = I1" "log0 = log1" by simp_all
  moreover have "UploadInputObject E InInput p b ids' log = (p0, b0, ids' @ ext, I0, log0)"
    by (subst UploadInputObject_appends) (simp add: z)
  ultimately show ?thesis by simp
qed

lemma UploadInputObject_kept:
  "\<not> NeedsUpload p \<Longrightarrow>
   UploadInputObject E InInput p b ids log =
     (p, b, (case p of None \<Rightarrow> ids
             | Some obj \<Rightarrow> if bPendingKill obj then ids else ids @ [InputObjectNodeId obj]),
      InInput, log)"
  by (auto simp: NeedsUpload_def UploadInputObject_def split: option.splits)

lemma UploadInputObjectsLoop_filter:
  "UploadOutcome (UploadInputObjectsLoop E InInput ps b ids log)
     = UploadOutcome (UploadInputObjectsLoop E InInput (filter NeedsUpload ps) b ids' log)"
proof (induction ps arbitrary: InInput b ids ids' log)
  case Nil
  show ?case by (simp add: UploadOutcome_def)
next
  case (Cons p ps)
  show ?case
  proof (cases "NeedsUpload p")
    case False
    define idsK where "idsK = (case p of None \<Rightarrow> ids
             | Some obj \<Rightarrow> if bPendingKill obj then ids else ids @ [InputObjectNodeId obj])"
    have "UploadOutcome (UploadInputObjectsLoop E InInput (p # ps) b ids log)
            = UploadOutcome (UploadInputObjectsLoop E InInput ps b idsK log)"
      by (simp add: UploadInputObject_kept [OF False] idsK_def [symmetric] UploadOutcome_rebuild)
    also have "\<dots> = UploadOutcome (UploadInputObjectsLoop E InInput ps b ids log)"
      by (rule UploadInputObjectsLoop_ids_irrelevant)
    finally show ?thesis using False Cons.IH [of InInput b ids log ids'] by simp
  next
    case True
    obtain p1 b1 ids1 I1 log1 where step:
      "UploadInputObject E InInput p b ids log = (p1, b1, ids1, I1, log1)"
      by (cases "UploadInputObject E InInput p b ids log") auto
    obtain ids1' where step': 
      "UploadInputObject E InInput p b ids' log = (p1, b1, ids1', I1, log1)"
      using UploadInputObject_other_ids [OF step] by blast
    have "UploadOutcome (UploadInputObjectsLoop E InInput (p # ps) b ids log)
            = UploadOutcome (UploadInputObjectsLoop E I1 ps b1 ids1 log1)"
      by (simp add: step UploadOutcome_rebuild)
    moreover have "UploadOutcome (UploadInputObjectsLoop E InInput (filter NeedsUpload (p # ps)) b ids' log)
            = UploadOutcome (UploadInputObjectsLoop E I1 (filter NeedsUpload ps) b1 ids1' log1)"
      using True by (simp add: step' UploadOutcome_rebuild)
    ultimately show ?thesis using Cons.IH [of I1 b1 ids1 log1 ids1'] by simp
  qed
qed

lemma UploadChangedActorComponents_Cons_kept:
  "\<not> ComponentNeedsUpload c \<Longrightarrow>
   UploadChangedActorComponents E InInput (c # cs) b ids log =
     (case UploadChangedActorComponents E InInput cs b
             (case c of None \<Rightarrow> ids
              | Some cmpt \<Rightarrow> if bPendingKill cmpt then ids else ids @ [InputObjectNodeId cmpt]) log of
        (cs', b', ids', I', log') \<Rightarrow> (c # cs', b', ids', I', log'))"
  by (auto simp: ComponentNeedsUpload_def split: option.splits)

lemma UploadChangedActorComponents_Cons_upload:
  "ComponentNeedsUpload c \<Longrightarrow>
   UploadHoudiniInputComponent E InInput c ids log = (ok, c1, ids1, I1, log1) \<Longrightarrow>
   UploadChangedActorComponents E InInput (c # cs) b ids log =
     (case UploadChangedActorComponents E I1 cs (b \<and> ok) ids1 log1 of
        (cs', b', ids', I', log') \<Rightarrow> (c1 # cs', b', ids', I', log'))"
  by (auto simp: ComponentNeedsUpload_def split: option.splits)

lemma UploadChangedActorComponents_filter:
  "UploadOutcome (UploadChangedActorComponents E InInput cs b ids log)
     = UploadOutcome (UploadChangedActorComponents E InInput (filter ComponentNeedsUpload cs) b ids' log)"
proof (induction cs arbitrary: InInput b ids ids' log)
  case Nil
  show ?case by (simp add: UploadOutcome_def)
next
  case (Cons c cs)
  show ?case
  proof (cases "ComponentNeedsUpload c")
    case False
    have "UploadOutcome (UploadChangedActorComponents E InInput (c # cs) b ids log)
            = UploadOutcome (UploadChangedActorComponents E InInput cs b
             (case c of None \<Rightarrow> ids
              | Some cmpt \<Rightarrow> if bPendingKill cmpt then ids else ids @ [InputObjectNodeId cmpt]) log)"
      unfolding UploadChangedActorComponents_Cons_kept [OF False] by (rule UploadOutcome_rebuild)
    also have "\<dots> = UploadOutcome (UploadChangedActorComponents E InInput cs b ids log)"
      by (rule UploadChangedActorComponents_ids_irrelevant)
    finally show ?thesis using False Cons.IH [of InInput b ids log ids'] by simp
  next
    case True
    obtain ok c1 ids1 I1 log1 where step:
      "UploadHoudiniInputComponent E InInput c ids log = (ok, c1, ids1, I1, log1)"
      by (cases "UploadHoudiniInputComponent E InInput c ids log") auto
    obtain ids1' where step': 
      "UploadHoudiniInputComponent E InInput c ids' log = (ok, c1, ids1', I1, log1)"
      using UploadHoudiniInputComponent_other_ids [OF step] by blast
    have "UploadOutcome (UploadChangedActorComponents E InInput (c # cs) b ids log)
            = UploadOutcome (UploadChangedActorComponents E I1 cs (b \<and> ok) ids1 log1)"
      unfolding UploadChangedActorComponents_Cons_upload [OF True step]
      by (rule UploadOutcome_rebuild)
    moreover have "UploadOutcome (UploadChangedActorComponents E InInput
                                    (filter ComponentNeedsUpload (c # cs)) b ids' log)
            = UploadOutcome (UploadChangedActorComponents E I1 (filter ComponentNeedsUpload cs)
                               (b \<and> ok) ids1' log1)"
      using True UploadChangedActorComponents_Cons_upload [OF True step']
      by (simp add: UploadOutcome_rebuild del: UploadChangedActorComponents.simps)
    ultimately show ?thesis using Cons.IH [of I1 "b \<and> ok" ids1 log1 ids1'] by simp
  qed
qed

lemma UploadInputObjectsLoop_grows:
  "UploadInputObjectsLoop E InInput ps b ids log = (ps', b', ids', I', log') \<Longrightarrow> set ids \<subseteq> set ids'"
  by (subst (asm) UploadInputObjectsLoop_appends) (auto split: prod.splits)

lemma UploadChangedActorComponents_grows:
  "UploadChangedActorComponents E InInput cs b ids log = (cs', b', ids', I', log')
     \<Longrightarrow> set ids \<subseteq> set ids'"
  by (subst (asm) UploadChangedActorComponents_appends) (auto split: prod.splits)

lemma UploadChangedActorComponents_kept_nth:
  "UploadChangedActorComponents E InInput cs b ids log = (cs', b', ids', I', log')
   \<Longrightarrow> j < length cs \<Longrightarrow> \<not> ComponentNeedsUpload (cs ! j)
   \<Longrightarrow> cs' ! j = cs ! j
       \<and> (\<forall>c. cs ! j = Some c \<longrightarrow> \<not> bPendingKill c \<longrightarrow> InputObjectNodeId c \<in> set ids')"
proof (induction cs arbitrary: InInput b ids log cs' b' ids' I' log' j)
  case Nil
  then show ?case by simp
next
  case (Cons c cs)
  show ?case
  proof (cases j)
    case 0
    with Cons.prems(3) have kept: "\<not> ComponentNeedsUpload c" by simp
    define idsK where "idsK = (case c of None \<Rightarrow> ids
              | Some cmpt \<Rightarrow> if bPendingKill cmpt then ids else ids @ [InputObjectNodeId cmpt])"
    obtain cs2 b2 ids2 I2 log2 where rest:
      "UploadChangedActorComponents E InInput cs b idsK log = (cs2, b2, ids2, I2, log2)"
      by (cases "UploadChangedActorComponents E InInput cs b idsK log") auto
    from Cons.prems(1) have r: "cs' = c # cs2" "ids' = ids2"
      unfolding UploadChangedActorComponents_Cons_kept [OF kept] idsK_def [symmetric]
      by (simp_all add: rest)
    from UploadChangedActorComponents_grows [OF rest] have "set idsK \<subseteq> set ids2" .
    with r 0 show ?thesis by (auto simp: idsK_def)
  next
    case (Suc j')
    obtain c1 b1 ids1 I1 log1 cs2 b2 ids2 I2 log2 where
      rest: "UploadChangedActorComponents E I1 cs b1 ids1 log1 = (cs2, b2, ids2, I2, log2)"
      and r: "cs' = c1 # cs2" "ids' = ids2"
      using Cons.prems(1) by (auto simp: Let_def split: prod.splits)
    from Cons.prems(2,3) Suc have "j' < length cs" "\<not> ComponentNeedsUpload (cs ! j')" by simp_all
    from Cons.IH [OF rest this] r Suc show ?thesis by simp
  qed
qed

lemma UploadInputObjectsLoop_kept_nth:
  "UploadInputObjectsLoop E InInput ps b ids log = (ps', b', ids', I', log')
   \<Longrightarrow> i < length ps \<Longrightarrow> \<not> NeedsUpload (ps ! i)
   \<Longrightarrow> ps' ! i = ps ! i
       \<and> (\<forall>obj. ps ! i = Some obj \<longrightarrow> \<not> bPendingKill obj \<longrightarrow> InputObjectNodeId obj \<in> set ids')"
proof (induction ps arbitrary: InInput b ids log ps' b' ids' I' log' i)
  case Nil
  then show ?case by simp
next
  case (Cons p ps)
  show ?case
  proof (cases i)
    case 0
    with Cons.prems(3) have kept: "\<not> NeedsUpload p" by simp
    define idsK where "idsK = (case p of None \<Rightarrow> ids
             | Some obj \<Rightarrow> if bPendingKill obj then ids else ids @ [InputObjectNodeId obj])"
    obtain ps2 b2 ids2 I2 log2 where rest:
      "UploadInputObjectsLoop E InInput ps b idsK log = (ps2, b2, ids2, I2, log2)"
      by (cases "UploadInputObjectsLoop E InInput ps b idsK log") auto
    from Cons.prems(1) have r: "ps' = p # ps2" "ids' = ids2"
      by (simp_all add: UploadInputObject_kept [OF kept] idsK_def [symmetric] rest)
    from UploadInputObjectsLoop_grows [OF rest] have "set idsK \<subseteq> set ids2" .
    with r 0 show ?thesis by (auto simp: idsK_def)
  next
    case (Suc i')
    obtain p1 b1 ids1 I1 log1 ps2 b2 ids2 I2 log2 where
      rest: "UploadInputObjectsLoop E I1 ps b1 ids1 log1 = (ps2, b2, ids2, I2, log2)"
      and r: "ps' = p1 # ps2" "ids' = ids2"
      using Cons.prems(1) by (auto simp: Let_def split: prod.splits)
    from Cons.prems(2,3) Suc have "i' < length ps" "\<not> NeedsUpload (ps ! i')" by simp_all
    from Cons.IH [OF rest this] r Suc show ?thesis by simp
  qed
qed

lemma UploadInputObjectsLoop_actor_nth:
  "UploadInputObjectsLoop E InInput ps b ids log = (ps', b', ids', I', log')
   \<Longrightarrow> i < length ps \<Longrightarrow> ps ! i = Some actor \<Longrightarrow> \<not> bPendingKill actor \<Longrightarrow> KeepsNode actor
   \<Longrightarrow> Type actor = EHoudiniInputObjectType_Actor
   \<Longrightarrow> j < length (ActorComponents actor) \<Longrightarrow> \<not> ComponentNeedsUpload (ActorComponents actor ! j)
   \<Longrightarrow> (\<exists>actor'. ps' ! i = Some actor' \<and> ActorComponents actor' ! j = ActorComponents actor ! j)
       \<and> (\<forall>c. ActorComponents actor ! j = Some c \<longrightarrow> \<not> bPendingKill c
              \<longrightarrow> InputObjectNodeId c \<in> set ids')"
proof (induction ps arbitrary: InInput b ids log ps' b' ids' I' log' i)
  case Nil
  then show ?case by simp
next
  case (Cons p ps)
  show ?case
  proof (cases i)
    case 0
    with Cons.prems(3) have p: "p = Some actor" by simp
    obtain cs1 b1 ids1 I1 log1 where inner:
      "UploadChangedActorComponents E InInput (ActorComponents actor) b ids log
         = (cs1, b1, ids1, I1, log1)"
      by (cases "UploadChangedActorComponents E InInput (ActorComponents actor) b ids log") auto
    have step: "UploadInputObject E InInput p b ids log
                  = (Some (actor\<lparr>ActorComponents := cs1\<rparr>), b1, ids1, I1, log1)"
      using Cons.prems(4,5,6) by (simp add: UploadInputObject_def p inner)
    obtain ps2 b2 ids2 I2 log2 where rest:
      "UploadInputObjectsLoop E I1 ps b1 ids1 log1 = (ps2, b2, ids2, I2, log2)"
      by (cases "UploadInputObjectsLoop E I1 ps b1 ids1 log1") auto
    from Cons.prems(1) have r: "ps' = Some (actor\<lparr>ActorComponents := cs1\<rparr>) # ps2" "ids' = ids2"
      by (simp_all add: step rest)
    from UploadInputObjectsLoop_grows [OF rest] have g: "set ids1 \<subseteq> set ids2" .
    from UploadChangedActorComponents_kept_nth [OF inner Cons.prems(7,8)] r g 0
    show ?thesis by auto
  next
    case (Suc i')
    obtain p1 b1 ids1 I1 log1 ps2 b2 ids2 I2 log2 where
      rest: "UploadInputObjectsLoop E I1 ps b1 ids1 log1 = (ps2, b2, ids2, I2, log2)"
      and r: "ps' = p1 # ps2" "ids' = ids2"
      using Cons.prems(1) by (auto simp: Let_def split: prod.splits)
    from Cons.prems(2,3) Suc have "i' < length ps" "ps ! i' = Some actor" by simp_all
    from Cons.IH [OF rest this Cons.prems(4,5,6,7,8)] r Suc show ?thesis by simp
  qed
qed

lemma ConnectCreatedNodes_grows:
  "set log \<subseteq> set (ConnectCreatedNodes N n ids log)"
proof (induction ids arbitrary: n log)
  case Nil
  show ?case by simp
next
  case (Cons a ids)
  have "set log \<subseteq> set (log @ [ConnectNodeInput N n a])" by auto
  also have "\<dots> \<subseteq> set (ConnectCreatedNodes N (n + 1) ids (log @ [ConnectNodeInput N n a]))"
    by (rule Cons.IH)
  finally show ?case using Cons.IH [of log n] by (cases "N = a") simp_all
qed

lemma ConnectCreatedNodes_connects:
  "k \<in> set ids \<Longrightarrow> 0 \<le> k \<Longrightarrow> k \<noteq> N
     \<Longrightarrow> \<exists>m. ConnectNodeInput N m k \<in> set (ConnectCreatedNodes N n ids log)"
proof (induction ids arbitrary: n log)
  case Nil
  then show ?case by simp
next
  case (Cons a ids)
  show ?case
  proof (cases "a = k")
    case True
    have "ConnectNodeInput N n k \<in> set (ConnectCreatedNodes N (n + 1) ids (log @ [ConnectNodeInput N n k]))"
      using ConnectCreatedNodes_grows [of "log @ [ConnectNodeInput N n k]" N "n + 1" ids] by auto
    with True Cons.prems show ?thesis by auto
  next
    case False
    with Cons.prems have "k \<in> set ids" by simp
    from Cons.IH [OF this Cons.prems(2,3)] show ?thesis by auto
  qed
qed

lemma DisconnectObjectMerges_grows:
  "set log \<subseteq> set (DisconnectObjectMerges E N bDestroy Idxs log)"
proof (induction Idxs arbitrary: log)
  case Nil
  show ?case by simp
next
  case (Cons Idx Idxs)
  define log3 where "log3 =
     (if bDestroy
      then log @ [QueryNodeInput N Idx, DisconnectNodeInput N Idx,
                  DeleteNode (ResultId (Api E log (QueryNodeInput N Idx)))]
      else log @ [DisconnectNodeInput N Idx])"
  have step: "DisconnectObjectMerges E N bDestroy (Idx # Idxs) log
                = DisconnectObjectMerges E N bDestroy Idxs log3"
    by (simp add: Let_def CallApi_def log3_def)
  have "set log \<subseteq> set log3" by (auto simp: log3_def)
  also have "\<dots> \<subseteq> set (DisconnectObjectMerges E N bDestroy Idxs log3)" by (rule Cons.IH)
  finally show ?case unfolding step .
qed

lemma ConnectInputNode_grows:
  "ConnectInputNode E log p = (b, log') \<Longrightarrow> set log \<subseteq> set log'"
  by (auto simp: ConnectInputNode_def CallApi_def Let_def split: option.splits if_splits prod.splits)

lemma ConnectInputObjects_result:
  assumes "N = GetInputNodeId InInput" "k \<in> set ids" "0 \<le> k"
  shows "\<exists>b I' log'. ConnectInputObjects E InInput N ids log = (b, Some I', log')
           \<and> I' = InInput\<lparr>GetCreatedDataNodeIds := ids\<rparr>
           \<and> (k \<noteq> GetInputNodeId I' \<longrightarrow> (\<exists>m. ConnectNodeInput (GetInputNodeId I') m k \<in> set log'))"
proof -
  define log1 where "log1 = ConnectCreatedNodes N 0 ids log"
  define log2 where "log2 = (if \<not> HasInputTypeChanged E InInput
                  then DisconnectObjectMerges E N
                         (GetInputType InInput \<noteq> EHoudiniInputType_Asset)
                         (map int [length ids ..< length (GetCreatedDataNodeIds InInput)])
                         log1
                  else log1)"
  obtain b log3 where c: "ConnectInputNode E log2 (Some (InInput\<lparr>GetCreatedDataNodeIds := ids\<rparr>)) = (b, log3)"
    by (cases "ConnectInputNode E log2 (Some (InInput\<lparr>GetCreatedDataNodeIds := ids\<rparr>))") auto
  have eq: "ConnectInputObjects E InInput N ids log = (b, Some (InInput\<lparr>GetCreatedDataNodeIds := ids\<rparr>), log3)"
    by (simp add: ConnectInputObjects_def Let_def log1_def [symmetric] log2_def [symmetric] c)
  have "set log1 \<subseteq> set log2"
    using DisconnectObjectMerges_grows [of log1 E N] by (simp add: log2_def)
  with ConnectInputNode_grows [OF c] have sub: "set log1 \<subseteq> set log3" by blast
  have "k \<noteq> N \<longrightarrow> (\<exists>m. ConnectNodeInput N m k \<in> set log1)"
    using ConnectCreatedNodes_connects [OF assms(2,3)] by (auto simp: log1_def)
  with sub eq assms(1) show ?thesis by auto
qed

lemma IsTranslatorCall_simps [simp]:
  "\<not> IsTranslatorCall (DeleteNode a)"
  "\<not> IsTranslatorCall (DisconnectNodeInput a b)"
  "\<not> IsTranslatorCall (ConnectNodeInput a b c)"
  "\<not> IsTranslatorCall (QueryNodeInput a b)"
  "\<not> IsTranslatorCall (SetParmNodeValue a s c)"
  "\<not> IsTranslatorCall (CreateNode s t)"
  "\<not> IsTranslatorCall (IsHoudiniNodeValid a)"
  "IsTranslatorCall (CreateInputNode k obj)"
  by (simp_all add: IsTranslatorCall_def)

lemma ConnectCreatedNodes_no_translator:
  "filter IsTranslatorCall (ConnectCreatedNodes N n ids log) = filter IsTranslatorCall log"
proof (induction ids arbitrary: n log)
  case Nil
  show ?case by simp
next
  case (Cons a ids)
  show ?case
    using Cons.IH [of n log] Cons.IH [of "n + 1" "log @ [ConnectNodeInput N n a]"]
    by (cases "N = a") simp_all
qed

lemma DisconnectObjectMerges_no_translator:
  "filter IsTranslatorCall (DisconnectObjectMerges E N bDestroy Idxs log) = filter IsTranslatorCall log"
proof (induction Idxs arbitrary: log)
  case Nil
  show ?case by simp
next
  case (Cons Idx Idxs)
  define log3 where "log3 =
     (if bDestroy
      then log @ [QueryNodeInput N Idx, DisconnectNodeInput N Idx,
                  DeleteNode (ResultId (Api E log (QueryNodeInput N Idx)))]
      else log @ [DisconnectNodeInput N Idx])"
  have step: "DisconnectObjectMerges E N bDestroy (Idx # Idxs) log
                = DisconnectObjectMerges E N bDestroy Idxs log3"
    by (simp add: Let_def CallApi_def log3_def)
  have "filter IsTranslatorCall log3 = filter IsTranslatorCall log" by (simp add: log3_def)
  with Cons.IH [of log3] show ?case unfolding step by simp
qed

lemma ConnectInputNode_no_translator:
  "ConnectInputNode E log p = (b, log') \<Longrightarrow> filter IsTranslatorCall log' = filter IsTranslatorCall log"
  by (auto simp: ConnectInputNode_def CallApi_def Let_def split: option.splits if_splits)

lemma ConnectInputObjects_no_translator:
  assumes "ConnectInputObjects E InInput N ids log = (b, I', log')"
  shows "filter IsTranslatorCall log' = filter IsTranslatorCall log"
proof -
  define log2 where "log2 = (if \<not> HasInputTypeChanged E InInput
                  then DisconnectObjectMerges E N
                         (GetInputType InInput \<noteq> EHoudiniInputType_Asset)
                         (map int [length ids ..< length (GetCreatedDataNodeIds InInput)])
                         (ConnectCreatedNodes N 0 ids log)
                  else ConnectCreatedNodes N 0 ids log)"
  have t: "filter IsTranslatorCall log2 = filter IsTranslatorCall log"
    by (simp add: log2_def DisconnectObjectMerges_no_translator ConnectCreatedNodes_no_translator)
  obtain b3 log3 where c:
    "ConnectInputNode E log2 (Some (InInput\<lparr>GetCreatedDataNodeIds := ids\<rparr>)) = (b3, log3)"
    by (cases "ConnectInputNode E log2 (Some (InInput\<lparr>GetCreatedDataNodeIds := ids\<rparr>))") auto
  have "ConnectInputObjects E InInput N ids log = (b3, Some (InInput\<lparr>GetCreatedDataNodeIds := ids\<rparr>), log3)"
    by (simp add: ConnectInputObjects_def Let_def log2_def [symmetric] c)
  with assms have "log' = log3" by simp
  with ConnectInputNode_no_translator [OF c] t show ?thesis by simp
qed

lemma ConnectInputObjects_shape:
  "\<exists>b log'. ConnectInputObjects E J N ids l = (b, Some (J\<lparr>GetCreatedDataNodeIds := ids\<rparr>), log')"
  by (cases "ConnectInputNode E
                (if \<not> HasInputTypeChanged E J
                 then DisconnectObjectMerges E N (GetInputType J \<noteq> EHoudiniInputType_Asset)
                        (map int [length ids..<length (GetCreatedDataNodeIds J)])
                        (ConnectCreatedNodes N 0 ids l)
                 else ConnectCreatedNodes N 0 ids l)
                (Some (J\<lparr>GetCreatedDataNodeIds := ids\<rparr>))")
     (simp add: ConnectInputObjects_def Let_def)

lemma ObjectsOf_update [simp]:
  "ObjectsOf (J\<lparr>GetCreatedDataNodeIds := f\<rparr>) T = ObjectsOf J T"
  "ObjectsOf (J\<lparr>GetInputNodeId := g\<rparr>) T = ObjectsOf J T"
  by (simp_all add: ObjectsOf_def GetHoudiniInputObjectArray_def)

lemma InvalidateInputNode_result:
  "\<exists>I' log'. InvalidateInputNode E InInput b log = (b, Some I', log')
      \<and> ObjectsOf I' T = ObjectsOf InInput T
      \<and> filter IsTranslatorCall log' = filter IsTranslatorCall log"
  by (simp add: InvalidateInputNode_def Let_def DisconnectObjectMerges_no_translator)

lemma ConnectToMergeNode_result:
  "\<exists>b I' log'. ConnectToMergeNode E InInput ids log = (b, Some I', log')
      \<and> ObjectsOf I' T = ObjectsOf InInput T
      \<and> filter IsTranslatorCall log' = filter IsTranslatorCall log
      \<and> (\<forall>k \<in> set ids. 0 \<le> k \<longrightarrow>
                 MergeNodeMissing E log'
                 \<or> (GetCreatedDataNodeIds I' = ids
                    \<and> (k \<noteq> GetInputNodeId I'
                         \<longrightarrow> (\<exists>m. ConnectNodeInput (GetInputNodeId I') m k \<in> set log'))))"
proof -
  define bValid where "bValid = (\<not> GetInputNodeId InInput < 0
                                   \<and> Succeeded (Api E log (IsHoudiniNodeValid (GetInputNodeId InInput))))"
  define log1 where "log1 = (if GetInputNodeId InInput < 0 then log
                               else log @ [IsHoudiniNodeValid (GetInputNodeId InInput)])"
  have v: "(if GetInputNodeId InInput < 0 then (False, log)
              else (let (r, l) = CallApi E log (IsHoudiniNodeValid (GetInputNodeId InInput))
                    in (Succeeded r, l))) = (bValid, log1)"
    by (simp add: bValid_def log1_def CallApi_def)
  have t1: "filter IsTranslatorCall log1 = filter IsTranslatorCall log"
    by (simp add: log1_def)
  define nodeLabel where "nodeLabel = GetNodeBaseName InInput @ ''_Merge''"
  define r where "r = Api E log1 (CreateNode ''SOP/merge'' nodeLabel)"
  define log2 where "log2 = log1 @ [CreateNode ''SOP/merge'' nodeLabel]"
  have c: "CallApi E log1 (CreateNode ''SOP/merge'' (GetNodeBaseName InInput @ ''_Merge'')) = (r, log2)"
    by (simp add: CallApi_def r_def log2_def nodeLabel_def)
  have t2: "filter IsTranslatorCall log2 = filter IsTranslatorCall log"
    by (simp add: log2_def t1)
  have eq: "ConnectToMergeNode E InInput ids log =
       (if bValid then ConnectInputObjects E InInput (GetInputNodeId InInput) ids log1
        else if \<not> Succeeded r then (False, Some InInput, log2)
        else ConnectInputObjects E (InInput\<lparr>GetInputNodeId := ResultId r\<rparr>) (ResultId r) ids log2)"
    unfolding ConnectToMergeNode_def v by (simp add: c)
  have connect: "\<exists>b I' log'. ConnectInputObjects E J (GetInputNodeId J) ids l = (b, Some I', log')
      \<and> ObjectsOf I' T = ObjectsOf J T
      \<and> filter IsTranslatorCall log' = filter IsTranslatorCall l
      \<and> (\<forall>k \<in> set ids. 0 \<le> k \<longrightarrow>
                 (GetCreatedDataNodeIds I' = ids
                    \<and> (k \<noteq> GetInputNodeId I'
                         \<longrightarrow> (\<exists>m. ConnectNodeInput (GetInputNodeId I') m k \<in> set log'))))" for J l
  proof -
    define I' where "I' = J\<lparr>GetCreatedDataNodeIds := ids\<rparr>"
    obtain b log' where res: "ConnectInputObjects E J (GetInputNodeId J) ids l = (b, Some I', log')"
      using ConnectInputObjects_shape [of E J "GetInputNodeId J" ids l] unfolding I'_def by blast
    have I': "I' = J\<lparr>GetCreatedDataNodeIds := ids\<rparr>" by (rule I'_def)
    have conn: "\<forall>k \<in> set ids. 0 \<le> k \<longrightarrow> k \<noteq> GetInputNodeId I'
                    \<longrightarrow> (\<exists>m. ConnectNodeInput (GetInputNodeId I') m k \<in> set log')"
    proof (intro ballI impI)
      fix k assume "k \<in> set ids" "0 \<le> k" "k \<noteq> GetInputNodeId I'"
      with ConnectInputObjects_result [OF refl this(1,2), of E J l] res
      show "\<exists>m. ConnectNodeInput (GetInputNodeId I') m k \<in> set log'" by auto
    qed
    from ConnectInputObjects_no_translator [OF res] res I' conn show ?thesis by simp
  qed
  consider (valid) "bValid" | (missing) "\<not> bValid" "\<not> Succeeded r"
    | (created) "\<not> bValid" "Succeeded r" by blast
  then show ?thesis
  proof cases
    case valid
    with connect [of InInput log1] eq t1 show ?thesis by auto
  next
    case missing
    have "MergeNodeMissing E log2"
      using missing(2) by (auto simp: MergeNodeMissing_def log2_def r_def)
    with missing eq t2 show ?thesis by auto
  next
    case created
    with connect [of "InInput\<lparr>GetInputNodeId := ResultId r\<rparr>" log2] eq t2 show ?thesis by auto
  qed
qed

lemma UploadInputData_loop:
  assumes "\<not> IsPendingKill I" "GetHoudiniInputObjectArray I (GetInputType I) = Some ps"
    and loop: "UploadInputObjectsLoop E I ps True [] log = (ps', b1, ids, I1, log1)"
  shows "\<exists>b I' log'. UploadInputData E log (Some I) = (b, Some I', log')
           \<and> ObjectsOf I' (GetInputType I) = ps'
           \<and> filter IsTranslatorCall log' = filter IsTranslatorCall log1
           \<and> (\<forall>k \<in> set ids. 0 \<le> k \<longrightarrow>
                 MergeNodeMissing E log'
                 \<or> (GetCreatedDataNodeIds I' = ids
                    \<and> (k \<noteq> GetInputNodeId I'
                         \<longrightarrow> (\<exists>m. ConnectNodeInput (GetInputNodeId I') m k \<in> set log'))))"
proof -
  define I2 where "I2 = SetHoudiniInputObjectArray (GetInputType I) ps' I1"
  have objs2: "ObjectsOf I2 (GetInputType I) = ps'"
    by (simp add: I2_def SetHoudiniInputObjectArray_def ObjectsOf_def GetHoudiniInputObjectArray_def)
  have eq: "UploadInputData E log (Some I) =
              (if ids = [] then InvalidateInputNode E I2 b1 log1
               else ConnectToMergeNode E I2 ids log1)"
    using assms(1,2) by (simp add: UploadInputData_def loop I2_def)
  show ?thesis
  proof (cases "ids = []")
    case True
    with InvalidateInputNode_result [of E I2 b1 log1 "GetInputType I"] eq objs2
    show ?thesis by auto
  next
    case False
    with ConnectToMergeNode_result [of E I2 ids log1 "GetInputType I"] eq objs2
    show ?thesis by auto
  qed
qed

lemma UploadInputData_kept:
  assumes "\<not> IsPendingKill I" "GetHoudiniInputObjectArray I (GetInputType I) = Some ps"
    "i < length ps" "ps ! i = Some obj" "\<not> bPendingKill obj" "KeepsNode obj"
    "Type obj \<noteq> EHoudiniInputObjectType_Actor"
  shows "\<exists>b I' log'. UploadInputData E log (Some I) = (b, Some I', log')
             \<and> ObjectsOf I' (GetInputType I) ! i = Some obj
             \<and> (MergeNodeMissing E log'
                \<or> (InputObjectNodeId obj \<in> set (GetCreatedDataNodeIds I')
                   \<and> (InputObjectNodeId obj \<noteq> GetInputNodeId I'
                        \<longrightarrow> (\<exists>m. ConnectNodeInput (GetInputNodeId I') m (InputObjectNodeId obj)
                                    \<in> set log'))))"
proof -
  obtain ps' b1 ids I1 log1 where loop:
    "UploadInputObjectsLoop E I ps True [] log = (ps', b1, ids, I1, log1)"
    by (cases "UploadInputObjectsLoop E I ps True [] log") auto
  have kept: "\<not> NeedsUpload (ps ! i)"
    using assms(4-7) by (simp add: NeedsUpload_def)
  from UploadInputObjectsLoop_kept_nth [OF loop assms(3) kept] assms(4,5)
  have nth: "ps' ! i = Some obj" and mem: "InputObjectNodeId obj \<in> set ids" by auto
  have nonneg: "0 \<le> InputObjectNodeId obj" using assms(6) by (simp add: KeepsNode_def)
  from UploadInputData_loop [OF assms(1,2) loop] nth mem nonneg show ?thesis by fastforce
qed

lemma UploadInputData_kept_component:
  assumes "\<not> IsPendingKill I" "GetHoudiniInputObjectArray I (GetInputType I) = Some ps"
    "i < length ps" "ps ! i = Some actor" "\<not> bPendingKill actor" "KeepsNode actor"
    "Type actor = EHoudiniInputObjectType_Actor"
    "j < length (ActorComponents actor)" "ActorComponents actor ! j = Some c"
    "\<not> bPendingKill c" "KeepsNode c"
  shows "\<exists>b I' log' actor'. UploadInputData E log (Some I) = (b, Some I', log')
             \<and> ObjectsOf I' (GetInputType I) ! i = Some actor'
             \<and> ActorComponents actor' ! j = Some c
             \<and> (MergeNodeMissing E log'
                \<or> (InputObjectNodeId c \<in> set (GetCreatedDataNodeIds I')
                   \<and> (InputObjectNodeId c \<noteq> GetInputNodeId I'
                        \<longrightarrow> (\<exists>m. ConnectNodeInput (GetInputNodeId I') m (InputObjectNodeId c)
                                    \<in> set log'))))"
proof -
  obtain ps' b1 ids I1 log1 where loop:
    "UploadInputObjectsLoop E I ps True [] log = (ps', b1, ids, I1, log1)"
    by (cases "UploadInputObjectsLoop E I ps True [] log") auto
  have kept: "\<not> ComponentNeedsUpload (ActorComponents actor ! j)"
    using assms(9-11) by (simp add: ComponentNeedsUpload_def)
  from UploadInputObjectsLoop_actor_nth [OF loop assms(3-8) kept] assms(9,10)
  obtain actor' where nth: "ps' ! i = Some actor'" "ActorComponents actor' ! j = Some c"
    and mem: "InputObjectNodeId c \<in> set ids" by auto
  have nonneg: "0 \<le> InputObjectNodeId c" using assms(11) by (simp add: KeepsNode_def)
  from UploadInputData_loop [OF assms(1,2) loop] nth mem nonneg show ?thesis by fastforce
qed

lemma UploadInputData_nothing_to_upload:
  assumes "\<not> IsPendingKill I" "GetHoudiniInputObjectArray I (GetInputType I) = Some ps"
    "filter NeedsUpload ps = []"
  shows "filter IsTranslatorCall (snd (snd (UploadInputData E log (Some I))))
           = filter IsTranslatorCall log"
proof -
  obtain ps' b1 ids I1 log1 where loop:
    "UploadInputObjectsLoop E I ps True [] log = (ps', b1, ids, I1, log1)"
    by (cases "UploadInputObjectsLoop E I ps True [] log") auto
  have "UploadOutcome (UploadInputObjectsLoop E I ps True [] log)
          = UploadOutcome (UploadInputObjectsLoop E I (filter NeedsUpload ps) True [] log)"
    by (rule UploadInputObjectsLoop_filter)
  with loop assms(3) have "log1 = log" by (simp add: UploadOutcome_def)
  with UploadInputData_loop [OF assms(1,2) loop] show ?thesis by auto
qed

text \<open>Every upload function only appends to the calls made, and leaves the input its type
  and its pending-kill state.\<close>

lemma UploadSwitch_frame:
  "UploadSwitch E J c ids log = (b, c', ids', J', log')
     \<Longrightarrow> (\<exists>ext. log' = log @ ext) \<and> IsPendingKill J' = IsPendingKill J
         \<and> GetInputType J' = GetInputType J"
  by (cases "Type c")
     (auto simp: UploadSwitch_def CreateNodeAndAdd_def CallTranslator_def Let_def
        split: prod.splits)

lemma UploadHoudiniInputComponent_frame:
  "UploadHoudiniInputComponent E J c ids log = (b, c', ids', J', log')
     \<Longrightarrow> (\<exists>ext. log' = log @ ext) \<and> IsPendingKill J' = IsPendingKill J
         \<and> GetInputType J' = GetInputType J"
proof (cases c)
  case None
  assume "UploadHoudiniInputComponent E J c ids log = (b, c', ids', J', log')"
  with None show ?thesis by (simp add: UploadHoudiniInputComponent_def)
next
  case (Some d)
  assume r: "UploadHoudiniInputComponent E J c ids log = (b, c', ids', J', log')"
  show ?thesis
  proof (cases "Type d = EHoudiniInputObjectType_Actor")
    case True
    with r Some show ?thesis by (simp add: UploadHoudiniInputComponent_def)
  next
    case False
    obtain b1 c1 ids1 J1 log1 where sw: "UploadSwitch E J d ids log = (b1, c1, ids1, J1, log1)"
      by (cases "UploadSwitch E J d ids log") auto
    with r Some False have "J' = J1" "log' = log1"
      by (simp_all add: UploadHoudiniInputComponent_def)
    with UploadSwitch_frame [OF sw] show ?thesis by simp
  qed
qed

lemma CommitActorComponents_frame:
  "CommitActorComponents E J cs ids log = (cs', ids', J', log')
     \<Longrightarrow> (\<exists>ext. log' = log @ ext) \<and> IsPendingKill J' = IsPendingKill J
         \<and> GetInputType J' = GetInputType J"
proof (induction cs arbitrary: J ids log cs' ids' J' log')
  case Nil
  then show ?case by simp
next
  case (Cons c cs)
  obtain b c1 ids1 J1 log1 where step:
    "UploadHoudiniInputComponent E J c ids log = (b, c1, ids1, J1, log1)"
    by (cases "UploadHoudiniInputComponent E J c ids log") auto
  obtain cs2 ids2 J2 log2 where rest:
    "CommitActorComponents E J1 cs ids1 log1 = (cs2, ids2, J2, log2)"
    by (cases "CommitActorComponents E J1 cs ids1 log1") auto
  from Cons.prems step rest have r: "J' = J2" "log' = log2" by simp_all
  from UploadHoudiniInputComponent_frame [OF step] Cons.IH [OF rest] r show ?case by auto
qed

lemma CommitActorComponents_calls:
  "CommitActorComponents E J cs ids log = (cs', ids', J', log')
     \<Longrightarrow> k < length cs \<Longrightarrow> cs ! k = Some d \<Longrightarrow> DedicatedTranslator (Type d) = Some kind
     \<Longrightarrow> CreateInputNode kind d \<in> set log'"
proof (induction cs arbitrary: J ids log cs' ids' J' log' k)
  case Nil
  then show ?case by simp
next
  case (Cons c cs)
  obtain b c1 ids1 J1 log1 where step:
    "UploadHoudiniInputComponent E J c ids log = (b, c1, ids1, J1, log1)"
    by (cases "UploadHoudiniInputComponent E J c ids log") auto
  obtain cs2 ids2 J2 log2 where rest:
    "CommitActorComponents E J1 cs ids1 log1 = (cs2, ids2, J2, log2)"
    by (cases "CommitActorComponents E J1 cs ids1 log1") auto
  from Cons.prems(1) step rest have r: "log' = log2" by simp
  show ?case
  proof (cases k)
    case 0
    with Cons.prems(3) have c: "c = Some d" by simp
    from Cons.prems(4) have na: "Type d \<noteq> EHoudiniInputObjectType_Actor"
      by (rule DedicatedTranslator_not_Actor)
    from step c na have "log1 = log @ [CreateInputNode kind d]"
      by (simp add: UploadHoudiniInputComponent_def UploadSwitch_leaf [OF Cons.prems(4)])
    moreover from CommitActorComponents_frame [OF rest] obtain ext where "log2 = log1 @ ext"
      by auto
    ultimately show ?thesis using r by simp
  next
    case (Suc k')
    with Cons.prems(2,3) Cons.IH [OF rest, of k' , OF _ _ Cons.prems(4)] r show ?thesis by simp
  qed
qed

lemma UpdateInputActor_frame:
  "UpdateInputActor E J v log = (v1, log1)
     \<Longrightarrow> (\<exists>ext. log1 = log @ ext \<and> filter IsTranslatorCall ext = [])"
  by (auto simp: UpdateInputActor_def IsTranslatorCall_def split: if_splits)

lemma BuildProxyMeshesOfAssetActor_frame:
  "BuildProxyMeshesOfAssetActor E J v log = (v1, log1) \<Longrightarrow> \<exists>ext. log1 = log @ ext"
  by (auto simp: BuildProxyMeshesOfAssetActor_def UpdateInputActor_def Let_def split: if_splits)

lemma BuildProxyMeshesOfAssetActor_ordinary:
  "\<not> IsA_AHoudiniAssetActor (AssetActorState E log (AsComponent v))
     \<Longrightarrow> BuildProxyMeshesOfAssetActor E J v log = (v, log)"
  by (simp add: BuildProxyMeshesOfAssetActor_def Let_def)

lemma HapiCreateInputNodeForActor_live:
  assumes "\<not> IsPendingKill J" "\<not> bPendingKill v" "EngineObject v = EngineObject_Live"
    and b: "BuildProxyMeshesOfAssetActor E J v log = (v1, log1)"
    and c: "CommitActorComponents E J (ActorComponents v1) ids log1 = (cs', ids', J', log2)"
  shows "HapiCreateInputNodeForActor E J v ids log
           = (True, v1\<lparr>ActorComponents := cs', Transform := HostTransform E log2 (AsComponent v1)\<rparr>,
              ids', J', log2 @ [GetHostTransform (AsComponent v1)])"
  using assms by (simp add: HapiCreateInputNodeForActor_def)

lemma HapiCreateInputNodeForActor_frame:
  "HapiCreateInputNodeForActor E J v ids log = (b, v', ids', J', log')
     \<Longrightarrow> (\<exists>ext. log' = log @ ext) \<and> IsPendingKill J' = IsPendingKill J
         \<and> GetInputType J' = GetInputType J"
proof -
  assume r: "HapiCreateInputNodeForActor E J v ids log = (b, v', ids', J', log')"
  show ?thesis
  proof (cases "\<not> IsPendingKill J \<and> \<not> bPendingKill v \<and> EngineObject v = EngineObject_Live")
    case False
    with r show ?thesis by (auto simp: HapiCreateInputNodeForActor_def split: if_splits)
  next
    case True
    obtain v1 log1 where b1: "BuildProxyMeshesOfAssetActor E J v log = (v1, log1)"
      by (cases "BuildProxyMeshesOfAssetActor E J v log") auto
    obtain cs2 ids2 J2 log2 where c:
      "CommitActorComponents E J (ActorComponents v1) ids log1 = (cs2, ids2, J2, log2)"
      by (cases "CommitActorComponents E J (ActorComponents v1) ids log1") auto
    from True HapiCreateInputNodeForActor_live [OF _ _ _ b1 c] r
    have "J' = J2" "log' = log2 @ [GetHostTransform (AsComponent v1)]" by simp_all
    with BuildProxyMeshesOfAssetActor_frame [OF b1] CommitActorComponents_frame [OF c]
    show ?thesis by auto
  qed
qed

lemma UploadHoudiniInputObject_frame:
  "UploadHoudiniInputObject E J p ids log = (b, p', ids', J', log')
     \<Longrightarrow> (\<exists>ext. log' = log @ ext) \<and> IsPendingKill J' = IsPendingKill J
         \<and> GetInputType J' = GetInputType J"
proof (cases p)
  case None
  assume "UploadHoudiniInputObject E J p ids log = (b, p', ids', J', log')"
  with None show ?thesis by (simp add: UploadHoudiniInputObject_def)
next
  case (Some u)
  assume r: "UploadHoudiniInputObject E J p ids log = (b, p', ids', J', log')"
  show ?thesis
  proof (cases "Type u = EHoudiniInputObjectType_Actor")
    case True
    obtain b1 u1 ids1 J1 log1 where a:
      "HapiCreateInputNodeForActor E J u ids log = (b1, u1, ids1, J1, log1)"
      by (cases "HapiCreateInputNodeForActor E J u ids log") auto
    with r Some True have "J' = J1" "log' = log1" by (simp_all add: UploadHoudiniInputObject_def)
    with HapiCreateInputNodeForActor_frame [OF a] show ?thesis by simp
  next
    case False
    obtain b1 c1 ids1 J1 log1 where sw:
      "UploadSwitch E J (AsComponent u) ids log = (b1, c1, ids1, J1, log1)"
      by (cases "UploadSwitch E J (AsComponent u) ids log") auto
    with r Some False have "J' = J1" "log' = log1" by (simp_all add: UploadHoudiniInputObject_def)
    with UploadSwitch_frame [OF sw] show ?thesis by simp
  qed
qed

lemma UploadChangedActorComponents_frame:
  "UploadChangedActorComponents E J cs b ids log = (cs', b', ids', J', log')
     \<Longrightarrow> (\<exists>ext. log' = log @ ext) \<and> IsPendingKill J' = IsPendingKill J
         \<and> GetInputType J' = GetInputType J"
proof (induction cs arbitrary: J b ids log cs' b' ids' J' log')
  case Nil
  then show ?case by simp
next
  case (Cons c cs)
  obtain c1 b1 ids1 J1 log1 where step:
    "(case c of
        None \<Rightarrow> (None, b, ids, J, log)
      | Some CurrentComp \<Rightarrow>
          if bPendingKill CurrentComp then (c, b, ids, J, log)
          else if KeepsNode CurrentComp
          then (c, b, ids @ [InputObjectNodeId CurrentComp], J, log)
          else
            let (ok, c1, ids', InInput', log') = UploadHoudiniInputComponent E J c ids log
            in (c1, b \<and> ok, ids', InInput', log')) = (c1, b1, ids1, J1, log1)"
    by (cases "(case c of
        None \<Rightarrow> (None, b, ids, J, log)
      | Some CurrentComp \<Rightarrow>
          if bPendingKill CurrentComp then (c, b, ids, J, log)
          else if KeepsNode CurrentComp
          then (c, b, ids @ [InputObjectNodeId CurrentComp], J, log)
          else
            let (ok, c1, ids', InInput', log') = UploadHoudiniInputComponent E J c ids log
            in (c1, b \<and> ok, ids', InInput', log'))") auto
  have f1: "(\<exists>ext. log1 = log @ ext) \<and> IsPendingKill J1 = IsPendingKill J
         \<and> GetInputType J1 = GetInputType J"
  proof (cases "ComponentNeedsUpload c")
    case False
    with step show ?thesis by (auto simp: ComponentNeedsUpload_def split: option.splits if_splits)
  next
    case True
    obtain ok c2 ids2 J2 log2 where u:
      "UploadHoudiniInputComponent E J c ids log = (ok, c2, ids2, J2, log2)"
      by (cases "UploadHoudiniInputComponent E J c ids log") auto
    with True step have "J1 = J2" "log1 = log2"
      by (auto simp: ComponentNeedsUpload_def split: option.splits if_splits)
    with UploadHoudiniInputComponent_frame [OF u] show ?thesis by simp
  qed
  obtain cs2 b2 ids2 J2 log2 where rest:
    "UploadChangedActorComponents E J1 cs b1 ids1 log1 = (cs2, b2, ids2, J2, log2)"
    by (cases "UploadChangedActorComponents E J1 cs b1 ids1 log1") auto
  from Cons.prems step rest have r: "J' = J2" "log' = log2" by simp_all
  from f1 Cons.IH [OF rest] r show ?case by auto
qed

lemma UploadInputObject_frame:
  "UploadInputObject E J p b ids log = (p', b', ids', J', log')
     \<Longrightarrow> (\<exists>ext. log' = log @ ext) \<and> IsPendingKill J' = IsPendingKill J
         \<and> GetInputType J' = GetInputType J"
proof (cases "NeedsUpload p")
  case False
  assume "UploadInputObject E J p b ids log = (p', b', ids', J', log')"
  with UploadInputObject_kept [OF False, of E J b ids log] show ?thesis by simp
next
  case True
  assume r: "UploadInputObject E J p b ids log = (p', b', ids', J', log')"
  from True obtain u where p: "p = Some u" and live: "\<not> bPendingKill u"
    by (auto simp: NeedsUpload_def split: option.splits)
  show ?thesis
  proof (cases "KeepsNode u")
    case True
    with \<open>NeedsUpload p\<close> p have a: "Type u = EHoudiniInputObjectType_Actor"
      by (simp add: NeedsUpload_def)
    obtain cs1 b1 ids1 J1 log1 where inner:
      "UploadChangedActorComponents E J (ActorComponents u) b ids log = (cs1, b1, ids1, J1, log1)"
      by (cases "UploadChangedActorComponents E J (ActorComponents u) b ids log") auto
    with r p live True a have "J' = J1" "log' = log1" by (simp_all add: UploadInputObject_def)
    with UploadChangedActorComponents_frame [OF inner] show ?thesis by simp
  next
    case False
    obtain ok p1 ids1 J1 log1 where u:
      "UploadHoudiniInputObject E J p ids log = (ok, p1, ids1, J1, log1)"
      by (cases "UploadHoudiniInputObject E J p ids log") auto
    with r p live False have "J' = J1" "log' = log1" by (simp_all add: UploadInputObject_def)
    with UploadHoudiniInputObject_frame [OF u] show ?thesis by simp
  qed
qed

lemma UploadInputObjectsLoop_frame:
  "UploadInputObjectsLoop E J ps b ids log = (ps', b', ids', J', log')
     \<Longrightarrow> (\<exists>ext. log' = log @ ext) \<and> IsPendingKill J' = IsPendingKill J
         \<and> GetInputType J' = GetInputType J"
proof (induction ps arbitrary: J b ids log ps' b' ids' J' log')
  case Nil
  then show ?case by simp
next
  case (Cons p ps)
  obtain p1 b1 ids1 J1 log1 where step:
    "UploadInputObject E J p b ids log = (p1, b1, ids1, J1, log1)"
    by (cases "UploadInputObject E J p b ids log") auto
  obtain ps2 b2 ids2 J2 log2 where rest:
    "UploadInputObjectsLoop E J1 ps b1 ids1 log1 = (ps2, b2, ids2, J2, log2)"
    by (cases "UploadInputObjectsLoop E J1 ps b1 ids1 log1") auto
  from Cons.prems step rest have r: "J' = J2" "log' = log2" by simp_all
  from UploadInputObject_frame [OF step] Cons.IH [OF rest] r show ?case by auto
qed

text \<open>An object of the array that does not keep its node is handed to
  \<^verbatim>\<open>UploadHoudiniInputObject\<close>, with the input, the node ids and the calls of that moment.\<close>

lemma UploadInputObjectsLoop_uploaded_nth:
  "UploadInputObjectsLoop E J ps b ids log = (ps', b', ids', J', log')
   \<Longrightarrow> i < length ps \<Longrightarrow> ps ! i = Some u \<Longrightarrow> \<not> bPendingKill u \<Longrightarrow> \<not> KeepsNode u
   \<Longrightarrow> \<exists>J1 ids1 log1 ok p1 idsA JA logA ext.
         IsPendingKill J1 = IsPendingKill J \<and> GetInputType J1 = GetInputType J
         \<and> UploadHoudiniInputObject E J1 (Some u) ids1 log1 = (ok, p1, idsA, JA, logA)
         \<and> ps' ! i = p1 \<and> log' = logA @ ext"
proof (induction ps arbitrary: J b ids log ps' b' ids' J' log' i)
  case Nil
  then show ?case by simp
next
  case (Cons p ps)
  obtain p1 b1 ids1 J1 log1 where step:
    "UploadInputObject E J p b ids log = (p1, b1, ids1, J1, log1)"
    by (cases "UploadInputObject E J p b ids log") auto
  obtain ps2 b2 ids2 J2 log2 where rest:
    "UploadInputObjectsLoop E J1 ps b1 ids1 log1 = (ps2, b2, ids2, J2, log2)"
    by (cases "UploadInputObjectsLoop E J1 ps b1 ids1 log1") auto
  from Cons.prems(1) step rest have r: "ps' = p1 # ps2" "log' = log2" by simp_all
  show ?case
  proof (cases i)
    case 0
    with Cons.prems(3) have p: "p = Some u" by simp
    obtain ok q idsA JA logA where u:
      "UploadHoudiniInputObject E J (Some u) ids log = (ok, q, idsA, JA, logA)"
      by (cases "UploadHoudiniInputObject E J (Some u) ids log") auto
    with step p Cons.prems(4,5) have "p1 = q" "log1 = logA"
      by (simp_all add: UploadInputObject_def)
    moreover from UploadInputObjectsLoop_frame [OF rest] obtain ext where "log2 = log1 @ ext"
      by auto
    ultimately have "IsPendingKill J = IsPendingKill J \<and> GetInputType J = GetInputType J
         \<and> UploadHoudiniInputObject E J (Some u) ids log = (ok, q, idsA, JA, logA)
         \<and> ps' ! i = q \<and> log' = logA @ ext"
      using u r 0 by simp
    then show ?thesis by blast
  next
    case (Suc i')
    with Cons.prems(2,3) have i': "i' < length ps" "ps ! i' = Some u" by simp_all
    from Cons.IH [OF rest i' Cons.prems(4,5)] UploadInputObject_frame [OF step] r Suc
    show ?thesis by auto
  qed
qed

lemma UploadInputData_changed_actor:
  assumes "\<not> IsPendingKill W" "GetHoudiniInputObjectArray W (GetInputType W) = Some ws"
    "m < length ws" "ws ! m = Some v" "\<not> bPendingKill v" "\<not> KeepsNode v"
    "Type v = EHoudiniInputObjectType_Actor" "EngineObject v = EngineObject_Live"
    "\<forall>lg. \<not> IsA_AHoudiniAssetActor (AssetActorState E lg (AsComponent v))"
    "k < length (ActorComponents v)" "ActorComponents v ! k = Some d"
    "DedicatedTranslator (Type d) = Some dkind"
  shows "CreateInputNode dkind d \<in> set (snd (snd (UploadInputData E log (Some W))))"
proof -
  obtain ws' b1 ids W1 log1 where loop:
    "UploadInputObjectsLoop E W ws True [] log = (ws', b1, ids, W1, log1)"
    by (cases "UploadInputObjectsLoop E W ws True [] log") auto
  from UploadInputObjectsLoop_uploaded_nth [OF loop assms(3-6)]
  obtain J1 ids1 lg1 ok p1 idsA JA logA ext where
    j1: "IsPendingKill J1 = IsPendingKill W"
    and u: "UploadHoudiniInputObject E J1 (Some v) ids1 lg1 = (ok, p1, idsA, JA, logA)"
    and l: "log1 = logA @ ext"
    by blast
  have b: "BuildProxyMeshesOfAssetActor E J1 v lg1 = (v, lg1)"
    using assms(9) by (simp add: BuildProxyMeshesOfAssetActor_ordinary)
  obtain cs' ids' J' lg2 where c:
    "CommitActorComponents E J1 (ActorComponents v) ids1 lg1 = (cs', ids', J', lg2)"
    by (cases "CommitActorComponents E J1 (ActorComponents v) ids1 lg1") auto
  from j1 assms(1) have "\<not> IsPendingKill J1" by simp
  from HapiCreateInputNodeForActor_live [OF this assms(5,8) b c] u assms(7)
  have "logA = lg2 @ [GetHostTransform (AsComponent v)]"
    by (simp add: UploadHoudiniInputObject_def)
  moreover from CommitActorComponents_calls [OF c assms(10-12)]
  have "CreateInputNode dkind d \<in> set lg2" .
  ultimately have "CreateInputNode dkind d \<in> set log1" using l by simp
  then have mem: "CreateInputNode dkind d \<in> set (filter IsTranslatorCall log1)"
    by (simp add: IsTranslatorCall_def)
  from UploadInputData_loop [OF assms(1,2) loop]
  obtain b I' log' where res: "UploadInputData E log (Some W) = (b, Some I', log')"
    and f: "filter IsTranslatorCall log' = filter IsTranslatorCall log1" by blast
  from mem f have "CreateInputNode dkind d \<in> set (filter IsTranslatorCall log')" by simp
  then have "CreateInputNode dkind d \<in> set log'" by simp
  with res show ?thesis by simp
qed


lemma UploadHoudiniInputObject_live_actor:
  assumes "\<not> IsPendingKill J" "\<not> bPendingKill v" "Type v = EHoudiniInputObjectType_Actor"
    "EngineObject v = EngineObject_Live"
  shows "fst (UploadHoudiniInputObject E J (Some v) ids log)
       \<and> fst (snd (snd (UploadHoudiniInputObject E J (Some v) ids log)))
          = (case BuildProxyMeshesOfAssetActor E J v log of
               (v1, log1) \<Rightarrow> fst (snd (CommitActorComponents E J (ActorComponents v1) ids log1)))"
proof -
  obtain v1 log1 where b: "BuildProxyMeshesOfAssetActor E J v log = (v1, log1)"
    by (cases "BuildProxyMeshesOfAssetActor E J v log") auto
  obtain cs' ids' J' log2 where c:
    "CommitActorComponents E J (ActorComponents v1) ids log1 = (cs', ids', J', log2)"
    by (cases "CommitActorComponents E J (ActorComponents v1) ids log1") auto
  from HapiCreateInputNodeForActor_live [OF assms(1,2,4) b c] assms(3) b c
  show ?thesis by (simp add: UploadHoudiniInputObject_def)
qed

lemma UploadHoudiniInputObject_live_actor_calls:
  assumes "\<not> IsPendingKill J" "\<not> bPendingKill v" "Type v = EHoudiniInputObjectType_Actor"
    "EngineObject v = EngineObject_Live"
    "k < length (ActorComponents (fst (BuildProxyMeshesOfAssetActor E J v log)))"
    "ActorComponents (fst (BuildProxyMeshesOfAssetActor E J v log)) ! k = Some d"
    "DedicatedTranslator (Type d) = Some kind"
  shows "CreateInputNode kind d
           \<in> set (snd (snd (snd (snd (UploadHoudiniInputObject E J (Some v) ids log)))))"
proof -
  obtain v1 log1 where b: "BuildProxyMeshesOfAssetActor E J v log = (v1, log1)"
    by (cases "BuildProxyMeshesOfAssetActor E J v log") auto
  obtain cs' ids' J' log2 where c:
    "CommitActorComponents E J (ActorComponents v1) ids log1 = (cs', ids', J', log2)"
    by (cases "CommitActorComponents E J (ActorComponents v1) ids log1") auto
  from assms(5,6) b have k: "k < length (ActorComponents v1)" "ActorComponents v1 ! k = Some d"
    by simp_all
  from CommitActorComponents_calls [OF c k assms(7)]
  have "CreateInputNode kind d \<in> set log2" .
  with HapiCreateInputNodeForActor_live [OF assms(1,2,4) b c] assms(3)
  show ?thesis by (simp add: UploadHoudiniInputObject_def)
qed

lemma UploadHoudiniInputObject_dead_actor:
  assumes "\<not> IsPendingKill J" "\<not> bPendingKill v" "Type v = EHoudiniInputObjectType_Actor"
    "EngineObject v \<noteq> EngineObject_Live"
  shows "UploadHoudiniInputObject E J (Some v) ids log = (True, Some (MarkUploaded True v), ids, J, log)"
  using assms by (simp add: UploadHoudiniInputObject_def HapiCreateInputNodeForActor_def)

lemma UploadChangedActorComponents_none_live:
  "filter IsLiveComponent cs = []
     \<Longrightarrow> UploadChangedActorComponents E J cs b ids log = (cs, b, ids, J, log)"
proof (induction cs)
  case Nil
  then show ?case by simp
next
  case (Cons c cs)
  from Cons.prems have c: "\<not> IsLiveComponent c" and cs: "filter IsLiveComponent cs = []"
    by (simp_all split: if_splits)
  from c Cons.IH [OF cs] show ?case
    by (cases c) (simp_all add: IsLiveComponent_def)
qed

lemma UploadInputObject_actor_without_live_component:
  assumes "\<not> bPendingKill a" "KeepsNode a" "Type a = EHoudiniInputObjectType_Actor"
    "filter IsLiveComponent (ActorComponents a) = []"
  shows "UploadInputObject E J (Some a) b ids log = (Some a, b, ids, J, log)"
  using assms by (simp add: UploadInputObject_def UploadChangedActorComponents_none_live)


text \<open>
  C1 (as amended). In UploadInputData a live input object that is not marked changed and
  has a valid \<^verbatim>\<open>InputObjectNodeId\<close> is left as it is and its node id is in the list the input
  records as connected to its merge node (a connect call is made for it), unless the merge
  node could not be created. For an actor that itself keeps its node the same holds for
  each of its components, and the actor's own node id is not added: an actor without a
  live component adds nothing. No translator is called when no object needs an upload, and
  the calls, the success flag and the input that the loops leave are those of the same
  loops run on the objects (components) that need an upload alone. An object that is marked
  changed or has no valid node id goes through UploadHoudiniInputObject. For an actor whose
  engine actor is alive this uploads every component of the input object, changed or not
  (the components it has after the block for Houdini asset actors, which are its own
  components when it is no Houdini asset actor), succeeds whatever the components return
  and adds the node ids that the components add and no other; for an actor whose engine
  actor is null or pending kill it uploads nothing and succeeds.
\<close>

theorem UploadInputData_incremental:
  "(\<not> IsPendingKill I \<and> GetHoudiniInputObjectArray I (GetInputType I) = Some ps
      \<and> i < length ps \<and> ps ! i = Some obj \<and> \<not> bPendingKill obj \<and> KeepsNode obj
      \<and> Type obj \<noteq> EHoudiniInputObjectType_Actor
    \<longrightarrow> (\<exists>b I' log'. UploadInputData E log (Some I) = (b, Some I', log')
             \<and> ObjectsOf I' (GetInputType I) ! i = Some obj
             \<and> (MergeNodeMissing E log'
                \<or> (InputObjectNodeId obj \<in> set (GetCreatedDataNodeIds I')
                   \<and> (InputObjectNodeId obj \<noteq> GetInputNodeId I'
                        \<longrightarrow> (\<exists>m. ConnectNodeInput (GetInputNodeId I') m (InputObjectNodeId obj)
                                    \<in> set log'))))))
   \<and> (\<not> IsPendingKill A \<and> GetHoudiniInputObjectArray A (GetInputType A) = Some qs
      \<and> n < length qs \<and> qs ! n = Some actor \<and> \<not> bPendingKill actor \<and> KeepsNode actor
      \<and> Type actor = EHoudiniInputObjectType_Actor
      \<and> j < length (ActorComponents actor) \<and> ActorComponents actor ! j = Some c
      \<and> \<not> bPendingKill c \<and> KeepsNode c
    \<longrightarrow> (\<exists>b A' log' actor'. UploadInputData E log (Some A) = (b, Some A', log')
             \<and> ObjectsOf A' (GetInputType A) ! n = Some actor'
             \<and> ActorComponents actor' ! j = Some c
             \<and> (MergeNodeMissing E log'
                \<or> (InputObjectNodeId c \<in> set (GetCreatedDataNodeIds A')
                   \<and> (InputObjectNodeId c \<noteq> GetInputNodeId A'
                        \<longrightarrow> (\<exists>m. ConnectNodeInput (GetInputNodeId A') m (InputObjectNodeId c)
                                    \<in> set log'))))))
   \<and> (\<not> IsPendingKill B \<and> GetHoudiniInputObjectArray B (GetInputType B) = Some rs
      \<and> filter NeedsUpload rs = []
    \<longrightarrow> filter IsTranslatorCall (snd (snd (UploadInputData E log (Some B))))
          = filter IsTranslatorCall log)
   \<and> UploadOutcome (UploadInputObjectsLoop E J xs b0 ids0 log0)
       = UploadOutcome (UploadInputObjectsLoop E J (filter NeedsUpload xs) b0 ids0 log0)
   \<and> UploadOutcome (UploadChangedActorComponents E J cs b0 ids0 log0)
       = UploadOutcome (UploadChangedActorComponents E J (filter ComponentNeedsUpload cs) b0 ids0 log0)
   \<and> (\<not> bPendingKill u \<and> \<not> KeepsNode u
    \<longrightarrow> UploadInputObject E J (Some u) b0 ids0 log0
          = (case UploadHoudiniInputObject E J (Some u) ids0 log0 of
               (ok, p', ids', J', log') \<Rightarrow> (p', b0 \<and> ok, ids', J', log')))
   \<and> (\<not> IsPendingKill W \<and> GetHoudiniInputObjectArray W (GetInputType W) = Some ws
      \<and> m < length ws \<and> ws ! m = Some v \<and> \<not> bPendingKill v \<and> \<not> KeepsNode v
      \<and> Type v = EHoudiniInputObjectType_Actor \<and> EngineObject v = EngineObject_Live
      \<and> (\<forall>lg. \<not> IsA_AHoudiniAssetActor (AssetActorState E lg (AsComponent v)))
      \<and> k < length (ActorComponents v) \<and> ActorComponents v ! k = Some d
      \<and> DedicatedTranslator (Type d) = Some dkind
    \<longrightarrow> CreateInputNode dkind d \<in> set (snd (snd (UploadInputData E log (Some W)))))
   \<and> (\<not> IsPendingKill Jl \<and> \<not> bPendingKill vl \<and> Type vl = EHoudiniInputObjectType_Actor
      \<and> EngineObject vl = EngineObject_Live
    \<longrightarrow> fst (UploadHoudiniInputObject E Jl (Some vl) idsl logl)
       \<and> fst (snd (snd (UploadHoudiniInputObject E Jl (Some vl) idsl logl)))
          = (case BuildProxyMeshesOfAssetActor E Jl vl logl of
               (v1, log1) \<Rightarrow> fst (snd (CommitActorComponents E Jl (ActorComponents v1) idsl log1))))
   \<and> (\<not> IsPendingKill Jl \<and> \<not> bPendingKill vl \<and> Type vl = EHoudiniInputObjectType_Actor
      \<and> EngineObject vl = EngineObject_Live
      \<and> kl < length (ActorComponents (fst (BuildProxyMeshesOfAssetActor E Jl vl logl)))
      \<and> ActorComponents (fst (BuildProxyMeshesOfAssetActor E Jl vl logl)) ! kl = Some dl
      \<and> DedicatedTranslator (Type dl) = Some kindl
    \<longrightarrow> CreateInputNode kindl dl
          \<in> set (snd (snd (snd (snd (UploadHoudiniInputObject E Jl (Some vl) idsl logl))))))
   \<and> (\<not> IsPendingKill Jd \<and> \<not> bPendingKill vd \<and> Type vd = EHoudiniInputObjectType_Actor
      \<and> EngineObject vd \<noteq> EngineObject_Live
    \<longrightarrow> UploadHoudiniInputObject E Jd (Some vd) idsd logd
          = (True, Some (MarkUploaded True vd), idsd, Jd, logd))
   \<and> (\<not> bPendingKill ka \<and> KeepsNode ka \<and> Type ka = EHoudiniInputObjectType_Actor
      \<and> filter IsLiveComponent (ActorComponents ka) = []
    \<longrightarrow> UploadInputObject E Jk (Some ka) bk idsk logk = (Some ka, bk, idsk, Jk, logk))"
proof (intro conjI impI)
  assume "\<not> IsPendingKill I \<and> GetHoudiniInputObjectArray I (GetInputType I) = Some ps
      \<and> i < length ps \<and> ps ! i = Some obj \<and> \<not> bPendingKill obj \<and> KeepsNode obj
      \<and> Type obj \<noteq> EHoudiniInputObjectType_Actor"
  then show "\<exists>b I' log'. UploadInputData E log (Some I) = (b, Some I', log')
             \<and> ObjectsOf I' (GetInputType I) ! i = Some obj
             \<and> (MergeNodeMissing E log'
                \<or> (InputObjectNodeId obj \<in> set (GetCreatedDataNodeIds I')
                   \<and> (InputObjectNodeId obj \<noteq> GetInputNodeId I'
                        \<longrightarrow> (\<exists>m. ConnectNodeInput (GetInputNodeId I') m (InputObjectNodeId obj)
                                    \<in> set log'))))"
    using UploadInputData_kept [of I ps i obj E log] by blast
next
  assume "\<not> IsPendingKill A \<and> GetHoudiniInputObjectArray A (GetInputType A) = Some qs
      \<and> n < length qs \<and> qs ! n = Some actor \<and> \<not> bPendingKill actor \<and> KeepsNode actor
      \<and> Type actor = EHoudiniInputObjectType_Actor
      \<and> j < length (ActorComponents actor) \<and> ActorComponents actor ! j = Some c
      \<and> \<not> bPendingKill c \<and> KeepsNode c"
  then show "\<exists>b A' log' actor'. UploadInputData E log (Some A) = (b, Some A', log')
             \<and> ObjectsOf A' (GetInputType A) ! n = Some actor'
             \<and> ActorComponents actor' ! j = Some c
             \<and> (MergeNodeMissing E log'
                \<or> (InputObjectNodeId c \<in> set (GetCreatedDataNodeIds A')
                   \<and> (InputObjectNodeId c \<noteq> GetInputNodeId A'
                        \<longrightarrow> (\<exists>m. ConnectNodeInput (GetInputNodeId A') m (InputObjectNodeId c)
                                    \<in> set log'))))"
    using UploadInputData_kept_component [of A qs n actor j c E log] by blast
next
  assume "\<not> IsPendingKill B \<and> GetHoudiniInputObjectArray B (GetInputType B) = Some rs
      \<and> filter NeedsUpload rs = []"
  then show "filter IsTranslatorCall (snd (snd (UploadInputData E log (Some B))))
          = filter IsTranslatorCall log"
    using UploadInputData_nothing_to_upload [of B rs E log] by blast
next
  show "UploadOutcome (UploadInputObjectsLoop E J xs b0 ids0 log0)
       = UploadOutcome (UploadInputObjectsLoop E J (filter NeedsUpload xs) b0 ids0 log0)"
    by (rule UploadInputObjectsLoop_filter)
next
  show "UploadOutcome (UploadChangedActorComponents E J cs b0 ids0 log0)
       = UploadOutcome (UploadChangedActorComponents E J (filter ComponentNeedsUpload cs) b0 ids0 log0)"
    by (rule UploadChangedActorComponents_filter)
next
  assume "\<not> bPendingKill u \<and> \<not> KeepsNode u"
  then show "UploadInputObject E J (Some u) b0 ids0 log0
          = (case UploadHoudiniInputObject E J (Some u) ids0 log0 of
               (ok, p', ids', J', log') \<Rightarrow> (p', b0 \<and> ok, ids', J', log'))"
    by (simp add: UploadInputObject_def Let_def split: prod.splits)
next
  assume "\<not> IsPendingKill W \<and> GetHoudiniInputObjectArray W (GetInputType W) = Some ws
      \<and> m < length ws \<and> ws ! m = Some v \<and> \<not> bPendingKill v \<and> \<not> KeepsNode v
      \<and> Type v = EHoudiniInputObjectType_Actor \<and> EngineObject v = EngineObject_Live
      \<and> (\<forall>lg. \<not> IsA_AHoudiniAssetActor (AssetActorState E lg (AsComponent v)))
      \<and> k < length (ActorComponents v) \<and> ActorComponents v ! k = Some d
      \<and> DedicatedTranslator (Type d) = Some dkind"
  then show "CreateInputNode dkind d \<in> set (snd (snd (UploadInputData E log (Some W))))"
    using UploadInputData_changed_actor [where W = W and ws = ws and m = m and v = v and E = E and k = k and d = d and dkind = dkind and log = log] by blast
next
  assume a: "\<not> IsPendingKill Jl \<and> \<not> bPendingKill vl \<and> Type vl = EHoudiniInputObjectType_Actor
      \<and> EngineObject vl = EngineObject_Live"
  from a UploadHoudiniInputObject_live_actor [where J = Jl and v = vl and E = E and ids = idsl and log = logl]
  show "fst (UploadHoudiniInputObject E Jl (Some vl) idsl logl)" by blast
  from a UploadHoudiniInputObject_live_actor [where J = Jl and v = vl and E = E and ids = idsl and log = logl]
  show "fst (snd (snd (UploadHoudiniInputObject E Jl (Some vl) idsl logl)))
          = (case BuildProxyMeshesOfAssetActor E Jl vl logl of
               (v1, log1) \<Rightarrow> fst (snd (CommitActorComponents E Jl (ActorComponents v1) idsl log1)))"
    by blast
next
  assume "\<not> IsPendingKill Jl \<and> \<not> bPendingKill vl \<and> Type vl = EHoudiniInputObjectType_Actor
      \<and> EngineObject vl = EngineObject_Live
      \<and> kl < length (ActorComponents (fst (BuildProxyMeshesOfAssetActor E Jl vl logl)))
      \<and> ActorComponents (fst (BuildProxyMeshesOfAssetActor E Jl vl logl)) ! kl = Some dl
      \<and> DedicatedTranslator (Type dl) = Some kindl"
  then show "CreateInputNode kindl dl
          \<in> set (snd (snd (snd (snd (UploadHoudiniInputObject E Jl (Some vl) idsl logl)))))"
    using UploadHoudiniInputObject_live_actor_calls [where J = Jl and v = vl and E = E and log = logl and k = kl and d = dl and kind = kindl and ids = idsl] by blast
next
  assume "\<not> IsPendingKill Jd \<and> \<not> bPendingKill vd \<and> Type vd = EHoudiniInputObjectType_Actor
      \<and> EngineObject vd \<noteq> EngineObject_Live"
  then show "UploadHoudiniInputObject E Jd (Some vd) idsd logd
          = (True, Some (MarkUploaded True vd), idsd, Jd, logd)"
    using UploadHoudiniInputObject_dead_actor [where J = Jd and v = vd and E = E and ids = idsd and log = logd] by blast
next
  assume "\<not> bPendingKill ka \<and> KeepsNode ka \<and> Type ka = EHoudiniInputObjectType_Actor
      \<and> filter IsLiveComponent (ActorComponents ka) = []"
  then show "UploadInputObject E Jk (Some ka) bk idsk logk = (Some ka, bk, idsk, Jk, logk)"
    using UploadInputObject_actor_without_live_component [where a = ka and E = E and J = Jk and b = bk and ids = idsk and log = logk] by blast
qed

lemmas world_fixture_defs = NewHoudiniInput_def NewInputObject_def RefusingEngine_def AcceptingEngine_def
  GeometryInputWithMesh_def ChangedStaticMesh_def ChangedMeshComponent_def
  ActorWithChangedComponent_def AsComponent_def WithComponents_def
  KeptMeshComponent_def KeptStaticMesh_def KeptActor_def UploadedWorldInput_def
  WorldInputWithChangedActor_def FTransform_Identity_def ActorWithoutEngineActor_def
  ActorWithoutLiveComponent_def AssetActorWithoutComponents_def EngineWithAssetActor_def

lemmas upload_defs =
  UploadInputData_def UploadInputObject_def UploadHoudiniInputObject_def UploadSwitch_def
  CreateNodeAndAdd_def CallTranslator_def MarkUploaded_def MarkChanged_def
  SetNeedsToTriggerUpdate_def HapiCreateInputNodeForActor_def UploadHoudiniInputComponent_def
  BuildProxyMeshesOfAssetActor_def UpdateInputActor_def KeepsNode_def ConnectInputObjects_def
  ConnectInputNode_def CallApi_def GetHoudiniInputObjectArray_def SetHoudiniInputObjectArray_def
  InvalidateInputNode_def ConnectToMergeNode_def Let_def

theorem UploadInputData_incremental_witness:
  "\<not> IsPendingKill UploadedWorldInput
   \<and> GetHoudiniInputObjectArray UploadedWorldInput (GetInputType UploadedWorldInput)
       = Some [Some KeptStaticMesh, Some KeptActor]
   \<and> \<not> bPendingKill KeptStaticMesh \<and> KeepsNode KeptStaticMesh
   \<and> Type KeptStaticMesh \<noteq> EHoudiniInputObjectType_Actor
   \<and> \<not> bPendingKill KeptActor \<and> KeepsNode KeptActor
   \<and> Type KeptActor = EHoudiniInputObjectType_Actor
   \<and> ActorComponents KeptActor ! 0 = Some KeptMeshComponent
   \<and> \<not> bPendingKill KeptMeshComponent \<and> KeepsNode KeptMeshComponent
   \<and> \<not> IsPendingKill GeometryInputWithMesh
   \<and> filter NeedsUpload (ObjectsOf GeometryInputWithMesh EHoudiniInputType_Geometry) = []
   \<and> \<not> bPendingKill ChangedStaticMesh \<and> \<not> KeepsNode ChangedStaticMesh
   \<and> map_option GetCreatedDataNodeIds
        (fst (snd (UploadInputData AcceptingEngine [] (Some UploadedWorldInput)))) = Some [4, 31, 101]
   \<and> filter IsTranslatorCall (snd (snd (UploadInputData AcceptingEngine [] (Some UploadedWorldInput))))
       = [CreateInputNode HapiCreateInputNodeForStaticMeshComponent ChangedMeshComponent]
   \<and> filter IsTranslatorCall (snd (snd (UploadInputData AcceptingEngine [] (Some GeometryInputWithMesh))))
       = []
   \<and> \<not> IsPendingKill WorldInputWithChangedActor
   \<and> \<not> KeepsNode (KeptActor\<lparr>bHasChanged := True, ActorComponents := [Some KeptMeshComponent]\<rparr>)
   \<and> EngineObject (KeptActor\<lparr>bHasChanged := True, ActorComponents := [Some KeptMeshComponent]\<rparr>)
       = EngineObject_Live
   \<and> DedicatedTranslator (Type KeptMeshComponent) = Some HapiCreateInputNodeForStaticMeshComponent
   \<and> CreateInputNode HapiCreateInputNodeForStaticMeshComponent KeptMeshComponent
       \<in> set (snd (snd (UploadInputData AcceptingEngine [] (Some WorldInputWithChangedActor))))
   \<and> UploadHoudiniInputObject AcceptingEngine UploadedWorldInput
        (Some (KeptActor\<lparr>bHasChanged := True, ActorComponents := [Some KeptMeshComponent]\<rparr>)) [4] []
       = (True,
          Some (KeptActor\<lparr>bHasChanged := False,
                  ActorComponents :=
                    [Some (KeptMeshComponent\<lparr>InputNodeId := 100, InputObjectNodeId := 101\<rparr>)]\<rparr>),
          [4, 101], UploadedWorldInput,
          [CreateInputNode HapiCreateInputNodeForStaticMeshComponent KeptMeshComponent,
           GetHostTransform
             (AsComponent (KeptActor\<lparr>bHasChanged := True,
                              ActorComponents := [Some KeptMeshComponent]\<rparr>))])
   \<and> EngineObject ActorWithoutEngineActor \<noteq> EngineObject_Live
   \<and> UploadHoudiniInputObject AcceptingEngine UploadedWorldInput (Some ActorWithoutEngineActor) [4] []
       = (True, Some (MarkUploaded True ActorWithoutEngineActor), [4], UploadedWorldInput, [])
   \<and> KeepsNode ActorWithoutLiveComponent
   \<and> filter IsLiveComponent (ActorComponents ActorWithoutLiveComponent) = []
   \<and> UploadInputObject AcceptingEngine UploadedWorldInput (Some ActorWithoutLiveComponent) True [4] []
       = (Some ActorWithoutLiveComponent, True, [4], UploadedWorldInput, [])
   \<and> ActorComponents
        (fst (BuildProxyMeshesOfAssetActor EngineWithAssetActor UploadedWorldInput
                AssetActorWithoutComponents []))
       = [Some ChangedMeshComponent]
   \<and> fst (UploadHoudiniInputObject EngineWithAssetActor UploadedWorldInput
             (Some AssetActorWithoutComponents) [4] [])
   \<and> fst (snd (snd (UploadHoudiniInputObject EngineWithAssetActor UploadedWorldInput
                       (Some AssetActorWithoutComponents) [4] []))) = [4, 105]
   \<and> snd (snd (snd (snd (UploadHoudiniInputObject EngineWithAssetActor UploadedWorldInput
                            (Some AssetActorWithoutComponents) [4] []))))
       = [UpdateActor (AsComponent AssetActorWithoutComponents), TryCollectGarbage,
          CreateInputNode HapiCreateInputNodeForStaticMeshComponent ChangedMeshComponent,
          GetHostTransform (AsComponent AssetActorWithoutComponents)]"
  using UploadInputData_incremental
          [where I = UploadedWorldInput and ps = "[Some KeptStaticMesh, Some KeptActor]" and i = 0
             and obj = KeptStaticMesh and A = UploadedWorldInput
             and qs = "[Some KeptStaticMesh, Some KeptActor]" and n = 1 and actor = KeptActor
             and j = 0 and c = KeptMeshComponent and B = GeometryInputWithMesh
             and rs = "[None, Some ((NewInputObject EHoudiniInputObjectType_StaticMesh)
                      \<lparr>InputNodeId := 3, InputObjectNodeId := 4\<rparr>)]"
             and u = ChangedStaticMesh and E = AcceptingEngine and log = "[]"
             and W = WorldInputWithChangedActor
             and ws = "[Some (KeptActor\<lparr>bHasChanged := True,
                                ActorComponents := [Some KeptMeshComponent]\<rparr>)]"
             and m = 0
             and v = "KeptActor\<lparr>bHasChanged := True, ActorComponents := [Some KeptMeshComponent]\<rparr>"
             and k = 0 and d = KeptMeshComponent
             and dkind = HapiCreateInputNodeForStaticMeshComponent
             and Jl = UploadedWorldInput
             and vl = "KeptActor\<lparr>bHasChanged := True, ActorComponents := [Some KeptMeshComponent]\<rparr>"
             and idsl = "[4]" and logl = "[]" and kl = 0 and dl = KeptMeshComponent
             and kindl = HapiCreateInputNodeForStaticMeshComponent
             and Jd = UploadedWorldInput and vd = ActorWithoutEngineActor and idsd = "[4]"
             and logd = "[]"
             and ka = ActorWithoutLiveComponent and Jk = UploadedWorldInput and bk = True
             and idsk = "[4]" and logk = "[]"]
        UploadInputData_incremental
          [where E = EngineWithAssetActor and Jl = UploadedWorldInput
             and vl = AssetActorWithoutComponents and idsl = "[4]" and logl = "[]" and kl = 0
             and dl = ChangedMeshComponent and kindl = HapiCreateInputNodeForStaticMeshComponent]
  by (simp add: world_fixture_defs upload_defs NeedsUpload_def ObjectsOf_def IsTranslatorCall_def
        IsLiveComponent_def)

text \<open>
  The claim as first stated applies the rule to every component of an actor: the component
  with node \<open>31\<close> of a changed actor is unchanged, and yet it is uploaded again and its
  node id is dropped from the list.
\<close>

theorem UploadInputData_counterexample:
  "ObjectsOf WorldInputWithChangedActor (GetInputType WorldInputWithChangedActor)
     = [Some (KeptActor\<lparr>bHasChanged := True, ActorComponents := [Some KeptMeshComponent]\<rparr>)]
   \<and> \<not> bPendingKill KeptMeshComponent \<and> KeepsNode KeptMeshComponent
   \<and> InputObjectNodeId KeptMeshComponent = 31
   \<and> CreateInputNode HapiCreateInputNodeForStaticMeshComponent KeptMeshComponent
       \<in> set (snd (snd (UploadInputData AcceptingEngine [] (Some WorldInputWithChangedActor))))
   \<and> map_option GetCreatedDataNodeIds
        (fst (snd (UploadInputData AcceptingEngine [] (Some WorldInputWithChangedActor)))) = Some [101]"
  by (simp add: world_fixture_defs upload_defs ObjectsOf_def)

section \<open>Transform synchronization\<close>

lemma MarkTransformUploaded_fields [simp]:
  "bTransformChanged (MarkTransformUploaded b obj) = (if b then False else bTransformChanged obj)"
  "bNeedsToTriggerUpdate (MarkTransformUploaded b obj) = False"
  by (simp_all add: MarkTransformUploaded_def MarkTransformChanged_def SetNeedsToTriggerUpdate_def)

lemma TransformSwitch_flag:
  "TransformSwitch E obj log = (b, obj', log') \<Longrightarrow> bTransformChanged obj' = bTransformChanged obj"
  by (cases "Type obj")
     (auto simp: TransformSwitch_def UpdateTransform_def CallApi_def Let_def
        split: if_splits prod.splits)

lemma UploadHoudiniInputComponentTransform_flags:
  assumes "UploadHoudiniInputComponentTransform E (Some c) log = (b, p', log')"
  shows "\<exists>c'. p' = Some c' \<and> bTransformChanged c' = (if b then False else bTransformChanged c)
           \<and> \<not> bNeedsToTriggerUpdate c'"
proof (cases "Type c = EHoudiniInputObjectType_Actor")
  case True
  with assms show ?thesis
    by (auto simp: UploadHoudiniInputComponentTransform_def Let_def split: if_splits)
next
  case False
  obtain ok c1 log1 where sw: "TransformSwitch E c log = (ok, c1, log1)"
    by (cases "TransformSwitch E c log") auto
  from TransformSwitch_flag [OF sw] assms False sw show ?thesis
    by (auto simp: UploadHoudiniInputComponentTransform_def)
qed

lemma UploadHoudiniInputTransform_flags:
  assumes "UploadHoudiniInputTransform E (Some obj) log = (b, p', log')"
  shows "\<exists>obj'. p' = Some obj' \<and> bTransformChanged obj' = (if b then False else bTransformChanged obj)
           \<and> \<not> bNeedsToTriggerUpdate obj'"
proof (cases "Type obj = EHoudiniInputObjectType_Actor")
  case True
  with assms show ?thesis
    by (auto simp: UploadHoudiniInputTransform_def Let_def split: if_splits prod.splits)
next
  case False
  obtain ok c1 log1 where sw: "TransformSwitch E (AsComponent obj) log = (ok, c1, log1)"
    by (cases "TransformSwitch E (AsComponent obj) log") auto
  from TransformSwitch_flag [OF sw] assms False sw show ?thesis
    by (auto simp: UploadHoudiniInputTransform_def)
qed

lemma UploadInputTransformLoop_skip:
  "\<not> TransformNeedsUpload p \<Longrightarrow>
   UploadInputTransformLoop E (p # ps) b log =
     (case UploadInputTransformLoop E ps b log of (ps', b', log') \<Rightarrow> (p # ps', b', log'))"
  by (auto simp: TransformNeedsUpload_def split: option.splits)

lemma UploadInputTransformLoop_upload:
  "TransformNeedsUpload p \<Longrightarrow> UploadHoudiniInputTransform E p log = (ok, p1, log1) \<Longrightarrow>
   UploadInputTransformLoop E (p # ps) b log =
     (case UploadInputTransformLoop E ps (b \<and> ok) log1 of (ps', b', log') \<Rightarrow> (p1 # ps', b', log'))"
  by (auto simp: TransformNeedsUpload_def split: option.splits)

lemma UploadInputTransformLoop_untouched:
  "UploadInputTransformLoop E ps b log = (ps', b', log') \<Longrightarrow> i < length ps
   \<Longrightarrow> \<not> TransformNeedsUpload (ps ! i) \<Longrightarrow> ps' ! i = ps ! i"
proof (induction ps arbitrary: b log ps' b' log' i)
  case Nil
  then show ?case by simp
next
  case (Cons p ps)
  obtain p1 b1 log1 ps2 b2 log2 where
    rest: "UploadInputTransformLoop E ps b1 log1 = (ps2, b2, log2)" and r: "ps' = p1 # ps2"
    and head: "\<not> TransformNeedsUpload p \<longrightarrow> p1 = p"
    using Cons.prems(1)
    by (cases "TransformNeedsUpload p")
       (auto simp: TransformNeedsUpload_def Let_def split: prod.splits option.splits if_splits)
  show ?case
  proof (cases i)
    case 0
    with Cons.prems(3) head r show ?thesis by simp
  next
    case (Suc i')
    with Cons.prems(2,3) have "i' < length ps" "\<not> TransformNeedsUpload (ps ! i')" by simp_all
    from Cons.IH [OF rest this] r Suc show ?thesis by simp
  qed
qed

lemma snd_rebuild: "snd (case r of (xs, rest) \<Rightarrow> (f xs, rest)) = snd r"
  by (cases r) simp

lemma UploadInputTransformLoop_filter:
  "snd (UploadInputTransformLoop E ps b log)
     = snd (UploadInputTransformLoop E (filter TransformNeedsUpload ps) b log)"
proof (induction ps arbitrary: b log)
  case Nil
  show ?case by simp
next
  case (Cons p ps)
  show ?case
  proof (cases "TransformNeedsUpload p")
    case False
    then show ?thesis
      using Cons.IH [of b log]
      by (simp add: UploadInputTransformLoop_skip [OF False] snd_rebuild
            del: UploadInputTransformLoop.simps)
  next
    case True
    obtain ok p1 log1 where step: "UploadHoudiniInputTransform E p log = (ok, p1, log1)"
      by (cases "UploadHoudiniInputTransform E p log") auto
    show ?thesis
      using True Cons.IH [of "b \<and> ok" log1]
      by (simp add: UploadInputTransformLoop_upload [OF True step] snd_rebuild
            del: UploadInputTransformLoop.simps)
  qed
qed

lemma UploadInputTransform_untouched:
  assumes "\<not> IsPendingKill I" "GetHoudiniInputObjectArray I (GetInputType I) = Some ps"
    "i < length ps" "\<not> TransformNeedsUpload (ps ! i)"
  shows "\<exists>b I' log'. UploadInputTransform E log (Some I) = (b, Some I', log')
           \<and> ObjectsOf I' (GetInputType I) ! i = ps ! i"
proof -
  obtain ps' b log' where loop: "UploadInputTransformLoop E ps True log = (ps', b, log')"
    by (cases "UploadInputTransformLoop E ps True log") auto
  from UploadInputTransformLoop_untouched [OF loop assms(3,4)] assms(1,2) loop show ?thesis
    by (simp add: UploadInputTransform_def ObjectsOf_def GetHoudiniInputObjectArray_def
          SetHoudiniInputObjectArray_def)
qed

lemma UploadInputTransform_nothing_moved:
  assumes "\<not> IsPendingKill I" "GetHoudiniInputObjectArray I (GetInputType I) = Some ps"
    "filter TransformNeedsUpload ps = []"
  shows "fst (UploadInputTransform E log (Some I)) \<and> snd (snd (UploadInputTransform E log (Some I))) = log"
proof -
  obtain ps' b log' where loop: "UploadInputTransformLoop E ps True log = (ps', b, log')"
    by (cases "UploadInputTransformLoop E ps True log") auto
  from UploadInputTransformLoop_filter [of E ps True log] loop assms(3)
  have "b = True" "log' = log" by simp_all
  with assms(1,2) loop show ?thesis by (simp add: UploadInputTransform_def)
qed

lemma UploadActorComponentTransforms_skip:
  "\<not> TransformNeedsUpload c \<Longrightarrow>
   UploadActorComponentTransforms E (c # cs) b log =
     (case UploadActorComponentTransforms E cs b log of (cs', b', log') \<Rightarrow> (c # cs', b', log'))"
  by (auto simp: TransformNeedsUpload_def split: option.splits)

lemma UploadActorComponentTransforms_upload:
  "TransformNeedsUpload c \<Longrightarrow> UploadHoudiniInputComponentTransform E c log = (ok, c1, log1) \<Longrightarrow>
   UploadActorComponentTransforms E (c # cs) b log =
     (case UploadActorComponentTransforms E cs (b \<and> ok) log1 of (cs', b', log') \<Rightarrow> (c1 # cs', b', log'))"
  by (auto simp: TransformNeedsUpload_def split: option.splits)

lemma UploadActorComponentTransforms_filter:
  "snd (UploadActorComponentTransforms E cs b log)
     = snd (UploadActorComponentTransforms E (filter TransformNeedsUpload cs) b log)"
proof (induction cs arbitrary: b log)
  case Nil
  show ?case by simp
next
  case (Cons c cs)
  show ?case
  proof (cases "TransformNeedsUpload c")
    case False
    then show ?thesis
      using Cons.IH [of b log]
      by (simp add: UploadActorComponentTransforms_skip [OF False] snd_rebuild
            del: UploadActorComponentTransforms.simps)
  next
    case True
    obtain ok c1 log1 where step: "UploadHoudiniInputComponentTransform E c log = (ok, c1, log1)"
      by (cases "UploadHoudiniInputComponentTransform E c log") auto
    show ?thesis
      using True Cons.IH [of "b \<and> ok" log1]
      by (simp add: UploadActorComponentTransforms_upload [OF True step] snd_rebuild
            del: UploadActorComponentTransforms.simps)
  qed
qed

text \<open>
  C3. UploadHoudiniInputTransform clears the transform-changed flag of the object exactly
  when it returns true and clears the needs-to-trigger-update flag in both cases, for an
  object of an input's array and for a component of an actor. UploadInputTransform leaves
  every object that is null, pending kill or has no transform change as it is; when no
  object has a transform change it makes no call and returns true; and in general the calls
  and the result of its loop (and of the loop over an actor's components) are those of the
  same loop run on the objects whose transform changed alone.
\<close>

theorem UploadInputTransform_only_changed:
  "(UploadHoudiniInputTransform E (Some obj) log = (b, p', log')
      \<longrightarrow> (\<exists>obj'. p' = Some obj'
             \<and> bTransformChanged obj' = (if b then False else bTransformChanged obj)
             \<and> \<not> bNeedsToTriggerUpdate obj'))
   \<and> (UploadHoudiniInputComponentTransform E (Some c) log = (cb, cp', clog')
      \<longrightarrow> (\<exists>c'. cp' = Some c'
             \<and> bTransformChanged c' = (if cb then False else bTransformChanged c)
             \<and> \<not> bNeedsToTriggerUpdate c'))
   \<and> (\<not> IsPendingKill I \<and> GetHoudiniInputObjectArray I (GetInputType I) = Some ps
        \<and> i < length ps \<and> \<not> TransformNeedsUpload (ps ! i)
      \<longrightarrow> (\<exists>b' I' log''. UploadInputTransform E log (Some I) = (b', Some I', log'')
             \<and> ObjectsOf I' (GetInputType I) ! i = ps ! i))
   \<and> (\<not> IsPendingKill J \<and> GetHoudiniInputObjectArray J (GetInputType J) = Some qs
        \<and> filter TransformNeedsUpload qs = []
      \<longrightarrow> fst (UploadInputTransform E log (Some J))
          \<and> snd (snd (UploadInputTransform E log (Some J))) = log)
   \<and> snd (UploadInputTransformLoop E xs b0 log)
       = snd (UploadInputTransformLoop E (filter TransformNeedsUpload xs) b0 log)
   \<and> snd (UploadActorComponentTransforms E cs b0 log)
       = snd (UploadActorComponentTransforms E (filter TransformNeedsUpload cs) b0 log)"
  using UploadHoudiniInputTransform_flags [of E obj log b p' log']
    UploadHoudiniInputComponentTransform_flags [of E c log cb cp' clog']
    UploadInputTransform_untouched [of I ps i E log]
    UploadInputTransform_nothing_moved [of J qs E log]
    UploadInputTransformLoop_filter [of E xs b0 log]
    UploadActorComponentTransforms_filter [of E cs b0 log]
  by blast

lemmas transform_defs =
  UploadInputTransform_def UploadHoudiniInputTransform_def UploadHoudiniInputComponentTransform_def
  TransformSwitch_def UpdateTransform_def MarkTransformUploaded_def MarkTransformChanged_def
  SetNeedsToTriggerUpdate_def CallApi_def GetHoudiniInputObjectArray_def
  SetHoudiniInputObjectArray_def TransformNeedsUpload_def ObjectsOf_def Let_def
  NewHoudiniInput_def NewInputObject_def RefusingEngine_def AcceptingEngine_def
  GeometryInputWithMesh_def GeometryInputWithMovedMesh_def MovedStaticMesh_def KeptStaticMesh_def
  KeptMeshComponent_def AsComponent_def WithComponents_def FTransform_Identity_def

theorem UploadInputTransform_only_changed_witness:
  "UploadHoudiniInputTransform AcceptingEngine (Some MovedStaticMesh) []
     = (True, Some (MovedStaticMesh\<lparr>bTransformChanged := False, bNeedsToTriggerUpdate := False\<rparr>),
        [SetObjectTransform 6 7])
   \<and> UploadHoudiniInputTransform RefusingEngine (Some MovedStaticMesh) []
     = (False, Some (MovedStaticMesh\<lparr>bNeedsToTriggerUpdate := False\<rparr>), [SetObjectTransform 6 7])
   \<and> fst (UploadHoudiniInputComponentTransform AcceptingEngine
             (Some (KeptMeshComponent\<lparr>bTransformChanged := True\<rparr>)) [])
   \<and> \<not> IsPendingKill GeometryInputWithMovedMesh
   \<and> GetHoudiniInputObjectArray GeometryInputWithMovedMesh (GetInputType GeometryInputWithMovedMesh)
       = Some [Some KeptStaticMesh, Some MovedStaticMesh]
   \<and> \<not> TransformNeedsUpload (Some KeptStaticMesh)
   \<and> ObjectsOf (the (fst (snd (UploadInputTransform AcceptingEngine [] (Some GeometryInputWithMovedMesh)))))
        EHoudiniInputType_Geometry ! 0 = Some KeptStaticMesh
   \<and> snd (snd (UploadInputTransform AcceptingEngine [] (Some GeometryInputWithMovedMesh)))
       = [SetObjectTransform 6 7]
   \<and> \<not> IsPendingKill GeometryInputWithMesh
   \<and> filter TransformNeedsUpload (ObjectsOf GeometryInputWithMesh EHoudiniInputType_Geometry) = []
   \<and> snd (snd (UploadInputTransform AcceptingEngine [] (Some GeometryInputWithMesh))) = []"
  using UploadInputTransform_only_changed
          [where E = AcceptingEngine and obj = MovedStaticMesh and log = "[]" and b = True
             and p' = "Some (MovedStaticMesh\<lparr>bTransformChanged := False, bNeedsToTriggerUpdate := False\<rparr>)"
             and log' = "[SetObjectTransform 6 7]"
             and c = "KeptMeshComponent\<lparr>bTransformChanged := True\<rparr>" and cb = True
             and cp' = "Some (KeptMeshComponent\<lparr>bTransformChanged := False\<rparr>)"
             and clog' = "[GetHostTransform (KeptMeshComponent\<lparr>bTransformChanged := True\<rparr>),
                           SetObjectTransform 31 0]"
             and I = GeometryInputWithMovedMesh and ps = "[Some KeptStaticMesh, Some MovedStaticMesh]"
             and i = 0 and J = GeometryInputWithMesh
             and qs = "[None, Some ((NewInputObject EHoudiniInputObjectType_StaticMesh)
                      \<lparr>InputNodeId := 3, InputObjectNodeId := 4\<rparr>)]"]
  by (simp add: transform_defs)

section \<open>UploadChangedInputs: which inputs are touched and which flags are cleared\<close>

text \<open>An input that is null, pending kill or not marked changed is skipped: the loop leaves it
  as it was and logs nothing for it. An input that is processed always ends with its
  needs-to-trigger-update flag cleared.\<close>

lemma UploadChangedInput_skips:
  "\<not> IsValidInput p \<or> (\<exists>I. p = Some I \<and> \<not> HasChanged I)
     \<Longrightarrow> UploadChangedInput E log p = (p, log)"
  by (auto simp: UploadChangedInput_def IsValidInput_def split: option.splits)

lemma UploadChangedInput_trigger:
  "\<not> IsPendingKill I \<Longrightarrow> HasChanged I
     \<Longrightarrow> \<exists>I' log'. UploadChangedInput E log (Some I) = (Some I', log')
           \<and> \<not> NeedsToTriggerUpdate I'"
  by (simp add: UploadChangedInput_def Let_def split: prod.splits)

lemma UploadChangedInputsLoop_skips:
  "UploadChangedInputsLoop E ps log = (ps', log') \<Longrightarrow> i < length ps
     \<Longrightarrow> \<not> IsValidInput (ps ! i) \<or> (\<exists>I. ps ! i = Some I \<and> \<not> HasChanged I)
     \<Longrightarrow> ps' ! i = ps ! i"
proof (induction ps arbitrary: log ps' log' i)
  case Nil
  then show ?case by simp
next
  case (Cons p ps)
  obtain p1 log1 where step: "UploadChangedInput E log p = (p1, log1)"
    by (cases "UploadChangedInput E log p") auto
  obtain ps2 log2 where rest: "UploadChangedInputsLoop E ps log1 = (ps2, log2)"
    by (cases "UploadChangedInputsLoop E ps log1") auto
  from Cons.prems(1) step rest have r: "ps' = p1 # ps2" by simp
  show ?case
  proof (cases i)
    case 0
    with Cons.prems(3) UploadChangedInput_skips [of p E log] step r show ?thesis by simp
  next
    case (Suc i')
    with Cons.prems(2,3) Cons.IH [OF rest, of i'] r show ?thesis by simp
  qed
qed

lemma UploadChangedInputsLoop_trigger:
  "UploadChangedInputsLoop E ps log = (ps', log') \<Longrightarrow> i < length ps
     \<Longrightarrow> ps ! i = Some I \<Longrightarrow> \<not> IsPendingKill I \<Longrightarrow> HasChanged I
     \<Longrightarrow> \<exists>I'. ps' ! i = Some I' \<and> \<not> NeedsToTriggerUpdate I'"
proof (induction ps arbitrary: log ps' log' i)
  case Nil
  then show ?case by simp
next
  case (Cons p ps)
  obtain p1 log1 where step: "UploadChangedInput E log p = (p1, log1)"
    by (cases "UploadChangedInput E log p") auto
  obtain ps2 log2 where rest: "UploadChangedInputsLoop E ps log1 = (ps2, log2)"
    by (cases "UploadChangedInputsLoop E ps log1") auto
  from Cons.prems(1) step rest have r: "ps' = p1 # ps2" by simp
  show ?case
  proof (cases i)
    case 0
    with Cons.prems(3,4,5) UploadChangedInput_trigger [of I E log] step r show ?thesis by auto
  next
    case (Suc i')
    with Cons.prems(2,3,4,5) Cons.IH [OF rest, of i'] r show ?thesis by simp
  qed
qed

lemmas changed_input_defs =
  UploadChangedInputs_def UploadChangedInput_def UpdateInputProperties_def UpdateTransformType_def
  UpdatePackBeforeMerge_def UpdateTransformOffset_def MarkInputChanged_def
  MarkAllInputObjectsChanged_def ChangeInputType_def
  UploadInputData_def UploadInputObject_def UploadHoudiniInputObject_def UploadSwitch_def
  CreateNodeAndAdd_def CallTranslator_def MarkUploaded_def MarkChanged_def
  SetNeedsToTriggerUpdate_def KeepsNode_def ConnectInputObjects_def
  ConnectInputNode_def CallApi_def GetHoudiniInputObjectArray_def SetHoudiniInputObjectArray_def
  InvalidateInputNode_def ConnectToMergeNode_def Let_def ObjectsOf_def
  NewHoudiniInput_def NewInputObject_def RefusingEngine_def ChangedStaticMesh_def
  ChangedGeometryInput_def ComponentWithChangedInput_def AsComponent_def WithComponents_def
  FTransform_Identity_def

text \<open>Claim C6. For a changed input the changed flags of the input and of its input objects
  should be cleared only when every update step succeeded. The code accumulates the results of
  \<open>UploadInputData\<close> and \<open>UploadInputTransform\<close> in \<open>bSuccess\<close> and then assigns the result of
  \<open>UpdateInputProperties\<close> to it, so the accumulated value is lost. With an engine that refuses
  every call, the upload of the changed static mesh fails and the mesh is still marked changed
  when \<open>UploadInputData\<close> returns false; \<open>UpdateInputProperties\<close> has nothing to set and returns
  true, and \<open>UploadChangedInputs\<close> clears the changed flag of the input and of the mesh although
  nothing was uploaded.\<close>

theorem UploadChangedInputs_forgets_failed_upload:
  "\<not> fst (UploadInputData RefusingEngine [] (Some ChangedGeometryInput))
   \<and> map (map_option bHasChanged)
        (ObjectsOf (the (fst (snd (UploadInputData RefusingEngine [] (Some ChangedGeometryInput)))))
           EHoudiniInputType_Geometry) = [Some True]
   \<and> fst (UploadChangedInputs RefusingEngine [] (Some ComponentWithChangedInput))
   \<and> map (map_option HasChanged)
        (Inputs (the (fst (snd (UploadChangedInputs RefusingEngine [] (Some ComponentWithChangedInput))))))
       = [Some False]
   \<and> map (map_option (\<lambda>I. map (map_option bHasChanged) (ObjectsOf I EHoudiniInputType_Geometry)))
        (Inputs (the (fst (snd (UploadChangedInputs RefusingEngine [] (Some ComponentWithChangedInput))))))
       = [Some [Some False]]
   \<and> snd (snd (UploadChangedInputs RefusingEngine [] (Some ComponentWithChangedInput)))
       = [CreateInputNode HapiCreateInputNodeForStaticMesh (AsComponent ChangedStaticMesh),
          QueryNodeInput 1 0]"
  by (simp add: changed_input_defs)

section \<open>BuildAllInputs: the size of the input array and how the inputs are plugged\<close>

lemma InputParametersOf_length:
  "length (InputParametersOf Ps) = NumInputParameters Ps"
proof -
  let ?P = "\<lambda>p. GetParameterType p = EHoudiniParameterType_Input"
  have "filter ?P (map ((!) Ps) [0 ..< length Ps]) = map ((!) Ps) (filter (?P \<circ> (!) Ps) [0 ..< length Ps])"
    by (rule filter_map)
  then have "length (filter ?P Ps) = length (filter (?P \<circ> (!) Ps) [0 ..< length Ps])"
    by (simp add: map_nth)
  then show ?thesis
    by (simp add: InputParametersOf_def NumInputParameters_def comp_def)
qed

lemma AppendNewInputs_eq:
  "NewObjectCreates E \<Longrightarrow>
   AppendNewInputs E log InputIdx k Ins
     = Ins @ map (\<lambda>j. NewObject E log (''Input'' @ FromInt (int j + 1))) [InputIdx ..< InputIdx + k]"
proof (induction k arbitrary: InputIdx Ins)
  case 0
  then show ?case by simp
next
  case (Suc k)
  have valid: "IsValidInput (NewObject E log n)" for n
    using Suc.prems by (auto simp: NewObjectCreates_def IsValidInput_def split: option.splits)
  have "[InputIdx ..< InputIdx + Suc k] = InputIdx # [Suc InputIdx ..< Suc InputIdx + k]"
    by (simp add: upt_conv_Cons)
  then show ?case
    using Suc.IH [OF Suc.prems] valid by (simp add: Let_def)
qed

lemma DestroySurplusInputs_fold:
  "DestroySurplusInputs E xs log = fold (DisconnectAndDestroyCalls E) (filter IsValidInput xs) log"
proof (induction xs arbitrary: log)
  case Nil
  then show ?case by simp
next
  case (Cons p xs)
  then show ?case
    by (auto simp: IsValidInput_def DisconnectAndDestroyCalls_def split: option.splits prod.splits)
qed

lemma SamePlug_refl [simp]: "SamePlug I I"
  by (simp add: SamePlug_def)

lemma SamePlug_trans: "SamePlug I J \<Longrightarrow> SamePlug J K \<Longrightarrow> SamePlug I K"
  by (simp add: SamePlug_def)

lemma SetInputType_SamePlug: "SamePlug I (SetInputType T I)"
  by (simp add: SamePlug_def SetInputType_def)

lemma SetDefaultAssetFromHDA_result:
  "\<exists>b I' ext. SetDefaultAssetFromHDA E log (Some I) = (b, Some I', log @ ext) \<and> SamePlug I I'"
  by (auto simp: SetDefaultAssetFromHDA_def SamePlug_def SetInputType_def Let_def split: option.splits)

lemma InitializeInputType_result:
  "\<exists>I' ext. InitializeInputType E L I log = (I', log @ ext) \<and> SamePlug I I'"
proof (cases "GetInputType I = EHoudiniInputType_Invalid")
  case False
  then show ?thesis by (simp add: InitializeInputType_def)
next
  case True
  define IA where "IA = SetInputType (GetDefaultInputTypeFromLabel L) I"
  obtain b I' ext where r: "SetDefaultAssetFromHDA E log (Some IA) = (b, Some I', log @ ext)"
    and s: "SamePlug IA I'"
    using SetDefaultAssetFromHDA_result [of E log IA] by blast
  have "SamePlug I IA" unfolding IA_def by (rule SetInputType_SamePlug)
  from this s have "SamePlug I I'" by (rule SamePlug_trans)
  moreover have "InitializeInputType E L I log = (I', log @ ext)"
    using True r by (simp add: InitializeInputType_def IA_def [symmetric])
  ultimately show ?thesis by blast
qed

lemma UpdateInputObjects_result:
  "\<exists>I' ext. UpdateInputObjects E I log = (I', log @ ext) \<and> SamePlug I I'"
  by (auto simp: UpdateInputObjects_def SamePlug_def SetHoudiniInputObjectArray_def Let_def
      split: option.splits)

lemma PlugInput_result:
  "\<not> IsPendingKill I \<Longrightarrow>
   \<exists>I' N L H Ps' ext. PlugInput E A g IP idx I Ps log = (I', N, L, H, Ps', log @ ext)
      \<and> ObjectName I' = ObjectName I \<and> PluggedAs A g idx I' \<and> length Ps' = length Ps"
proof (cases "int idx \<ge> g")
  case False
  assume "\<not> IsPendingKill I"
  with False show ?thesis
    by (simp add: PlugInput_def Let_def CallApi_def SetSOPInput_def PluggedAs_def)
next
  case True
  assume "\<not> IsPendingKill I"
  with True show ?thesis
    by (simp add: PlugInput_def Let_def SetObjectPathParameter_def PluggedAs_def
        split: option.splits prod.splits)
qed

lemma PluggedAs_SamePlug:
  "PluggedAs A g idx I \<Longrightarrow> SamePlug I I' \<Longrightarrow> PluggedAs A g idx I'"
  by (simp add: PluggedAs_def SamePlug_def)

lemma PluggedAs_names:
  "PluggedAs A g idx (I\<lparr>GetName := N, GetLabel := L, GetHelp := H\<rparr>) = PluggedAs A g idx I"
  by (simp add: PluggedAs_def)

lemma BuildInput_result:
  assumes live: "\<not> IsPendingKill I"
  shows "\<exists>I' Ps' ext. BuildInput E A g IP idx I Ps log = (I', Ps', log @ ext)
           \<and> ObjectName I' = ObjectName I \<and> PluggedAs A g idx I' \<and> length Ps' = length Ps"
proof -
  obtain I2 N L H Ps1 ext1 where
    p: "PlugInput E A g IP idx I Ps log = (I2, N, L, H, Ps1, log @ ext1)"
    and n2: "ObjectName I2 = ObjectName I" and pl2: "PluggedAs A g idx I2"
    and len: "length Ps1 = length Ps"
    using PlugInput_result [OF live, of E A g IP idx Ps log] by blast
  define H' where "H' = (if H = [] then L @ ''('' @ N @ '')'' else H)"
  define I4 where "I4 = I2\<lparr>GetName := N, GetLabel := L, GetHelp := H'\<rparr>"
  have pl4: "PluggedAs A g idx I4" and n4: "ObjectName I4 = ObjectName I"
    using pl2 n2 by (simp_all add: I4_def PluggedAs_names)
  obtain I5 ext2 where
    i: "InitializeInputType E L I4 (log @ ext1) = (I5, (log @ ext1) @ ext2)" and s5: "SamePlug I4 I5"
    using InitializeInputType_result [of E L I4 "log @ ext1"] by blast
  obtain I6 ext3 where
    u: "UpdateInputObjects E I5 ((log @ ext1) @ ext2) = (I6, ((log @ ext1) @ ext2) @ ext3)"
    and s6: "SamePlug I5 I6"
    using UpdateInputObjects_result [of E I5 "(log @ ext1) @ ext2"] by blast
  have s: "SamePlug I4 I6" using s5 s6 by (rule SamePlug_trans)
  have "BuildInput E A g IP idx I Ps log = (I6, Ps1, log @ (ext1 @ ext2 @ ext3))"
    using p i u by (simp add: BuildInput_def I4_def H'_def)
  moreover have "ObjectName I6 = ObjectName I" using s n4 by (simp add: SamePlug_def)
  moreover have "PluggedAs A g idx I6" using pl4 s by (rule PluggedAs_SamePlug)
  ultimately show ?thesis using len by blast
qed

lemma BuildInputsLoop_result:
  "\<exists>xs' Ps' ext. BuildInputsLoop E A g IP idx xs Ps log = (xs', Ps', log @ ext)
      \<and> length xs' = length xs
      \<and> (\<forall>i < length xs.
            (\<not> IsValidInput (xs ! i) \<longrightarrow> xs' ! i = xs ! i)
          \<and> (IsValidInput (xs ! i) \<longrightarrow>
                (\<exists>I'. xs' ! i = Some I' \<and> ObjectName I' = ObjectName (the (xs ! i))
                      \<and> PluggedAs A g (idx + i) I')))"
proof (induction xs arbitrary: idx Ps log)
  case Nil
  then show ?case by simp
next
  case (Cons p xs)
  show ?case
  proof (cases "IsValidInput p")
    case False
    obtain xs' Ps' ext where
      r: "BuildInputsLoop E A g IP (Suc idx) xs Ps log = (xs', Ps', log @ ext)"
      and l: "length xs' = length xs"
      and n: "\<forall>i < length xs.
            (\<not> IsValidInput (xs ! i) \<longrightarrow> xs' ! i = xs ! i)
          \<and> (IsValidInput (xs ! i) \<longrightarrow>
                (\<exists>I'. xs' ! i = Some I' \<and> ObjectName I' = ObjectName (the (xs ! i))
                      \<and> PluggedAs A g (Suc idx + i) I'))"
      using Cons.IH [of "Suc idx" Ps log] by blast
    have e: "BuildInputsLoop E A g IP idx (p # xs) Ps log = (p # xs', Ps', log @ ext)"
      using False r by (auto simp: IsValidInput_def split: option.splits)
    have "\<forall>i < length (p # xs).
            (\<not> IsValidInput ((p # xs) ! i) \<longrightarrow> (p # xs') ! i = (p # xs) ! i)
          \<and> (IsValidInput ((p # xs) ! i) \<longrightarrow>
                (\<exists>I'. (p # xs') ! i = Some I' \<and> ObjectName I' = ObjectName (the ((p # xs) ! i))
                      \<and> PluggedAs A g (idx + i) I'))"
    proof (intro allI impI)
      fix i assume "i < length (p # xs)"
      then show "(\<not> IsValidInput ((p # xs) ! i) \<longrightarrow> (p # xs') ! i = (p # xs) ! i)
          \<and> (IsValidInput ((p # xs) ! i) \<longrightarrow>
                (\<exists>I'. (p # xs') ! i = Some I' \<and> ObjectName I' = ObjectName (the ((p # xs) ! i))
                      \<and> PluggedAs A g (idx + i) I'))"
        using False n by (cases i) auto
    qed
    with e l show ?thesis by auto
  next
    case True
    then obtain I where p: "p = Some I" and live: "\<not> IsPendingKill I"
      by (auto simp: IsValidInput_def split: option.splits)
    obtain I' Ps1 ext1 where
      b: "BuildInput E A g IP idx I Ps log = (I', Ps1, log @ ext1)"
      and n1: "ObjectName I' = ObjectName I" and pl: "PluggedAs A g idx I'"
      using BuildInput_result [OF live, of E A g IP idx Ps log] by blast
    obtain xs' Ps' ext where
      r: "BuildInputsLoop E A g IP (Suc idx) xs Ps1 (log @ ext1) = (xs', Ps', (log @ ext1) @ ext)"
      and l: "length xs' = length xs"
      and n: "\<forall>i < length xs.
            (\<not> IsValidInput (xs ! i) \<longrightarrow> xs' ! i = xs ! i)
          \<and> (IsValidInput (xs ! i) \<longrightarrow>
                (\<exists>I'. xs' ! i = Some I' \<and> ObjectName I' = ObjectName (the (xs ! i))
                      \<and> PluggedAs A g (Suc idx + i) I'))"
      using Cons.IH [of "Suc idx" Ps1 "log @ ext1"] by blast
    have e: "BuildInputsLoop E A g IP idx (p # xs) Ps log = (Some I' # xs', Ps', log @ (ext1 @ ext))"
      using p live b r by simp
    have "\<forall>i < length (p # xs).
            (\<not> IsValidInput ((p # xs) ! i) \<longrightarrow> (Some I' # xs') ! i = (p # xs) ! i)
          \<and> (IsValidInput ((p # xs) ! i) \<longrightarrow>
                (\<exists>J. (Some I' # xs') ! i = Some J \<and> ObjectName J = ObjectName (the ((p # xs) ! i))
                      \<and> PluggedAs A g (idx + i) J))"
    proof (intro allI impI)
      fix i assume "i < length (p # xs)"
      then show "(\<not> IsValidInput ((p # xs) ! i) \<longrightarrow> (Some I' # xs') ! i = (p # xs) ! i)
          \<and> (IsValidInput ((p # xs) ! i) \<longrightarrow>
                (\<exists>J. (Some I' # xs') ! i = Some J \<and> ObjectName J = ObjectName (the ((p # xs) ! i))
                      \<and> PluggedAs A g (idx + i) J))"
        using True p n1 pl n by (cases i) auto
    qed
    with e l show ?thesis by auto
  qed
qed

lemma BuildAllInputs_success:
  assumes "BuildAllInputs E log A Ins Ps = Some (True, Ins', Ps', log')"
  shows "0 \<le> A \<and> 0 \<le> ResultId (Api E log (GetAssetInfo A)) + int (length (InputParametersOf Ps))
     \<and> BuildInputsLoop E A (ResultId (Api E log (GetAssetInfo A))) (InputParametersOf Ps) 0
          (InputsBeforeSecondLoop E (log @ [GetAssetInfo A])
             (ResultId (Api E log (GetAssetInfo A)) + int (length (InputParametersOf Ps))) Ins)
          Ps
          (DestroySurplusInputs E
             (rev (drop (nat (ResultId (Api E log (GetAssetInfo A)) + int (length (InputParametersOf Ps)))) Ins))
             (log @ [GetAssetInfo A]))
        = (Ins', Ps', log')"
  using assms
  by (auto simp: BuildAllInputs_def CallApi_def Let_def InputsBeforeSecondLoop_def
      split: if_splits prod.splits)

lemma InputsBeforeSecondLoop_result:
  assumes c: "NewObjectCreates E" and n: "0 \<le> n"
  shows "length (InputsBeforeSecondLoop E log1 n Ins) = nat n
     \<and> (\<forall>i < nat n.
          (i < length Ins \<longrightarrow> InputsBeforeSecondLoop E log1 n Ins ! i = Ins ! i)
        \<and> (length Ins \<le> i \<longrightarrow>
             (\<exists>I. InputsBeforeSecondLoop E log1 n Ins ! i = Some I \<and> \<not> IsPendingKill I
                  \<and> ObjectName I = ''Input'' @ FromInt (int i + 1))))"
proof (cases "int (length Ins) < n")
  case False
  then show ?thesis using n by (auto simp: InputsBeforeSecondLoop_def)
next
  case True
  define k where "k = nat n - length Ins"
  have nk: "nat n = length Ins + k" using True k_def by simp
  have eq: "InputsBeforeSecondLoop E log1 n Ins
      = Ins @ map (\<lambda>j. NewObject E log1 (''Input'' @ FromInt (int j + 1))) [length Ins ..< length Ins + k]"
    using True AppendNewInputs_eq [OF c, of log1 "length Ins" k Ins]
    by (simp add: InputsBeforeSecondLoop_def k_def)
  have new: "\<exists>I. NewObject E log1 name = Some I \<and> \<not> IsPendingKill I \<and> ObjectName I = name" for name
  proof -
    from c have "case NewObject E log1 name of None \<Rightarrow> False
                 | Some I \<Rightarrow> \<not> IsPendingKill I \<and> ObjectName I = name"
      unfolding NewObjectCreates_def by blast
    then show ?thesis by (cases "NewObject E log1 name") auto
  qed
  show ?thesis
  proof (intro conjI allI impI)
    show "length (InputsBeforeSecondLoop E log1 n Ins) = nat n"
      by (simp add: eq nk)
  next
    fix i assume "i < nat n" and "i < length Ins"
    then show "InputsBeforeSecondLoop E log1 n Ins ! i = Ins ! i"
      by (simp add: eq nth_append)
  next
    fix i assume i: "i < nat n" and ge: "length Ins \<le> i"
    then have "i - length Ins < k" using nk by simp
    then have "InputsBeforeSecondLoop E log1 n Ins ! i
        = NewObject E log1 (''Input'' @ FromInt (int i + 1))"
      using ge by (simp add: eq nth_append)
    then show "\<exists>I. InputsBeforeSecondLoop E log1 n Ins ! i = Some I \<and> \<not> IsPendingKill I
                  \<and> ObjectName I = ''Input'' @ FromInt (int i + 1)"
      using new [of "''Input'' @ FromInt (int i + 1)"] by simp
  qed
qed

text \<open>
  C5. BuildAllInputs returns false, changing nothing, when the asset node id is negative.
  When it succeeds on an engine whose NewObject always creates a live input, the array holds
  exactly geoInputCount plus the number of parameters of type Input; an entry kept from the old
  array that is null or pending kill is left as it is, every other entry is the old input at
  that position or, past the old size, a new input created under the name "InputN" with N its
  position counted from 1, and is plugged into the asset as the geometry input of that index
  below geoInputCount and as an object-path parameter input from there on; and the calls start
  with those of DisconnectAndDestroyInput on each live surplus input, from the last one down.
\<close>

theorem BuildAllInputs_size_invariant:
  "(AssetId < 0 \<longrightarrow> BuildAllInputs E log AssetId Ins Ps = Some (False, Ins, Ps, log))
   \<and> (NewObjectCreates E \<and> BuildAllInputs E log AssetId Ins Ps = Some (True, Ins', Ps', log')
      \<longrightarrow> length Ins' = nat (ResultId (Api E log (GetAssetInfo AssetId)) + int (NumInputParameters Ps))
        \<and> (\<forall>i < length Ins'.
              (i < length Ins \<and> \<not> IsValidInput (Ins ! i) \<longrightarrow> Ins' ! i = Ins ! i)
            \<and> (i < length Ins \<and> IsValidInput (Ins ! i) \<longrightarrow>
                 (\<exists>I'. Ins' ! i = Some I' \<and> ObjectName I' = ObjectName (the (Ins ! i))
                       \<and> PluggedAs AssetId (ResultId (Api E log (GetAssetInfo AssetId))) i I'))
            \<and> (length Ins \<le> i \<longrightarrow>
                 (\<exists>I'. Ins' ! i = Some I' \<and> ObjectName I' = ''Input'' @ FromInt (int i + 1)
                       \<and> PluggedAs AssetId (ResultId (Api E log (GetAssetInfo AssetId))) i I')))
        \<and> prefix
            (fold (DisconnectAndDestroyCalls E)
               (filter IsValidInput
                  (rev (drop (nat (ResultId (Api E log (GetAssetInfo AssetId))
                                   + int (NumInputParameters Ps))) Ins)))
               (log @ [GetAssetInfo AssetId]))
            log')"
proof (intro conjI impI)
  assume "AssetId < 0"
  then show "BuildAllInputs E log AssetId Ins Ps = Some (False, Ins, Ps, log)"
    by (simp add: BuildAllInputs_def)
next
  assume a: "NewObjectCreates E \<and> BuildAllInputs E log AssetId Ins Ps = Some (True, Ins', Ps', log')"
  define g where "g = ResultId (Api E log (GetAssetInfo AssetId))"
  define n where "n = g + int (NumInputParameters Ps)"
  define log1 where "log1 = log @ [GetAssetInfo AssetId]"
  define xs where "xs = InputsBeforeSecondLoop E log1 n Ins"
  define log2 where "log2 = DestroySurplusInputs E (rev (drop (nat n) Ins)) log1"
  from a have c: "NewObjectCreates E" by simp
  from a BuildAllInputs_success [of E log AssetId Ins Ps Ins' Ps' log']
  have n0: "0 \<le> n"
    and loop: "BuildInputsLoop E AssetId g (InputParametersOf Ps) 0 xs Ps log2 = (Ins', Ps', log')"
    by (simp_all add: g_def n_def log1_def xs_def log2_def InputParametersOf_length)
  from InputsBeforeSecondLoop_result [OF c n0, of log1 Ins]
  have lxs: "length xs = nat n"
    and old: "\<And>i. i < nat n \<Longrightarrow> i < length Ins \<Longrightarrow> xs ! i = Ins ! i"
    and new: "\<And>i. i < nat n \<Longrightarrow> length Ins \<le> i \<Longrightarrow>
                \<exists>I. xs ! i = Some I \<and> \<not> IsPendingKill I \<and> ObjectName I = ''Input'' @ FromInt (int i + 1)"
    by (simp_all add: xs_def)
  obtain ext where
    len: "length Ins' = length xs" and lg: "log' = log2 @ ext"
    and nth: "\<And>i. i < length xs \<Longrightarrow>
            (\<not> IsValidInput (xs ! i) \<longrightarrow> Ins' ! i = xs ! i)
          \<and> (IsValidInput (xs ! i) \<longrightarrow>
                (\<exists>I'. Ins' ! i = Some I' \<and> ObjectName I' = ObjectName (the (xs ! i))
                      \<and> PluggedAs AssetId g i I'))"
    using BuildInputsLoop_result [of E AssetId g "InputParametersOf Ps" 0 xs Ps log2] loop
    by auto
  show "length Ins' = nat (ResultId (Api E log (GetAssetInfo AssetId)) + int (NumInputParameters Ps))"
    using len lxs by (simp add: n_def g_def)
  show "prefix
            (fold (DisconnectAndDestroyCalls E)
               (filter IsValidInput
                  (rev (drop (nat (ResultId (Api E log (GetAssetInfo AssetId))
                                   + int (NumInputParameters Ps))) Ins)))
               (log @ [GetAssetInfo AssetId]))
            log'"
    using lg DestroySurplusInputs_fold [of E "rev (drop (nat n) Ins)" log1]
    by (simp add: log2_def log1_def n_def g_def)
  show "\<forall>i < length Ins'.
              (i < length Ins \<and> \<not> IsValidInput (Ins ! i) \<longrightarrow> Ins' ! i = Ins ! i)
            \<and> (i < length Ins \<and> IsValidInput (Ins ! i) \<longrightarrow>
                 (\<exists>I'. Ins' ! i = Some I' \<and> ObjectName I' = ObjectName (the (Ins ! i))
                       \<and> PluggedAs AssetId (ResultId (Api E log (GetAssetInfo AssetId))) i I'))
            \<and> (length Ins \<le> i \<longrightarrow>
                 (\<exists>I'. Ins' ! i = Some I' \<and> ObjectName I' = ''Input'' @ FromInt (int i + 1)
                       \<and> PluggedAs AssetId (ResultId (Api E log (GetAssetInfo AssetId))) i I'))"
  proof (intro allI impI)
    fix i assume "i < length Ins'"
    then have i: "i < nat n" and ix: "i < length xs" using len lxs by simp_all
    show "(i < length Ins \<and> \<not> IsValidInput (Ins ! i) \<longrightarrow> Ins' ! i = Ins ! i)
            \<and> (i < length Ins \<and> IsValidInput (Ins ! i) \<longrightarrow>
                 (\<exists>I'. Ins' ! i = Some I' \<and> ObjectName I' = ObjectName (the (Ins ! i))
                       \<and> PluggedAs AssetId (ResultId (Api E log (GetAssetInfo AssetId))) i I'))
            \<and> (length Ins \<le> i \<longrightarrow>
                 (\<exists>I'. Ins' ! i = Some I' \<and> ObjectName I' = ''Input'' @ FromInt (int i + 1)
                       \<and> PluggedAs AssetId (ResultId (Api E log (GetAssetInfo AssetId))) i I'))"
    proof (cases "i < length Ins")
      case True
      with old [OF i] nth [OF ix] show ?thesis by (simp add: g_def)
    next
      case False
      then obtain I where "xs ! i = Some I" "\<not> IsPendingKill I"
        "ObjectName I = ''Input'' @ FromInt (int i + 1)"
        using new [OF i] by auto
      with False nth [OF ix] show ?thesis by (auto simp: g_def IsValidInput_def)
    qed
  qed
qed

lemma AssetWithGeoInputs_fields:
  "Api (AssetWithGeoInputs n) log (GetAssetInfo a) = HAPI_Result True n [] FTransform_Identity"
  "Api (AssetWithGeoInputs n) log (GetNodeInputName a i) = HAPI_Result True 0 ''Mesh'' FTransform_Identity"
  "NewObject (AssetWithGeoInputs n) log name = Some (NewHoudiniInput name)"
  "DefaultAssetFromHDA (AssetWithGeoInputs n) log I = None"
  "UpdatedInputCurves (AssetWithGeoInputs n) log I = None"
  "Api EngineOutOfObjects log (GetAssetInfo a) = HAPI_Result True 1 [] FTransform_Identity"
  "NewObject EngineOutOfObjects log name = None"
  by (simp_all add: AssetWithGeoInputs_def AcceptingEngine_def RefusingEngine_def
      EngineOutOfObjects_def)

lemma sample_label_types:
  "GetDefaultInputTypeFromLabel ''Mesh'' = EHoudiniInputType_Geometry"
  "GetDefaultInputTypeFromLabel ''Path'' = EHoudiniInputType_Geometry"
  by (simp_all add: GetDefaultInputTypeFromLabel_def ToUpper_def)

lemma sample_names:
  "FromInt 1 = ''1''" "FromInt 2 = ''2''"
  by (simp_all add: FromInt_def DecimalDigits.simps)

lemmas build_defs =
  BuildAllInputs_def BuildInput_def PlugInput_def InitializeInputType_def UpdateInputObjects_def
  SetDefaultAssetFromHDA_def SetInputType_def SetSOPInput_def SetObjectPathParameter_def
  InputParametersOf_def NumInputParameters_def CallApi_def Let_def sample_names sample_label_types
  IsValidInput_def AssetWithGeoInputs_fields
  ObjectPathParameter_def FloatParameter_def NewHoudiniInput_def PendingKillInput_def
  SetHoudiniInputObjectArray_def eval_nat_numeral PluggedAs_def NewObjectCreates_def

lemmas surplus_defs =
  DisconnectAndDestroyInput_def DisconnectInput_def DestroyInputNodes_def
  DestroyInputObjectNodes_def GetHoudiniInputObjectArray_def MarkChanged_def
  GeometryInputWithMesh_def NewInputObject_def AssetWithGeoInputs_def AcceptingEngine_def
  RefusingEngine_def DisconnectAndDestroyCalls_def FTransform_Identity_def InputsWithSurplus_def

theorem BuildAllInputs_size_invariant_witness:
  "NewObjectCreates (AssetWithGeoInputs 1)
   \<and> BuildAllInputs (AssetWithGeoInputs 1) [] (- 1) [] [] = Some (False, [], [], [])
   \<and> fst (the (BuildAllInputs (AssetWithGeoInputs 1) [] 1 [] [FloatParameter, ObjectPathParameter]))
   \<and> map (map_option ObjectName)
        (fst (snd (the (BuildAllInputs (AssetWithGeoInputs 1) [] 1 []
                          [FloatParameter, ObjectPathParameter]))))
       = [Some ''Input1'', Some ''Input2'']
   \<and> map (map_option IsObjectPathParameter)
        (fst (snd (the (BuildAllInputs (AssetWithGeoInputs 1) [] 1 []
                          [FloatParameter, ObjectPathParameter]))))
       = [Some False, Some True]
   \<and> fst (the (BuildAllInputs (AssetWithGeoInputs 1) [] 1 InputsWithSurplus []))
   \<and> map (map_option ObjectName)
        (fst (snd (the (BuildAllInputs (AssetWithGeoInputs 1) [] 1 InputsWithSurplus []))))
       = [Some ''Input1'']
   \<and> snd (snd (snd (the (BuildAllInputs (AssetWithGeoInputs 1) [] 1 InputsWithSurplus []))))
       = [GetAssetInfo 1, DisconnectNodeInput 1 0, DeleteNode 3, DeleteNode 4,
          HapiGetParentNodeId (- 1), IsHoudiniNodeValid 4, DeleteNode 4, DeleteNode 4,
          HapiGetParentNodeId 9, DeleteNode 9, IsHoudiniNodeValid 8, DeleteNode 8,
          GetNodeInputName 1 0]"
  using BuildAllInputs_size_invariant
          [where E = "AssetWithGeoInputs 1" and log = "[]" and AssetId = "- 1" and Ins = "[]"
             and Ps = "[]" and Ins' = "[]" and Ps' = "[]" and log' = "[]"]
        BuildAllInputs_size_invariant
          [where E = "AssetWithGeoInputs 1" and log = "[]" and AssetId = 1 and Ins = "[]"
             and Ps = "[FloatParameter, ObjectPathParameter]"
             and Ins' = "fst (snd (the (BuildAllInputs (AssetWithGeoInputs 1) [] 1 []
                          [FloatParameter, ObjectPathParameter])))"
             and Ps' = "fst (snd (snd (the (BuildAllInputs (AssetWithGeoInputs 1) [] 1 []
                          [FloatParameter, ObjectPathParameter]))))"
             and log' = "snd (snd (snd (the (BuildAllInputs (AssetWithGeoInputs 1) [] 1 []
                          [FloatParameter, ObjectPathParameter]))))"]
        BuildAllInputs_size_invariant
          [where E = "AssetWithGeoInputs 1" and log = "[]" and AssetId = 1
             and Ins = InputsWithSurplus and Ps = "[]"
             and Ins' = "fst (snd (the (BuildAllInputs (AssetWithGeoInputs 1) [] 1 InputsWithSurplus [])))"
             and Ps' = "[]"
             and log' = "snd (snd (snd (the (BuildAllInputs (AssetWithGeoInputs 1) [] 1 InputsWithSurplus []))))"]
  by (simp add: build_defs surplus_defs)

text \<open>
  The size invariant does not hold on every successful run: an input that NewObject could not
  create is skipped, so the array stays short although the function returns true; and an entry
  that is pending kill keeps the way it was plugged, here as an object-path parameter input at
  a position below geoInputCount.
\<close>

theorem BuildAllInputs_counterexample:
  "BuildAllInputs EngineOutOfObjects [] 1 [] [] = Some (True, [], [], [GetAssetInfo 1])
   \<and> nat (ResultId (Api EngineOutOfObjects [] (GetAssetInfo 1)) + int (NumInputParameters [])) = 1
   \<and> BuildAllInputs (AssetWithGeoInputs 1) [] 1 [Some PendingKillInput] []
       = Some (True, [Some PendingKillInput], [], [GetAssetInfo 1])
   \<and> IsObjectPathParameter PendingKillInput"
  by (simp add: build_defs)

section \<open>UpdateWorldInputs: when the world inputs are not refreshed\<close>




end
